theory Spec2Isabelle
  imports Main "HOL-Library.Multiset" "HOL-Library.AList"
begin

section \<open>Data model of the reduction scheduler\<close>

text \<open>
  The scheduler of \<^verbatim>\<open>csrc/scheduler/reduction_utils.cpp\<close> works on tensor views
  (nodes) that own an ordered list of iteration domains (axes).  The classes
  \<^verbatim>\<open>TensorView\<close>, \<^verbatim>\<open>IterDomain\<close> and \<^verbatim>\<open>ReductionParams\<close> are declared outside the
  two source files at hand; the records below carry exactly the attributes the scheduler
  reads and writes.
\<close>

text \<open>
  Modelled from the spec: the enumeration \<^verbatim>\<open>ParallelType\<close> is declared outside the
  sources.  Section 3 lists the parallel assignments: serial, unroll, vectorize,
  misaligned-vectorize, unswitch, group, the per-block hardware dimensions (TID) and the
  per-grid hardware dimensions (BID).
\<close>

datatype ParallelType =
  BIDz | BIDy | BIDx | TIDz | TIDy | TIDx
  | Vectorize | MisalignedVectorize | Unroll | Unswitch | Group | Serial

text \<open>
  Modelled from the spec: the predicates on parallel types are declared outside the
  sources.  \<^verbatim>\<open>isParallelTypeBlockDim\<close> holds of the grid-level dimensions (block
  indices), \<^verbatim>\<open>isParallelTypeThreadDim\<close> of the block-level dimensions (thread indices) and
  \<^verbatim>\<open>isParallelTypeThread\<close> of both.
\<close>

fun isParallelTypeBlockDim :: "ParallelType \<Rightarrow> bool" where
  "isParallelTypeBlockDim BIDz = True"
| "isParallelTypeBlockDim BIDy = True"
| "isParallelTypeBlockDim BIDx = True"
| "isParallelTypeBlockDim _ = False"

fun isParallelTypeThreadDim :: "ParallelType \<Rightarrow> bool" where
  "isParallelTypeThreadDim TIDz = True"
| "isParallelTypeThreadDim TIDy = True"
| "isParallelTypeThreadDim TIDx = True"
| "isParallelTypeThreadDim _ = False"

definition isParallelTypeThread :: "ParallelType \<Rightarrow> bool" where
  "isParallelTypeThread pt \<longleftrightarrow> isParallelTypeBlockDim pt \<or> isParallelTypeThreadDim pt"

text \<open>
  Modelled from the spec: the scalar values of the IR are declared outside the sources.
  An extent is an immediate integer constant, a named (symbolic)
  scalar such as an input size or \<^verbatim>\<open>blockDim.x\<close>, or the ceiling division a split
  introduces.  \<^verbatim>\<open>isConstScalar\<close> holds when every leaf is a constant; \<^verbatim>\<open>isOneInt\<close>
  holds of the immediate constant one only.
\<close>

datatype Val = IntConst int | NamedScalar string | CeilDiv Val Val

fun isConstScalar :: "Val \<Rightarrow> bool" where
  "isConstScalar (IntConst _) = True"
| "isConstScalar (NamedScalar _) = False"
| "isConstScalar (CeilDiv a b) = (isConstScalar a \<and> isConstScalar b)"

fun isOneInt :: "Val \<Rightarrow> bool" where
  "isOneInt (IntConst i) = (i = 1)"
| "isOneInt _ = False"

text \<open>
  Modelled from the spec: the attributes of an axis (section 3) under the names of the
  accessors the scheduler calls.  \<open>ident\<close> is the identity of the \<^verbatim>\<open>IterDomain\<close> object
  (its address in the C++ program): a root axis is numbered, and the two axes a split
  creates are told apart by the axis they come from.
\<close>

datatype IterDomainPtr = RootId nat | OuterOf IterDomainPtr | InnerOf IterDomainPtr

record IterDomain =
  ident :: IterDomainPtr
  isReduction :: bool
  isBroadcast :: bool
  isImplicitBroadcast :: bool
  getParallelType :: ParallelType
  extent :: Val
  isRFactorProduct :: bool
  paddedToWarp :: bool

definition isBlockDim :: "IterDomain \<Rightarrow> bool" where
  "isBlockDim d = isParallelTypeBlockDim (getParallelType d)"

definition isThreadDim :: "IterDomain \<Rightarrow> bool" where
  "isThreadDim d = isParallelTypeThreadDim (getParallelType d)"

definition isThread :: "IterDomain \<Rightarrow> bool" where
  "isThread d \<longleftrightarrow> isBlockDim d \<or> isThreadDim d"

text \<open>
  Modelled from the spec: a node owns its ordered list of axes and has a memory
  residency (section 3).
\<close>

datatype MemoryType = Local | Shared | Global

record TensorView =
  domain :: "IterDomain list"
  memoryType :: MemoryType

definition nDims :: "TensorView \<Rightarrow> nat" where
  "nDims tv = length (domain tv)"

text \<open>The fatal diagnostics (\<^verbatim>\<open>TORCH_INTERNAL_ASSERT\<close>) of the scheduler and of the
  node operations it calls.\<close>

datatype error =
  TooFewDimensions
  | VectorizeIterDomOnInnerReduction
  | VectorizeReductionOnOuterReduction
  | MultipleReductionsNeedIterDomain
  | UnrollIterDomNeedsIterDomain
  | BlockDimYNotStatic
  | BlockDimXNotStatic
  | VectorizedIDNotFound
  | ReorderLostAxis
  | ReorderOutOfRange
  | ReorderDuplicate
  | AxisOutOfRange
  | SplitNonSerial
  | RFactorFailed
  | ResolutionPointsMismatch
  | UseWithoutDefinition
  | ChainWithoutUse

section \<open>Axis classifier: \<^verbatim>\<open>idPos\<close> and \<^verbatim>\<open>id_lt\<close>\<close>

definition INT_MAX :: int where "INT_MAX = 2147483647"

definition INT_MIN :: int where "INT_MIN = - 2147483648"

definition isUnrollOrVectorize :: "IterDomain \<Rightarrow> bool" where
  "isUnrollOrVectorize d \<longleftrightarrow>
     getParallelType d = Unroll \<or> getParallelType d = Vectorize
     \<or> getParallelType d = MisalignedVectorize"

definition idPos :: "IterDomain \<Rightarrow> int" where
  "idPos d =
    (let inner_most = INT_MAX; outer_most = INT_MIN in
     if isReduction d \<and> isUnrollOrVectorize d then inner_most
     else if isReduction d \<and> isConstScalar (extent d) then inner_most - 1
     else if isReduction d \<and> getParallelType d = Unswitch then inner_most - 2
     else if isReduction d \<and> isThread d then inner_most - 3
     else if isBroadcast d \<or> isImplicitBroadcast d then inner_most - 4
     else if \<not> isReduction d \<and> isUnrollOrVectorize d then inner_most - 5
     else if \<not> isReduction d \<and> getParallelType d = Unswitch then inner_most - 6
     else if isReduction d \<and> \<not> isConstScalar (extent d) then inner_most - 7
     else if \<not> isReduction d \<and> isBlockDim d then outer_most
     else if \<not> isReduction d \<and> isThreadDim d then outer_most + 1
     else if \<not> isReduction d \<and> isConstScalar (extent d) then outer_most + 2
     else if \<not> isReduction d \<and> \<not> isConstScalar (extent d) then outer_most + 3
     else 0)"

definition id_lt :: "IterDomain \<Rightarrow> IterDomain \<Rightarrow> bool" where
  "id_lt id0 id1 \<longleftrightarrow> idPos id0 < idPos id1"

text \<open>
  The ordering key as section 4.1 of the specification words it: the position of the
  first class of the list, read from innermost to outermost, that the axis belongs to.
\<close>

definition spec_class :: "IterDomain \<Rightarrow> nat" where
  "spec_class d =
    (if isReduction d \<and> isUnrollOrVectorize d then 0
     else if isReduction d \<and> isConstScalar (extent d) then 1
     else if isReduction d \<and> getParallelType d = Unswitch then 2
     else if isReduction d \<and> isThread d then 3
     else if isBroadcast d \<or> isImplicitBroadcast d then 4
     else if \<not> isReduction d \<and> isUnrollOrVectorize d then 5
     else if \<not> isReduction d \<and> getParallelType d = Unswitch then 6
     else if isReduction d \<and> \<not> isConstScalar (extent d) then 7
     else if \<not> isReduction d \<and> isBlockDim d then 8
     else if \<not> isReduction d \<and> isThreadDim d then 9
     else if \<not> isReduction d \<and> isConstScalar (extent d) then 10
     else 11)"

text \<open>
  The same key with the four classes beyond the boundary in the order the code gives
  them: iteration+symbolic-extent, iteration+constant-extent,
  iteration+hardware-thread-parallel, iteration+hardware-block-parallel (outermost).
\<close>

definition code_class :: "IterDomain \<Rightarrow> nat" where
  "code_class d = (if spec_class d < 8 then spec_class d else 19 - spec_class d)"

section \<open>Sorting and reordering\<close>

text \<open>
  \<^verbatim>\<open>std::sort\<close> belongs to the C++ standard library.  It is a parameter \<open>srt\<close> of the
  model; all that is known of it is its contract: the result is a rearrangement of the
  range in which no later element is less than an earlier one.  It need not be stable.
\<close>

definition std_sort_contract ::
  "(('a \<Rightarrow> 'a \<Rightarrow> bool) \<Rightarrow> 'a list \<Rightarrow> 'a list) \<Rightarrow> ('a \<Rightarrow> 'a \<Rightarrow> bool) \<Rightarrow> bool" where
  "std_sort_contract srt lt \<longleftrightarrow>
     (\<forall>xs. mset (srt lt xs) = mset xs \<and> sorted_wrt (\<lambda>x y. \<not> lt y x) (srt lt xs))"

text \<open>One conforming sort, for running the model: insertion sort.\<close>

fun insert_by :: "('a \<Rightarrow> 'a \<Rightarrow> bool) \<Rightarrow> 'a \<Rightarrow> 'a list \<Rightarrow> 'a list" where
  "insert_by lt x [] = [x]"
| "insert_by lt x (y # ys) = (if lt y x then y # insert_by lt x ys else x # y # ys)"

fun insertion_sort :: "('a \<Rightarrow> 'a \<Rightarrow> bool) \<Rightarrow> 'a list \<Rightarrow> 'a list" where
  "insertion_sort lt [] = []"
| "insertion_sort lt (x # xs) = insert_by lt x (insertion_sort lt xs)"

text \<open>
  Modelled from the spec: \<^verbatim>\<open>TensorView::reorder\<close> is declared outside the sources.
  Section 4.1: the permutation from old to new axis positions is applied uniformly.
  A negative position counts from the end; a position outside the node, or one that
  occurs twice, is fatal; the axes the map does not mention fill the free positions in
  their old relative order.  The result lists, for every new position, the old position
  that moves there.
\<close>

definition wrap_pos :: "nat \<Rightarrow> int \<Rightarrow> int" where
  "wrap_pos n i = (if i < 0 then i + int n else i)"

fun fill_new2old :: "(int \<times> int) list \<Rightarrow> nat list \<Rightarrow> nat list \<Rightarrow> nat list" where
  "fill_new2old old2new left [] = []"
| "fill_new2old old2new left (k # ks) =
     (case find (\<lambda>(old, new). new = int k) old2new of
        Some (old, new) \<Rightarrow> nat old # fill_new2old old2new left ks
      | None \<Rightarrow>
          (case left of
             [] \<Rightarrow> []
           | l # ls \<Rightarrow> l # fill_new2old old2new ls ks))"

definition normalizeOld2New :: "(int \<times> int) list \<Rightarrow> nat \<Rightarrow> error + nat list" where
  "normalizeOld2New old2new_in n =
    (let old2new = map (\<lambda>(old, new). (wrap_pos n old, wrap_pos n new)) old2new_in in
     if \<exists>(old, new) \<in> set old2new. old < 0 \<or> int n \<le> old \<or> new < 0 \<or> int n \<le> new
     then Inl ReorderOutOfRange
     else if \<not> distinct (map fst old2new) \<or> \<not> distinct (map snd old2new)
     then Inl ReorderDuplicate
     else
       Inr (fill_new2old old2new
              (filter (\<lambda>i. int i \<notin> set (map fst old2new)) [0..<n]) [0..<n]))"

definition reorder :: "(int \<times> int) list \<Rightarrow> TensorView \<Rightarrow> error + TensorView" where
  "reorder old2new tv =
    (case normalizeOld2New old2new (nDims tv) of
       Inl e \<Rightarrow> Inl e
     | Inr new2old \<Rightarrow> Inr (tv\<lparr>domain := map (\<lambda>old. domain tv ! old) new2old\<rparr>))"

section \<open>\<^verbatim>\<open>sortAndRFactor\<close>\<close>

text \<open>
  The map \<^verbatim>\<open>domain_pos\<close> from axis objects to their position in the sorted copy; a
  later entry for the same object replaces an earlier one.
\<close>

fun domain_pos_loop ::
  "IterDomain list \<Rightarrow> int \<Rightarrow> (IterDomainPtr \<times> int) list \<Rightarrow> (IterDomainPtr \<times> int) list" where
  "domain_pos_loop [] axis_i domain_pos = domain_pos"
| "domain_pos_loop (d # ds) axis_i domain_pos =
     domain_pos_loop ds (axis_i + 1) (AList.update (ident d) axis_i domain_pos)"

fun reorder_map_loop ::
  "(IterDomainPtr \<times> int) list \<Rightarrow> IterDomain list \<Rightarrow> int \<Rightarrow> (int \<times> int) list
     \<Rightarrow> error + (int \<times> int) list" where
  "reorder_map_loop domain_pos [] old_i reorder_map = Inr reorder_map"
| "reorder_map_loop domain_pos (d # ds) old_i reorder_map =
     (case map_of domain_pos (ident d) of
        None \<Rightarrow> Inl ReorderLostAxis
      | Some new_i \<Rightarrow>
          reorder_map_loop domain_pos ds (old_i + 1) (AList.update old_i new_i reorder_map))"

definition sorted_domain ::
  "((IterDomain \<Rightarrow> IterDomain \<Rightarrow> bool) \<Rightarrow> IterDomain list \<Rightarrow> IterDomain list)
     \<Rightarrow> TensorView \<Rightarrow> IterDomain list" where
  "sorted_domain srt reference_tv = srt id_lt (domain reference_tv)"

definition sort_reorder_map ::
  "((IterDomain \<Rightarrow> IterDomain \<Rightarrow> bool) \<Rightarrow> IterDomain list \<Rightarrow> IterDomain list)
     \<Rightarrow> TensorView \<Rightarrow> error + (int \<times> int) list" where
  "sort_reorder_map srt reference_tv =
     reorder_map_loop (domain_pos_loop (sorted_domain srt reference_tv) 0 [])
       (domain reference_tv) 0 []"

text \<open>Lines 618 to 633: sort a copy of the axes, then reorder the node like the copy.\<close>

definition sortAndReorder ::
  "((IterDomain \<Rightarrow> IterDomain \<Rightarrow> bool) \<Rightarrow> IterDomain list \<Rightarrow> IterDomain list)
     \<Rightarrow> TensorView \<Rightarrow> error + TensorView" where
  "sortAndReorder srt reference_tv =
     (case sort_reorder_map srt reference_tv of
        Inl e \<Rightarrow> Inl e
      | Inr reorder_map \<Rightarrow> reorder reorder_map reference_tv)"

text \<open>
  Lines 635 to 657: the loop over the reordered axes.  The state is the pair of lists
  \<^verbatim>\<open>rfactor_axes\<close>, \<^verbatim>\<open>rfactor_axes_no_unswitch\<close> and the counter \<^verbatim>\<open>reduction_dims\<close>.
\<close>

fun rfactor_loop ::
  "IterDomain list \<Rightarrow> int \<Rightarrow> int list \<times> int list \<times> nat \<Rightarrow> int list \<times> int list \<times> nat" where
  "rfactor_loop [] axis_i st = st"
| "rfactor_loop (d # ds) axis_i (rfactor_axes, rfactor_axes_no_unswitch, reduction_dims) =
     (if \<not> isReduction d then
        rfactor_loop ds (axis_i + 1) (rfactor_axes, rfactor_axes_no_unswitch, reduction_dims)
      else if isThread d then
        rfactor_loop ds (axis_i + 1)
          (rfactor_axes, rfactor_axes_no_unswitch, reduction_dims + 1)
      else
        rfactor_loop ds (axis_i + 1)
          (rfactor_axes @ [axis_i],
           (if \<not> (getParallelType d = Unswitch \<and> isOneInt (extent d))
            then rfactor_axes_no_unswitch @ [axis_i] else rfactor_axes_no_unswitch),
           reduction_dims + 1))"

text \<open>Lines 659 to 663: the axes handed to \<^verbatim>\<open>rfactorHelper\<close>.\<close>

definition staged_axes :: "TensorView \<Rightarrow> int list" where
  "staged_axes reference_tv =
    (case rfactor_loop (domain reference_tv) 0 ([], [], 0) of
       (rfactor_axes, rfactor_axes_no_unswitch, reduction_dims) \<Rightarrow>
         if reduction_dims = length rfactor_axes then rfactor_axes_no_unswitch
         else rfactor_axes)"

text \<open>
  \<^verbatim>\<open>ir_utils::rfactorHelper\<close> is defined outside the sources and is a parameter
  \<open>rfactorHelper\<close> of the model: from the node and the axes to stage it gives the node as
  it leaves it, and the staged node it returns or its fatal diagnostic.
\<close>

type_synonym rfactor_fn = "TensorView \<Rightarrow> int list \<Rightarrow> TensorView \<times> (error + TensorView)"

type_synonym sort_fn =
  "(IterDomain \<Rightarrow> IterDomain \<Rightarrow> bool) \<Rightarrow> IterDomain list \<Rightarrow> IterDomain list"

definition sortAndRFactor ::
  "sort_fn \<Rightarrow> rfactor_fn \<Rightarrow> TensorView \<Rightarrow> TensorView \<times> (error + TensorView)" where
  "sortAndRFactor srt rfactorHelper reference_tv =
     (case sortAndReorder srt reference_tv of
        Inl e \<Rightarrow> (reference_tv, Inl e)
      | Inr tv \<Rightarrow> rfactorHelper tv (staged_axes tv))"

text \<open>The positions, counted from \<open>k\<close>, of the axes of a list that satisfy a predicate.\<close>

definition positions_where :: "(IterDomain \<Rightarrow> bool) \<Rightarrow> IterDomain list \<Rightarrow> int \<Rightarrow> int list" where
  "positions_where P ds k = map (\<lambda>i. k + int i) (filter (\<lambda>i. P (ds ! i)) [0..<length ds])"

section \<open>\<^verbatim>\<open>scheduleReductionTV\<close>\<close>

text \<open>
  Modelled from the spec: the record \<^verbatim>\<open>ReductionParams\<close> (section 3, scheduling
  parameters) is declared outside the sources.  The fields are the ones the scheduler
  reads, under the names the code uses; \<open>lparams_bdimx\<close> and \<open>lparams_bdimy\<close> stand for
  \<^verbatim>\<open>lparams.bdimx()\<close> and \<^verbatim>\<open>lparams.bdimy()\<close>, and \<open>isUnrolled\<close> for the result of the
  method of that name.  The factors are 64-bit integers in the code.
\<close>

record ReductionParams =
  fastest_dim :: bool
  persistent_kernel :: bool
  schedule_3D :: bool
  cross_block_inner_reduction :: bool
  cross_grid_inner_reduction :: bool
  unroll_factor_inner_reduction :: int
  vectorize_inner_reduction :: bool
  split_grid_dim_inner_reduction :: bool
  pad_inner_reduction_to_warp :: bool
  batches_per_block_inner_reduction :: int
  block_dim_inner_reduction :: ParallelType
  grid_dim_inner_reduction :: ParallelType
  multiple_reds_per_blk :: bool
  unroll_factor_iter_dom :: int
  vectorize_iter_dom :: bool
  split_grid_dim_iter_dom_inner :: bool
  split_grid_dim_iter_dom_outer :: bool
  block_dim_iter_dom :: ParallelType
  grid_dim_iter_dom :: ParallelType
  cross_block_outer_reduction :: bool
  cross_grid_outer_reduction :: bool
  batches_per_block_outer_reduction :: int
  unroll_factor_outer_reduction :: int
  block_dim_outer_reduction :: ParallelType
  grid_dim_outer_reduction :: ParallelType
  static_bdimx :: bool
  static_bdimy :: bool
  lparams_bdimx :: int
  lparams_bdimy :: int
  isUnrolled :: bool

text \<open>
  The calls \<^verbatim>\<open>scheduleReductionTV\<close> makes on the node, in the order it makes them:
  \<^verbatim>\<open>split(axis, factor, inner_split)\<close>, \<^verbatim>\<open>axis(pos)->parallelize(ptype)\<close>,
  \<^verbatim>\<open>axis(pos)->padToMultipleOfWarp()\<close>, and the assertions that stand between them.
\<close>

datatype tv_op =
  Split int Val bool
  | Parallelize int ParallelType
  | PadToMultipleOfWarp int
  | Assert bool error

text \<open>
  An integer factor reaches \<^verbatim>\<open>split(int, unsigned int, bool)\<close> through a conversion to
  \<^verbatim>\<open>unsigned int\<close>: it is taken modulo \<open>2 ^ 32\<close>.  \<^verbatim>\<open>NamedScalar::getParallelDim\<close> names
  the run-time size of a hardware dimension.
\<close>

definition as_unsigned :: "int \<Rightarrow> Val" where
  "as_unsigned factor = IntConst (factor mod 2 ^ 32)"

definition getParallelDim :: "ParallelType \<Rightarrow> Val" where
  "getParallelDim ptype = NamedScalar (case ptype of
      BIDx \<Rightarrow> ''gridDim.x'' | BIDy \<Rightarrow> ''gridDim.y'' | BIDz \<Rightarrow> ''gridDim.z''
    | TIDx \<Rightarrow> ''blockDim.x'' | TIDy \<Rightarrow> ''blockDim.y'' | TIDz \<Rightarrow> ''blockDim.z''
    | _ \<Rightarrow> ''parallelDim'')"

text \<open>The lambdas of lines 64 to 103.\<close>

definition vectorize :: "int \<Rightarrow> int \<Rightarrow> tv_op list" where
  "vectorize axis factor = [Split axis (as_unsigned factor) True, Parallelize (axis + 1) Vectorize]"

definition inner_parallel :: "int \<Rightarrow> ParallelType \<Rightarrow> tv_op list" where
  "inner_parallel axis ptype =
     [Split axis (getParallelDim ptype) True, Parallelize (axis + 1) ptype]"

definition inner_parallel_static :: "int \<Rightarrow> ParallelType \<Rightarrow> int \<Rightarrow> tv_op list" where
  "inner_parallel_static axis ptype factor =
     [Split axis (as_unsigned factor) True, Parallelize (axis + 1) ptype]"

definition inner_unswitch :: "int \<Rightarrow> tv_op list" where
  "inner_unswitch axis = [Split axis (as_unsigned 1) True, Parallelize (axis + 1) Unswitch]"

definition inner_unroll :: "int \<Rightarrow> int \<Rightarrow> tv_op list" where
  "inner_unroll axis factor = [Split axis (as_unsigned factor) True, Parallelize (axis + 1) Unroll]"

definition outer_parallel :: "int \<Rightarrow> ParallelType \<Rightarrow> tv_op list" where
  "outer_parallel axis ptype = [Split axis (getParallelDim ptype) False, Parallelize axis ptype]"

definition outer_unswitch :: "int \<Rightarrow> tv_op list" where
  "outer_unswitch axis = [Split axis (as_unsigned 1) False, Parallelize axis Unswitch]"

definition outer_unroll :: "int \<Rightarrow> int \<Rightarrow> tv_op list" where
  "outer_unroll axis factor = [Split axis (as_unsigned factor) False, Parallelize axis Unroll]"

text \<open>Lines 33 to 38.\<close>

definition iter_axis :: int where
  "iter_axis = 0"

definition outer_reduce_axis :: "ReductionParams \<Rightarrow> int" where
  "outer_reduce_axis rparams = (if schedule_3D rparams then 1 else 0)"

definition inner_reduce_axis :: "ReductionParams \<Rightarrow> bool \<Rightarrow> int" where
  "inner_reduce_axis rparams has_iter_axis =
     (if schedule_3D rparams then 2 else if has_iter_axis then 1 else 0)"

definition is_outer_grid_persistence :: "ReductionParams \<Rightarrow> bool" where
  "is_outer_grid_persistence rparams \<longleftrightarrow>
     persistent_kernel rparams \<and> cross_grid_inner_reduction rparams \<and> \<not> fastest_dim rparams"

text \<open>A sequence of assertions, each with its diagnostic: the first that fails, if any.\<close>

fun failed_assert :: "(bool \<times> error) list \<Rightarrow> error option" where
  "failed_assert [] = None"
| "failed_assert ((cond, e) # asserts) = (if cond then failed_assert asserts else Some e)"

text \<open>Lines 40 to 62.\<close>

definition check_preconditions :: "ReductionParams \<Rightarrow> TensorView \<Rightarrow> bool \<Rightarrow> error option" where
  "check_preconditions rparams reduction_tv has_iter_axis =
     failed_assert
       [(int (nDims reduction_tv) >
           max iter_axis (max (outer_reduce_axis rparams)
                              (inner_reduce_axis rparams has_iter_axis)),
         TooFewDimensions),
        (\<not> (fastest_dim rparams \<and> vectorize_iter_dom rparams),
         VectorizeIterDomOnInnerReduction),
        (\<not> (\<not> fastest_dim rparams \<and> vectorize_inner_reduction rparams),
         VectorizeReductionOnOuterReduction),
        (\<not> (multiple_reds_per_blk rparams \<and> \<not> has_iter_axis),
         MultipleReductionsNeedIterDomain),
        (\<not> (unroll_factor_iter_dom rparams > 1 \<and> \<not> has_iter_axis),
         UnrollIterDomNeedsIterDomain)]"

text \<open>Lines 105 to 183: the inner reduction axis.\<close>

definition inner_reduction_ops :: "ReductionParams \<Rightarrow> bool \<Rightarrow> tv_op list" where
  "inner_reduction_ops rparams has_iter_axis =
    (let inner_reduce_axis = inner_reduce_axis rparams has_iter_axis in
     if is_outer_grid_persistence rparams then
       (let reduction_axis = inner_reduce_axis in
        [Assert (static_bdimy rparams) BlockDimYNotStatic]
        @ inner_parallel_static reduction_axis (block_dim_inner_reduction rparams)
            (lparams_bdimy rparams)
        @ [Split reduction_axis (as_unsigned (batches_per_block_inner_reduction rparams)) True,
           Parallelize reduction_axis (grid_dim_inner_reduction rparams)]
        @ (if batches_per_block_inner_reduction rparams = unroll_factor_inner_reduction rparams
           then outer_unswitch (reduction_axis + 1)
           else [Split (reduction_axis + 1)
                   (as_unsigned (unroll_factor_inner_reduction rparams)) True]
                @ outer_unswitch (reduction_axis + 2)))
     else if persistent_kernel rparams then
       (let outer_i0 = inner_reduce_axis;
            outer_i1 = (if cross_grid_inner_reduction rparams then outer_i0 + 1 else outer_i0);
            outer_i2 = outer_i1 + 1;
            outer_i3 = outer_i2 + 1;
            outer_i4 = (if \<not> vectorize_inner_reduction rparams
                           \<and> unroll_factor_inner_reduction rparams > 1
                        then outer_i3 + 1 else outer_i3)
        in
        (if vectorize_inner_reduction rparams
         then vectorize inner_reduce_axis (unroll_factor_inner_reduction rparams) else [])
        @ (if cross_grid_inner_reduction rparams
           then outer_parallel outer_i0 (grid_dim_inner_reduction rparams) else [])
        @ [Split outer_i1 (as_unsigned (batches_per_block_inner_reduction rparams)) False]
        @ outer_unswitch outer_i2
        @ (if \<not> vectorize_inner_reduction rparams \<and> unroll_factor_inner_reduction rparams > 1
           then outer_unroll outer_i3 (unroll_factor_inner_reduction rparams) else [])
        @ [Parallelize outer_i4 (block_dim_inner_reduction rparams)]
        @ (if pad_inner_reduction_to_warp rparams then [PadToMultipleOfWarp outer_i4] else []))
     else
       (if vectorize_inner_reduction rparams
        then vectorize inner_reduce_axis (unroll_factor_inner_reduction rparams) else [])
       @ (if cross_block_inner_reduction rparams
          then inner_parallel inner_reduce_axis (block_dim_inner_reduction rparams)
               @ (if pad_inner_reduction_to_warp rparams
                  then [PadToMultipleOfWarp (inner_reduce_axis + 1)] else [])
          else [])
       @ (if \<not> vectorize_inner_reduction rparams \<and> unroll_factor_inner_reduction rparams > 1
          then inner_unroll inner_reduce_axis (unroll_factor_inner_reduction rparams) else [])
       @ inner_unswitch inner_reduce_axis
       @ (if cross_grid_inner_reduction rparams
          then (if split_grid_dim_inner_reduction rparams
                then outer_parallel inner_reduce_axis (grid_dim_inner_reduction rparams)
                else [Parallelize inner_reduce_axis (grid_dim_inner_reduction rparams)])
          else []))"

text \<open>Lines 185 to 219: the outer reduction axis.\<close>

definition outer_reduction_ops :: "ReductionParams \<Rightarrow> tv_op list" where
  "outer_reduction_ops rparams =
    (let outer_reduce_axis = outer_reduce_axis rparams in
     if schedule_3D rparams then
       (if persistent_kernel rparams then
          (let outer_i0 = outer_reduce_axis;
               outer_i1 = (if cross_grid_outer_reduction rparams then outer_i0 + 1 else outer_i0);
               outer_i2 = outer_i1 + 1;
               outer_i3 = (if unroll_factor_outer_reduction rparams > 1
                           then outer_i2 + 1 else outer_i2)
           in
           (if cross_grid_outer_reduction rparams
            then outer_parallel outer_i0 (grid_dim_outer_reduction rparams) else [])
           @ [Split outer_i1 (as_unsigned (batches_per_block_outer_reduction rparams)) False]
           @ (if unroll_factor_outer_reduction rparams > 1
              then outer_unroll outer_i2 (unroll_factor_outer_reduction rparams) else [])
           @ [Parallelize outer_i3 (block_dim_outer_reduction rparams)])
        else
          (if cross_block_outer_reduction rparams
           then inner_parallel outer_reduce_axis (block_dim_outer_reduction rparams) else [])
          @ (if unroll_factor_outer_reduction rparams > 1
             then inner_unroll outer_reduce_axis (unroll_factor_outer_reduction rparams) else [])
          @ (if cross_grid_outer_reduction rparams
             then outer_parallel outer_reduce_axis (grid_dim_outer_reduction rparams) else []))
     else [])"

text \<open>Lines 221 to 259: the iteration domain.\<close>

definition iter_domain_ops :: "ReductionParams \<Rightarrow> bool \<Rightarrow> tv_op list" where
  "iter_domain_ops rparams has_iter_axis =
    (if has_iter_axis then
       (if vectorize_iter_dom rparams
        then vectorize iter_axis (unroll_factor_iter_dom rparams) else [])
       @ (if isParallelTypeThread (block_dim_iter_dom rparams) then
            (if is_outer_grid_persistence rparams
             then [Assert (static_bdimx rparams) BlockDimXNotStatic]
                  @ inner_parallel_static iter_axis (block_dim_iter_dom rparams)
                      (lparams_bdimx rparams)
             else inner_parallel iter_axis (block_dim_iter_dom rparams))
          else [])
       @ (if \<not> vectorize_iter_dom rparams \<and> unroll_factor_iter_dom rparams > 1
          then inner_unroll iter_axis (unroll_factor_iter_dom rparams) else [])
       @ (if unroll_factor_iter_dom rparams > 1 \<and> \<not> is_outer_grid_persistence rparams
          then inner_unswitch iter_axis else [])
       @ (if isParallelTypeThread (grid_dim_iter_dom rparams) then
            (if split_grid_dim_iter_dom_outer rparams
             then outer_parallel iter_axis (grid_dim_iter_dom rparams)
             else if split_grid_dim_iter_dom_inner rparams
             then inner_parallel iter_axis (grid_dim_iter_dom rparams)
             else [Parallelize iter_axis (grid_dim_iter_dom rparams)])
          else [])
     else [])"

definition schedule_ops :: "ReductionParams \<Rightarrow> bool \<Rightarrow> tv_op list" where
  "schedule_ops rparams has_iter_axis =
     inner_reduction_ops rparams has_iter_axis
     @ outer_reduction_ops rparams
     @ iter_domain_ops rparams has_iter_axis"

text \<open>
  Modelled from the spec: \<^verbatim>\<open>TensorView::split\<close>, \<^verbatim>\<open>TensorView::axis\<close>,
  \<^verbatim>\<open>IterDomain::parallelize\<close> and \<^verbatim>\<open>IterDomain::padToMultipleOfWarp\<close> are defined outside
  the sources (section 6: split axes, query and set the parallel assignment).  A split
  replaces the axis at a position by an outer and an inner axis of the same kind; an
  inner split gives the factor to the inner axis and the ceiling division of the extent
  by the factor to the outer one, an outer split the other way round.  A negative
  position counts from the end; a position outside the node is fatal, and so is the
  split of an axis that is not serial.
\<close>

definition axis_index :: "TensorView \<Rightarrow> int \<Rightarrow> error + nat" where
  "axis_index tv pos =
    (let p = wrap_pos (nDims tv) pos in
     if p < 0 \<or> int (nDims tv) \<le> p then Inl AxisOutOfRange else Inr (nat p))"

definition split_outer :: "IterDomain \<Rightarrow> Val \<Rightarrow> bool \<Rightarrow> IterDomain" where
  "split_outer d factor inner_split =
     d\<lparr>ident := OuterOf (ident d),
       extent := (if inner_split then CeilDiv (extent d) factor else factor)\<rparr>"

definition split_inner :: "IterDomain \<Rightarrow> Val \<Rightarrow> bool \<Rightarrow> IterDomain" where
  "split_inner d factor inner_split =
     d\<lparr>ident := InnerOf (ident d),
       extent := (if inner_split then factor else CeilDiv (extent d) factor)\<rparr>"

definition split :: "int \<Rightarrow> Val \<Rightarrow> bool \<Rightarrow> TensorView \<Rightarrow> error + TensorView" where
  "split axis factor inner_split tv =
    (case axis_index tv axis of
       Inl e \<Rightarrow> Inl e
     | Inr i \<Rightarrow>
         (let d = domain tv ! i in
          if getParallelType d \<noteq> Serial then Inl SplitNonSerial
          else
            Inr (tv\<lparr>domain :=
              take i (domain tv)
              @ [split_outer d factor inner_split, split_inner d factor inner_split]
              @ drop (Suc i) (domain tv)\<rparr>)))"

definition parallelize :: "int \<Rightarrow> ParallelType \<Rightarrow> TensorView \<Rightarrow> error + TensorView" where
  "parallelize pos ptype tv =
    (case axis_index tv pos of
       Inl e \<Rightarrow> Inl e
     | Inr i \<Rightarrow>
         Inr (tv\<lparr>domain := (domain tv)[i := (domain tv ! i)\<lparr>getParallelType := ptype\<rparr>]\<rparr>))"

definition padToMultipleOfWarp :: "int \<Rightarrow> TensorView \<Rightarrow> error + TensorView" where
  "padToMultipleOfWarp pos tv =
    (case axis_index tv pos of
       Inl e \<Rightarrow> Inl e
     | Inr i \<Rightarrow>
         Inr (tv\<lparr>domain := (domain tv)[i := (domain tv ! i)\<lparr>paddedToWarp := True\<rparr>]\<rparr>))"

fun run_op :: "tv_op \<Rightarrow> TensorView \<Rightarrow> error + TensorView" where
  "run_op (Split axis factor inner_split) tv = split axis factor inner_split tv"
| "run_op (Parallelize pos ptype) tv = parallelize pos ptype tv"
| "run_op (PadToMultipleOfWarp pos) tv = padToMultipleOfWarp pos tv"
| "run_op (Assert cond e) tv = (if cond then Inr tv else Inl e)"

text \<open>
  The calls run in order on the node, which is changed in place: a fatal call leaves the
  node as the calls before it made it.
\<close>

fun run_ops :: "tv_op list \<Rightarrow> TensorView \<Rightarrow> TensorView \<times> error option" where
  "run_ops [] tv = (tv, None)"
| "run_ops (op # ops) tv =
     (case run_op op tv of
        Inl e \<Rightarrow> (tv, Some e)
      | Inr tv' \<Rightarrow> run_ops ops tv')"

text \<open>Lines 266 to 280: the loop that builds \<^verbatim>\<open>vec_reorder_map\<close>, and the reorder.\<close>

fun vec_reorder_loop ::
  "IterDomain list \<Rightarrow> int \<Rightarrow> int \<times> (int \<times> int) list \<Rightarrow> int \<times> (int \<times> int) list" where
  "vec_reorder_loop [] i st = st"
| "vec_reorder_loop (d # ds) i (vec_id_cur_pos, vec_reorder_map) =
     (if getParallelType d = Vectorize then
        vec_reorder_loop ds (i + 1) (i, AList.update i (- 1) vec_reorder_map)
      else if vec_id_cur_pos \<ge> 0 then
        vec_reorder_loop ds (i + 1) (vec_id_cur_pos, AList.update i (i - 1) vec_reorder_map)
      else vec_reorder_loop ds (i + 1) (vec_id_cur_pos, vec_reorder_map))"

definition moveVectorizedInnermost :: "TensorView \<Rightarrow> error + TensorView" where
  "moveVectorizedInnermost reduction_rf_tv =
    (case vec_reorder_loop (domain reduction_rf_tv) 0 (- 1, []) of
       (vec_id_cur_pos, vec_reorder_map) \<Rightarrow>
         if \<not> vec_id_cur_pos \<noteq> - 1 then Inl VectorizedIDNotFound
         else reorder vec_reorder_map reduction_rf_tv)"

text \<open>
  \<^verbatim>\<open>scheduleReductionTV\<close>.  The result pairs the node \<^verbatim>\<open>reduction_tv\<close> as the call
  leaves it with the outcome: the fatal diagnostic, or the staged node it returns.
\<close>

definition scheduleReductionTV ::
  "sort_fn \<Rightarrow> rfactor_fn \<Rightarrow> ReductionParams \<Rightarrow> TensorView \<Rightarrow> bool
     \<Rightarrow> TensorView \<times> (error + TensorView)" where
  "scheduleReductionTV srt rfactorHelper rparams reduction_tv has_iter_axis =
    (case check_preconditions rparams reduction_tv has_iter_axis of
       Some e \<Rightarrow> (reduction_tv, Inl e)
     | None \<Rightarrow>
        (case run_ops (schedule_ops rparams has_iter_axis) reduction_tv of
           (tv, Some e) \<Rightarrow> (tv, Inl e)
         | (tv, None) \<Rightarrow>
            (case sortAndRFactor srt rfactorHelper tv of
               (tv', Inl e) \<Rightarrow> (tv', Inl e)
             | (tv', Inr reduction_rf_tv) \<Rightarrow>
                 if is_outer_grid_persistence rparams
                 then (tv', moveVectorizedInnermost reduction_rf_tv)
                 else (tv', Inr reduction_rf_tv))))"

text \<open>
  Modelled from the spec: \<^verbatim>\<open>ir_utils::rfactorHelper\<close> is defined outside the sources.
  Section 4.1: the result is a new node for the partial-reduction stage, linked back to
  the original as its producer.  For running the model: the staged node has every axis
  of the node, the staged ones flagged as products of the staging and the other
  reduction axes turned into iteration axes; the node keeps the axes that are not
  staged.
\<close>

definition rFactor :: rfactor_fn where
  "rFactor tv axes =
    (tv\<lparr>domain := map snd (filter (\<lambda>(i, d). int i \<notin> set axes)
                               (zip [0..<nDims tv] (domain tv)))\<rparr>,
     Inr (tv\<lparr>domain := map (\<lambda>(i, d).
                 if int i \<in> set axes then d\<lparr>isRFactorProduct := True\<rparr>
                 else if isReduction d then d\<lparr>isReduction := False\<rparr> else d)
               (zip [0..<nDims tv] (domain tv))\<rparr>))"

text \<open>Shorthands for stating layouts: an axis with another parallel assignment, and
  the attributes of an axis that a layout is read by.\<close>

definition with_ptype :: "ParallelType \<Rightarrow> IterDomain \<Rightarrow> IterDomain" where
  "with_ptype ptype d = d\<lparr>getParallelType := ptype\<rparr>"

definition axis_summary :: "IterDomain \<Rightarrow> bool \<times> ParallelType \<times> Val" where
  "axis_summary d = (isReduction d, getParallelType d, extent d)"

section \<open>The fusion graph\<close>

text \<open>
  Modelled from the spec: the IR container \<^verbatim>\<open>Fusion\<close> and its expressions are declared
  outside the sources (section 6: query producers, uses and siblings; remove a node from
  the output list).  Values are addressed by number.  The fusion holds the node of every
  tensor view, the defining expression and the uses of every value, its outputs, and the
  list of the values that are tensor views.
\<close>

type_synonym val_ptr = nat

datatype ExprType = UnaryOpSet | UnaryOpOther | BroadcastOp | ReductionOp | GroupedReductionOp
  | OtherOp

record Expr =
  exprType :: ExprType
  inputs :: "val_ptr list"
  out :: val_ptr

record Fusion =
  tvs :: "val_ptr \<Rightarrow> TensorView"
  definition_of :: "val_ptr \<Rightarrow> Expr option"
  uses_of :: "val_ptr \<Rightarrow> Expr list"
  outputs :: "val_ptr list"
  allTvs :: "val_ptr list"

definition isTensorView :: "Fusion \<Rightarrow> val_ptr \<Rightarrow> bool" where
  "isTensorView fusion v \<longleftrightarrow> v \<in> set (allTvs fusion)"

definition hasReduction :: "TensorView \<Rightarrow> bool" where
  "hasReduction tv = list_ex isReduction (domain tv)"

definition removeOutput :: "val_ptr \<Rightarrow> Fusion \<Rightarrow> Fusion" where
  "removeOutput output fusion = fusion\<lparr>outputs := removeAll output (outputs fusion)\<rparr>"

text \<open>
  \<^verbatim>\<open>tv->axis(i)->parallelize(ptype)\<close> on a node of the fusion; an axis the node does not
  have is fatal.
\<close>

definition parallelize_axis ::
  "val_ptr \<Rightarrow> int \<Rightarrow> ParallelType \<Rightarrow> Fusion \<Rightarrow> error + Fusion" where
  "parallelize_axis tv i ptype fusion =
    (case parallelize i ptype (tvs fusion tv) of
       Inl e \<Rightarrow> Inl e
     | Inr node \<Rightarrow> Inr (fusion\<lparr>tvs := (tvs fusion)(tv := node)\<rparr>))"

section \<open>\<^verbatim>\<open>multiReductionInliner\<close>\<close>

text \<open>
  The passes \<^verbatim>\<open>multiReductionInliner\<close> calls are defined outside the sources and are
  parameters of the model, gathered in a record: the transform propagation from a node
  over the spanning tree, \<^verbatim>\<open>ir_utils::rfactorHelper\<close> on a node of the fusion,
  \<^verbatim>\<open>scheduler_utils::parallelizeAllLike\<close> (reference node, position, selected nodes with
  the empty list for every node, selected parallel types),
  \<^verbatim>\<open>scheduler_utils::getInputsOutputsWithInnerDim\<close>, \<^verbatim>\<open>ir_utils::producerTvsOf\<close>,
  \<^verbatim>\<open>ir_utils::siblingTvsOf\<close> and \<^verbatim>\<open>inlineMost\<close>.
\<close>

record passes =
  propagateTransforms :: "val_ptr \<Rightarrow> Fusion \<Rightarrow> Fusion"
  rfactorHelperOn :: "val_ptr \<Rightarrow> int list \<Rightarrow> Fusion \<Rightarrow> Fusion"
  parallelizeAllLike :: "val_ptr \<Rightarrow> int \<Rightarrow> val_ptr list \<Rightarrow> ParallelType set \<Rightarrow> Fusion \<Rightarrow> Fusion"
  getInputsOutputsWithInnerDim :: "val_ptr \<Rightarrow> bool \<Rightarrow> bool \<Rightarrow> Fusion \<Rightarrow> val_ptr list"
  producerTvsOf :: "val_ptr \<Rightarrow> Fusion \<Rightarrow> val_ptr list"
  siblingTvsOf :: "val_ptr \<Rightarrow> Fusion \<Rightarrow> val_ptr list"
  inlineMost :: "Fusion \<Rightarrow> Fusion"

text \<open>Modelled from the spec: \<^verbatim>\<open>allParallelTypesExcept\<close> is declared outside the sources;
  it gives every parallel assignment but the ones named (section 4.3, step 3).\<close>

definition allParallelTypesExcept :: "ParallelType set \<Rightarrow> ParallelType set" where
  "allParallelTypesExcept except = - except"

text \<open>Lines 292 to 308.\<close>

fun addBackBroadcasts_loop ::
  "IterDomain list \<Rightarrow> int \<Rightarrow> int \<Rightarrow> int set \<Rightarrow> int list \<Rightarrow> int list" where
  "addBackBroadcasts_loop [] i non_broadcast_pos non_broadcast_axes axes = axes"
| "addBackBroadcasts_loop (d # ds) i non_broadcast_pos non_broadcast_axes axes =
     (if isBroadcast d then
        addBackBroadcasts_loop ds (i + 1) non_broadcast_pos non_broadcast_axes axes
      else
        addBackBroadcasts_loop ds (i + 1) (non_broadcast_pos + 1) non_broadcast_axes
          (if non_broadcast_pos \<in> non_broadcast_axes then axes @ [i] else axes))"

definition addBackBroadcasts :: "TensorView \<Rightarrow> int set \<Rightarrow> int list" where
  "addBackBroadcasts tv non_broadcast_axes =
     addBackBroadcasts_loop (domain tv) 0 0 non_broadcast_axes []"

text \<open>Lines 311 to 346.\<close>

definition reduction_parallel_types :: "TensorView \<Rightarrow> ParallelType set" where
  "reduction_parallel_types reduction_tv =
     set (map getParallelType
            (filter (\<lambda>d. isReduction d \<and> isParallelTypeBlockDim (getParallelType d))
               (domain reduction_tv)))"

definition isGridAllreduce :: "Fusion \<Rightarrow> val_ptr \<Rightarrow> bool" where
  "isGridAllreduce fusion reduction_tv =
    (if memoryType (tvs fusion reduction_tv) \<noteq> Local then False
     else
       list_ex
         (\<lambda>bcast_expr.
            list_ex
              (\<lambda>bcast_id.
                 isParallelTypeBlockDim (getParallelType bcast_id)
                 \<and> getParallelType bcast_id
                     \<in> reduction_parallel_types (tvs fusion reduction_tv))
              (domain (tvs fusion (out bcast_expr))))
         (filter (\<lambda>e. exprType e = BroadcastOp) (uses_of fusion reduction_tv)))"

text \<open>Lines 374 to 385: the positions, not counting broadcasts, of the staged reduction
  axes of the reference node.\<close>

fun non_broadcast_rfactor_axes_loop :: "IterDomain list \<Rightarrow> int \<Rightarrow> int set \<Rightarrow> int set" where
  "non_broadcast_rfactor_axes_loop [] non_broadcast_pos axes = axes"
| "non_broadcast_rfactor_axes_loop (d # ds) non_broadcast_pos axes =
     (if isBroadcast d then non_broadcast_rfactor_axes_loop ds non_broadcast_pos axes
      else
        non_broadcast_rfactor_axes_loop ds (non_broadcast_pos + 1)
          (if isReduction d \<and> isRFactorProduct d then insert non_broadcast_pos axes else axes))"

definition isGroupedReduction :: "Fusion \<Rightarrow> val_ptr \<Rightarrow> bool" where
  "isGroupedReduction fusion tv =
     (case definition_of fusion tv of
        None \<Rightarrow> False
      | Some e \<Rightarrow> exprType e = GroupedReductionOp)"

text \<open>Lines 387 to 397: the loop over the reduction nodes.\<close>

fun rfactor_reductions ::
  "passes \<Rightarrow> val_ptr \<Rightarrow> int set \<Rightarrow> val_ptr list \<Rightarrow> Fusion \<Rightarrow> Fusion" where
  "rfactor_reductions ext reduction_tv non_broadcast_rfactor_axes [] fusion = fusion"
| "rfactor_reductions ext reduction_tv non_broadcast_rfactor_axes (tv # reduction_tvs) fusion =
     (if tv = reduction_tv \<or> isGroupedReduction fusion tv then
        rfactor_reductions ext reduction_tv non_broadcast_rfactor_axes reduction_tvs fusion
      else
        rfactor_reductions ext reduction_tv non_broadcast_rfactor_axes reduction_tvs
          (rfactorHelperOn ext tv
             (addBackBroadcasts (tvs fusion tv) non_broadcast_rfactor_axes) fusion))"

text \<open>Lines 362 to 398.\<close>

definition propagate_and_rfactor ::
  "passes \<Rightarrow> val_ptr \<Rightarrow> val_ptr \<Rightarrow> val_ptr list \<Rightarrow> Fusion \<Rightarrow> Fusion" where
  "propagate_and_rfactor ext reduction_tv reference_tv reduction_tvs fusion0 =
    (let fusion = propagateTransforms ext reference_tv fusion0 in
     if reference_tv \<noteq> reduction_tv then
       rfactor_reductions ext reduction_tv
         (non_broadcast_rfactor_axes_loop (domain (tvs fusion reference_tv)) 0 {})
         reduction_tvs fusion
     else fusion)"

text \<open>Lines 405 to 412.\<close>

definition propagate_parallelization :: "passes \<Rightarrow> val_ptr \<Rightarrow> Fusion \<Rightarrow> Fusion" where
  "propagate_parallelization ext reference_tv fusion =
     parallelizeAllLike ext reference_tv (- 1) []
       (allParallelTypesExcept {Unroll, Vectorize, MisalignedVectorize}) fusion"

text \<open>Lines 422 to 456: the nodes that may carry unrolling or vectorization.  The set
  \<^verbatim>\<open>are_unrolled\<close> is a list without repetition; the order in which the code hands its
  members on is not fixed.\<close>

definition vectorizable_expr :: "Expr option \<Rightarrow> bool" where
  "vectorizable_expr e = (case e of None \<Rightarrow> False | Some e \<Rightarrow> exprType e = UnaryOpSet)"

fun unrolled_cached_inputs ::
  "passes \<Rightarrow> bool \<Rightarrow> val_ptr list \<Rightarrow> Fusion \<Rightarrow> val_ptr list \<Rightarrow> val_ptr list \<Rightarrow> val_ptr list" where
  "unrolled_cached_inputs ext do_vectorize vectorizable_inputs_outputs fusion [] are_unrolled =
     are_unrolled"
| "unrolled_cached_inputs ext do_vectorize vectorizable_inputs_outputs fusion
     (cached_input # cached_inputs) are_unrolled =
     unrolled_cached_inputs ext do_vectorize vectorizable_inputs_outputs fusion cached_inputs
       (if do_vectorize then
          (let producer_tvs = producerTvsOf ext cached_input fusion in
           if length producer_tvs = 1
              \<and> vectorizable_expr (definition_of fusion cached_input)
              \<and> producer_tvs ! 0 \<in> set vectorizable_inputs_outputs
           then List.insert cached_input are_unrolled else are_unrolled)
        else List.insert cached_input are_unrolled)"

fun unrolled_cached_outputs ::
  "bool \<Rightarrow> val_ptr list \<Rightarrow> Fusion \<Rightarrow> (val_ptr \<times> val_ptr) list \<Rightarrow> val_ptr list \<Rightarrow> val_ptr list" where
  "unrolled_cached_outputs do_vectorize vectorizable_inputs_outputs fusion [] are_unrolled =
     are_unrolled"
| "unrolled_cached_outputs do_vectorize vectorizable_inputs_outputs fusion
     (cached_output_pair # cached_outputs) are_unrolled =
     (let output = snd cached_output_pair in
      unrolled_cached_outputs do_vectorize vectorizable_inputs_outputs fusion cached_outputs
        (if do_vectorize then
           (if vectorizable_expr (definition_of fusion output)
               \<and> output \<in> set vectorizable_inputs_outputs
            then List.insert output are_unrolled else are_unrolled)
         else List.insert output are_unrolled))"

text \<open>Lines 484 to 486 and 492 to 494: the same assignment on every sibling.\<close>

fun parallelize_siblings ::
  "val_ptr list \<Rightarrow> int \<Rightarrow> ParallelType \<Rightarrow> Fusion \<Rightarrow> error + Fusion" where
  "parallelize_siblings [] i ptype fusion = Inr fusion"
| "parallelize_siblings (sibling # siblings) i ptype fusion =
     (case parallelize_axis sibling i ptype fusion of
        Inl e \<Rightarrow> Inl e
      | Inr fusion' \<Rightarrow> parallelize_siblings siblings i ptype fusion')"

definition parallelize_with_siblings ::
  "passes \<Rightarrow> val_ptr \<Rightarrow> int \<Rightarrow> ParallelType \<Rightarrow> Fusion \<Rightarrow> error + Fusion" where
  "parallelize_with_siblings ext tv i ptype fusion =
    (case parallelize_axis tv i ptype fusion of
       Inl e \<Rightarrow> Inl e
     | Inr fusion' \<Rightarrow> parallelize_siblings (siblingTvsOf ext tv fusion') i ptype fusion')"

text \<open>Lines 475 to 496: the loop over the axes of one node.\<close>

fun clear_unroll_axes ::
  "passes \<Rightarrow> bool \<Rightarrow> val_ptr list \<Rightarrow> val_ptr \<Rightarrow> nat list \<Rightarrow> Fusion \<Rightarrow> error + Fusion" where
  "clear_unroll_axes ext outer_grid_persistence reduction_tvs tv [] fusion = Inr fusion"
| "clear_unroll_axes ext outer_grid_persistence reduction_tvs tv (i # is) fusion =
     (let axis_id = domain (tvs fusion tv) ! i in
      if outer_grid_persistence \<and> tv \<in> set reduction_tvs
         \<and> getParallelType axis_id = Vectorize
      then
        (case parallelize_with_siblings ext tv (int i) Group fusion of
           Inl e \<Rightarrow> Inl e
         | Inr fusion' \<Rightarrow>
             clear_unroll_axes ext outer_grid_persistence reduction_tvs tv is fusion')
      else if getParallelType axis_id = Unroll \<or> getParallelType axis_id = Vectorize
              \<or> getParallelType axis_id = MisalignedVectorize
      then
        (case parallelize_with_siblings ext tv (int i) Serial fusion of
           Inl e \<Rightarrow> Inl e
         | Inr fusion' \<Rightarrow>
             clear_unroll_axes ext outer_grid_persistence reduction_tvs tv is fusion')
      else clear_unroll_axes ext outer_grid_persistence reduction_tvs tv is fusion)"

text \<open>Lines 469 to 498: the loop over the reference node and the reduction node.\<close>

fun clear_unroll ::
  "passes \<Rightarrow> bool \<Rightarrow> val_ptr list \<Rightarrow> val_ptr list \<Rightarrow> val_ptr list \<Rightarrow> Fusion
     \<Rightarrow> error + Fusion" where
  "clear_unroll ext outer_grid_persistence reduction_tvs are_unrolled [] fusion = Inr fusion"
| "clear_unroll ext outer_grid_persistence reduction_tvs are_unrolled (tv # tvs') fusion =
     (if tv \<notin> set are_unrolled then
        (case clear_unroll_axes ext outer_grid_persistence reduction_tvs tv
                [0..<nDims (tvs fusion tv)] fusion of
           Inl e \<Rightarrow> Inl e
         | Inr fusion' \<Rightarrow>
             clear_unroll ext outer_grid_persistence reduction_tvs are_unrolled tvs' fusion')
      else clear_unroll ext outer_grid_persistence reduction_tvs are_unrolled tvs' fusion)"

text \<open>Lines 415 to 498.\<close>

definition unroll_phase ::
  "passes \<Rightarrow> ReductionParams \<Rightarrow> val_ptr \<Rightarrow> val_ptr \<Rightarrow> val_ptr list \<Rightarrow> val_ptr list
     \<Rightarrow> (val_ptr \<times> val_ptr) list \<Rightarrow> Fusion \<Rightarrow> error + Fusion" where
  "unroll_phase ext rparams reduction_tv reference_tv reduction_tvs cached_inputs
       cached_outputs fusion =
    (let do_vectorize = (vectorize_inner_reduction rparams \<or> vectorize_iter_dom rparams);
         vectorizable_inputs_outputs =
           getInputsOutputsWithInnerDim ext reference_tv True True fusion;
         are_unrolled =
           unrolled_cached_outputs do_vectorize vectorizable_inputs_outputs fusion cached_outputs
             (unrolled_cached_inputs ext do_vectorize vectorizable_inputs_outputs fusion
                cached_inputs []);
         fusion1 =
           (if are_unrolled \<noteq> []
            then parallelizeAllLike ext reference_tv (- 1) are_unrolled
                   {Unroll, Vectorize, MisalignedVectorize} fusion
            else fusion)
     in
     clear_unroll ext (is_outer_grid_persistence rparams) reduction_tvs are_unrolled
       [reference_tv, reduction_tv] fusion1)"

text \<open>Lines 500 to 509.\<close>

definition allreduce_tvs :: "val_ptr \<Rightarrow> val_ptr list \<Rightarrow> Fusion \<Rightarrow> val_ptr list" where
  "allreduce_tvs reduction_tv reduction_tvs fusion =
     filter (\<lambda>tv. reduction_tv \<noteq> tv \<and> isGridAllreduce fusion tv) reduction_tvs"

definition allreduce_phase :: "passes \<Rightarrow> val_ptr \<Rightarrow> val_ptr list \<Rightarrow> Fusion \<Rightarrow> Fusion" where
  "allreduce_phase ext reduction_tv reduction_tvs fusion =
    (if allreduce_tvs reduction_tv reduction_tvs fusion \<noteq> []
     then parallelizeAllLike ext reduction_tv (- 1)
            (allreduce_tvs reduction_tv reduction_tvs fusion) {Group} fusion
     else fusion)"

text \<open>Lines 512 to 518.\<close>

definition remove_dummy_outputs_and_inline :: "passes \<Rightarrow> val_ptr list \<Rightarrow> Fusion \<Rightarrow> Fusion" where
  "remove_dummy_outputs_and_inline ext dummy_outputs fusion =
     inlineMost ext (fold removeOutput dummy_outputs fusion)"

definition multiReductionInliner ::
  "passes \<Rightarrow> Fusion \<Rightarrow> ReductionParams \<Rightarrow> val_ptr \<Rightarrow> val_ptr \<Rightarrow> val_ptr list \<Rightarrow> val_ptr list
     \<Rightarrow> (val_ptr \<times> val_ptr) list \<Rightarrow> val_ptr list \<Rightarrow> error + Fusion" where
  "multiReductionInliner ext fusion0 rparams reduction_tv reference_tv reduction_tvs
       cached_inputs cached_outputs dummy_outputs =
    (let fusion =
           propagate_parallelization ext reference_tv
             (propagate_and_rfactor ext reduction_tv reference_tv reduction_tvs fusion0);
         unroll = isUnrolled rparams
     in
     if unroll then
       (case unroll_phase ext rparams reduction_tv reference_tv reduction_tvs cached_inputs
               cached_outputs fusion of
          Inl e \<Rightarrow> Inl e
        | Inr fusion' \<Rightarrow>
            Inr (remove_dummy_outputs_and_inline ext dummy_outputs
                   (allreduce_phase ext reduction_tv reduction_tvs fusion')))
     else Inr (remove_dummy_outputs_and_inline ext dummy_outputs fusion))"

text \<open>
  A contract of \<^verbatim>\<open>parallelizeAllLike\<close>: with a list of selected nodes that is not empty,
  the nodes outside the list are left as they are.
\<close>

definition parallelizeAllLike_frame :: "passes \<Rightarrow> bool" where
  "parallelizeAllLike_frame ext \<longleftrightarrow>
     (\<forall>reference_tv pos selected_tvs selected_parallel_types fusion tv.
        selected_tvs \<noteq> [] \<and> tv \<notin> set selected_tvs \<longrightarrow>
        tvs (parallelizeAllLike ext reference_tv pos selected_tvs selected_parallel_types fusion) tv
          = tvs fusion tv)"

text \<open>
  Modelled from the spec: a contract of \<^verbatim>\<open>scheduler_utils::parallelizeAllLike\<close>, which is
  defined outside the sources.  Section 4.3, steps 3, 4 and 6 (the selected parallel
  assignments of the reference node are propagated): the pass keeps the number of axes of
  every node, and an axis whose parallel assignment it changes gets one of the selected
  assignments.
\<close>

definition parallelizeAllLike_selected_only :: "passes \<Rightarrow> bool" where
  "parallelizeAllLike_selected_only ext \<longleftrightarrow>
     (\<forall>reference_tv pos selected_tvs selected_parallel_types fusion tv.
        nDims (tvs (parallelizeAllLike ext reference_tv pos selected_tvs
                      selected_parallel_types fusion) tv) = nDims (tvs fusion tv)
        \<and> (\<forall>i < nDims (tvs fusion tv).
              getParallelType (domain (tvs (parallelizeAllLike ext reference_tv pos selected_tvs
                                 selected_parallel_types fusion) tv) ! i)
                = getParallelType (domain (tvs fusion tv) ! i)
              \<or> getParallelType (domain (tvs (parallelizeAllLike ext reference_tv pos
                                    selected_tvs selected_parallel_types fusion) tv) ! i)
                  \<in> selected_parallel_types))"

text \<open>
  Modelled from the spec: a contract of \<^verbatim>\<open>inlineMost\<close>, which is defined outside the
  sources.  Inlining places the loop nests of the nodes in one another; it changes no
  axis of a node.
\<close>

definition inlineMost_keeps_nodes :: "passes \<Rightarrow> bool" where
  "inlineMost_keeps_nodes ext \<longleftrightarrow> (\<forall>fusion. tvs (inlineMost ext fusion) = tvs fusion)"

text \<open>
  Modelled from the spec: \<^verbatim>\<open>scheduler_utils::parallelizeAllLike\<close> is defined outside the
  sources.  Section 4.3, steps 3, 4 and 6: the selected parallel assignments of the
  reference node are propagated onto the selected nodes, onto every node when none is
  selected.  For running the model the axes of two nodes correspond by position.
\<close>

definition parallelizeAllLike_by_position ::
  "val_ptr \<Rightarrow> int \<Rightarrow> val_ptr list \<Rightarrow> ParallelType set \<Rightarrow> Fusion \<Rightarrow> Fusion" where
  "parallelizeAllLike_by_position reference_tv pos selected_tvs selected_parallel_types fusion =
    (let targets = (if selected_tvs = [] then allTvs fusion else selected_tvs);
         reference = domain (tvs fusion reference_tv)
     in
     fusion\<lparr>tvs := (\<lambda>tv.
       if tv \<in> set targets \<and> tv \<noteq> reference_tv then
         (tvs fusion tv)\<lparr>domain :=
            map (\<lambda>(i, d).
                   if i < length reference
                      \<and> getParallelType (reference ! i) \<in> selected_parallel_types
                   then d\<lparr>getParallelType := getParallelType (reference ! i)\<rparr> else d)
                (zip [0..<nDims (tvs fusion tv)] (domain (tvs fusion tv)))\<rparr>
       else tvs fusion tv)\<rparr>)"

definition parallel_types_of :: "Fusion \<Rightarrow> val_ptr \<Rightarrow> ParallelType list" where
  "parallel_types_of fusion tv = map getParallelType (domain (tvs fusion tv))"

section \<open>\<^verbatim>\<open>projectPersistentBuffers\<close>\<close>

text \<open>
  Modelled from the spec: the persistent buffer record of section 3 is declared outside
  the sources, under the field names the code reads.
\<close>

record PersistentBufferInfo =
  persistent_buffers :: "val_ptr list"
  persistent_buffer_resolution_points :: "val_ptr list list"
  projectable_persistent_buffers :: "val_ptr list"

text \<open>
  The analysis and the graph operations \<^verbatim>\<open>projectPersistentBuffers\<close> calls are defined
  outside the sources and are parameters of the model: \<^verbatim>\<open>scheduler_utils::persistentBuffers\<close>,
  \<^verbatim>\<open>DependencyCheck::getAllDependencyChains\<close>, \<^verbatim>\<open>RecomputeTv::recompute\<close> and \<^verbatim>\<open>add\<close>
  (each gives the new value and the fusion that holds it), and
  \<^verbatim>\<open>ir_utils::replaceValInExpr\<close> on the defining expression of a value.
\<close>

record graph_ops =
  persistentBuffers :: "Fusion \<Rightarrow> PersistentBufferInfo"
  getAllDependencyChains :: "val_ptr \<Rightarrow> val_ptr \<Rightarrow> Fusion \<Rightarrow> val_ptr list list"
  recompute :: "val_ptr \<Rightarrow> Fusion \<Rightarrow> val_ptr \<times> Fusion"
  arith_add :: "val_ptr \<Rightarrow> val_ptr \<Rightarrow> Fusion \<Rightarrow> val_ptr \<times> Fusion"
  replaceValInExpr :: "val_ptr \<Rightarrow> val_ptr \<Rightarrow> val_ptr \<Rightarrow> Fusion \<Rightarrow> Fusion"

text \<open>Lines 704 to 713: does a tensor view of the chain have a reduction axis?\<close>

definition through_reduction :: "Fusion \<Rightarrow> val_ptr list \<Rightarrow> bool" where
  "through_reduction fusion chain =
     list_ex (\<lambda>tv. hasReduction (tvs fusion tv)) (filter (isTensorView fusion) chain)"

text \<open>
  Lines 703 to 730: the loop over the chains to one resolution point.  Reading
  \<^verbatim>\<open>chain[1]\<close> of a chain with fewer than two nodes is undefined in C++; the model
  stops there with \<open>ChainWithoutUse\<close>.
\<close>

fun collect_chain_uses :: "Fusion \<Rightarrow> val_ptr list list \<Rightarrow> val_ptr list \<Rightarrow> error + val_ptr list" where
  "collect_chain_uses fusion [] persistent_use_of_buffer = Inr persistent_use_of_buffer"
| "collect_chain_uses fusion (chain # chains_to_resolution) persistent_use_of_buffer =
     (if through_reduction fusion chain then
        collect_chain_uses fusion chains_to_resolution persistent_use_of_buffer
      else if length chain < 2 then Inl ChainWithoutUse
      else
        (let use = chain ! 1 in
         if use \<in> set persistent_use_of_buffer then
           collect_chain_uses fusion chains_to_resolution persistent_use_of_buffer
         else
           collect_chain_uses fusion chains_to_resolution
             (persistent_use_of_buffer @ [use])))"

text \<open>Lines 698 to 731: the loop over the resolution points of one buffer.\<close>

fun collect_uses ::
  "graph_ops \<Rightarrow> Fusion \<Rightarrow> val_ptr \<Rightarrow> val_ptr list \<Rightarrow> val_ptr list \<Rightarrow> error + val_ptr list" where
  "collect_uses ext fusion buffer [] persistent_use_of_buffer = Inr persistent_use_of_buffer"
| "collect_uses ext fusion buffer (resolution_point # resolution_points)
     persistent_use_of_buffer =
     (case collect_chain_uses fusion
             (getAllDependencyChains ext buffer resolution_point fusion)
             persistent_use_of_buffer of
        Inl e \<Rightarrow> Inl e
      | Inr uses \<Rightarrow> collect_uses ext fusion buffer resolution_points uses)"

text \<open>Lines 737 to 766: the recomputation for one use.\<close>

definition project_use ::
  "graph_ops \<Rightarrow> val_ptr \<Rightarrow> val_ptr \<Rightarrow> Fusion \<times> val_ptr list \<Rightarrow> Fusion \<times> val_ptr list" where
  "project_use ext buffer use st =
    (case st of (fusion, dummy_outputs) \<Rightarrow>
       (case recompute ext buffer fusion of (buffer_replicate, fusion1) \<Rightarrow>
          (case arith_add ext buffer_replicate buffer fusion1 of (dummy, fusion2) \<Rightarrow>
             (replaceValInExpr ext use buffer buffer_replicate fusion2,
              dummy_outputs @ [dummy]))))"

text \<open>Lines 735 to 767: the loop over the recorded uses.\<close>

fun recompute_uses ::
  "graph_ops \<Rightarrow> val_ptr \<Rightarrow> val_ptr list \<Rightarrow> Fusion \<times> val_ptr list
     \<Rightarrow> error + Fusion \<times> val_ptr list" where
  "recompute_uses ext buffer [] st = Inr st"
| "recompute_uses ext buffer (use # uses) st =
     (if definition_of (fst st) use = None then Inl UseWithoutDefinition
      else recompute_uses ext buffer uses (project_use ext buffer use st))"

text \<open>Lines 682 to 768: the loop over the persistent buffers.\<close>

fun project_buffers ::
  "graph_ops \<Rightarrow> PersistentBufferInfo \<Rightarrow> nat list \<Rightarrow> Fusion \<times> val_ptr list
     \<Rightarrow> error + Fusion \<times> val_ptr list" where
  "project_buffers ext persistent_info [] st = Inr st"
| "project_buffers ext persistent_info (buffer_i # rest) st =
     (let buffer = persistent_buffers persistent_info ! buffer_i in
      if buffer \<notin> set (projectable_persistent_buffers persistent_info) then
        project_buffers ext persistent_info rest st
      else
        (let resolution_points =
               persistent_buffer_resolution_points persistent_info ! buffer_i in
         case collect_uses ext (fst st) buffer resolution_points [] of
           Inl e \<Rightarrow> Inl e
         | Inr persistent_use_of_buffer \<Rightarrow>
             (case recompute_uses ext buffer persistent_use_of_buffer st of
                Inl e \<Rightarrow> Inl e
              | Inr st' \<Rightarrow> project_buffers ext persistent_info rest st')))"

text \<open>\<^verbatim>\<open>projectPersistentBuffers\<close>: the fusion as the call leaves it and the dummy outputs
  it returns, or the fatal diagnostic.\<close>

definition projectPersistentBuffers ::
  "graph_ops \<Rightarrow> Fusion \<Rightarrow> error + Fusion \<times> val_ptr list" where
  "projectPersistentBuffers ext fusion =
    (let persistent_info = persistentBuffers ext fusion in
     if length (persistent_buffers persistent_info)
          \<noteq> length (persistent_buffer_resolution_points persistent_info)
     then Inl ResolutionPointsMismatch
     else
       project_buffers ext persistent_info
         [0..<length (persistent_buffers persistent_info)] (fusion, []))"

subsection \<open>The projection in the words of the specification\<close>

text \<open>
  Section 4.4 in the words of the specification, for comparison with the loops of
  \<^verbatim>\<open>projectPersistentBuffers\<close>.  A chain passes through a reduction when one of its
  nodes is a tensor view with a reduction axis.
\<close>

definition spec_through_reduction :: "Fusion \<Rightarrow> val_ptr list \<Rightarrow> bool" where
  "spec_through_reduction fusion chain =
     list_ex (\<lambda>tv. isTensorView fusion tv \<and> list_ex isReduction (domain (tvs fusion tv))) chain"

text \<open>
  The surviving chains of a buffer are the dependency chains to its resolution points
  that do not pass through a reduction.
\<close>

definition spec_surviving_chains ::
  "graph_ops \<Rightarrow> Fusion \<Rightarrow> val_ptr \<Rightarrow> val_ptr list \<Rightarrow> val_ptr list list" where
  "spec_surviving_chains ext fusion buffer resolution_points =
     filter (\<lambda>chain. \<not> spec_through_reduction fusion chain)
       (concat (map (\<lambda>resolution_point. getAllDependencyChains ext buffer resolution_point fusion)
                  resolution_points))"

text \<open>
  The recorded uses: the second node of every surviving chain, each use once, in the
  order of the first occurrences.
\<close>

definition spec_recorded_uses ::
  "graph_ops \<Rightarrow> Fusion \<Rightarrow> val_ptr \<Rightarrow> val_ptr list \<Rightarrow> val_ptr list" where
  "spec_recorded_uses ext fusion buffer resolution_points =
     rev (remdups (rev (map (\<lambda>chain. chain ! 1)
                          (spec_surviving_chains ext fusion buffer resolution_points))))"

text \<open>
  The work for one recorded use: one recomputed duplicate of the buffer, one scaffold
  output that sums the duplicate with the buffer, and the rewrite of the defining
  expression of the use from the buffer to the duplicate.  The three graph operations
  stand in the order in which the code calls them.
\<close>

definition spec_project_use ::
  "graph_ops \<Rightarrow> val_ptr \<Rightarrow> val_ptr \<Rightarrow> Fusion \<times> val_ptr list \<Rightarrow> Fusion \<times> val_ptr list" where
  "spec_project_use ext buffer use st =
    (let duplicate = fst (recompute ext buffer (fst st));
         fusion1 = snd (recompute ext buffer (fst st));
         scaffold = fst (arith_add ext duplicate buffer fusion1);
         fusion2 = snd (arith_add ext duplicate buffer fusion1)
     in (replaceValInExpr ext use buffer duplicate fusion2, snd st @ [scaffold]))"

text \<open>Every recorded use has a defining expression when its turn comes.\<close>

fun spec_uses_defined ::
  "graph_ops \<Rightarrow> val_ptr \<Rightarrow> val_ptr list \<Rightarrow> Fusion \<times> val_ptr list \<Rightarrow> bool" where
  "spec_uses_defined ext buffer [] st = True"
| "spec_uses_defined ext buffer (use # uses) st =
     (definition_of (fst st) use \<noteq> None
      \<and> spec_uses_defined ext buffer uses (spec_project_use ext buffer use st))"

text \<open>
  The work for one buffer of the analysis: nothing when the buffer is not projectable,
  otherwise the work for each of its recorded uses in turn.
\<close>

definition spec_project_buffer ::
  "graph_ops \<Rightarrow> PersistentBufferInfo \<Rightarrow> nat \<Rightarrow> Fusion \<times> val_ptr list
     \<Rightarrow> Fusion \<times> val_ptr list" where
  "spec_project_buffer ext persistent_info buffer_i st =
    (let buffer = persistent_buffers persistent_info ! buffer_i in
     if buffer \<in> set (projectable_persistent_buffers persistent_info) then
       fold (spec_project_use ext buffer)
         (spec_recorded_uses ext (fst st) buffer
            (persistent_buffer_resolution_points persistent_info ! buffer_i))
         st
     else st)"

text \<open>
  The conditions under which the work for one buffer, and for a list of buffers in turn,
  meets no fatal diagnostic: every surviving chain of a projectable buffer has a second
  node, and every recorded use has a defining expression when its turn comes.
\<close>

definition spec_buffer_ok ::
  "graph_ops \<Rightarrow> PersistentBufferInfo \<Rightarrow> nat \<Rightarrow> Fusion \<times> val_ptr list \<Rightarrow> bool" where
  "spec_buffer_ok ext persistent_info buffer_i st =
    (let buffer = persistent_buffers persistent_info ! buffer_i;
         resolution_points = persistent_buffer_resolution_points persistent_info ! buffer_i
     in
     buffer \<in> set (projectable_persistent_buffers persistent_info) \<longrightarrow>
       list_all (\<lambda>chain. 2 \<le> length chain)
         (spec_surviving_chains ext (fst st) buffer resolution_points)
       \<and> spec_uses_defined ext buffer
           (spec_recorded_uses ext (fst st) buffer resolution_points) st)"

fun spec_buffers_ok ::
  "graph_ops \<Rightarrow> PersistentBufferInfo \<Rightarrow> nat list \<Rightarrow> Fusion \<times> val_ptr list \<Rightarrow> bool" where
  "spec_buffers_ok ext persistent_info [] st = True"
| "spec_buffers_ok ext persistent_info (buffer_i # rest) st =
     (spec_buffer_ok ext persistent_info buffer_i st
      \<and> spec_buffers_ok ext persistent_info rest
          (spec_project_buffer ext persistent_info buffer_i st))"

section \<open>Example nodes\<close>

definition root_axis :: "nat \<Rightarrow> bool \<Rightarrow> ParallelType \<Rightarrow> Val \<Rightarrow> IterDomain" where
  "root_axis n red pt ext =
     \<lparr>ident = RootId n, isReduction = red, isBroadcast = False, isImplicitBroadcast = False,
      getParallelType = pt, extent = ext, isRFactorProduct = False, paddedToWarp = False\<rparr>"

definition c1_axis_a :: IterDomain where
  "c1_axis_a = root_axis 1 False Serial (IntConst 4)"

definition c1_axis_b :: IterDomain where
  "c1_axis_b = root_axis 0 False Serial (NamedScalar ''N'')"

definition c1_node :: TensorView where
  "c1_node = \<lparr>domain = [c1_axis_b, c1_axis_a], memoryType = Local\<rparr>"

definition ex_axes :: "IterDomain list" where
  "ex_axes =
     [root_axis 0 False BIDx (NamedScalar ''gridDim.x''),
      root_axis 1 True Serial (NamedScalar ''R''),
      root_axis 2 True Unswitch (IntConst 1),
      root_axis 3 True TIDx (NamedScalar ''blockDim.x''),
      root_axis 4 False Serial (NamedScalar ''N'')]"

definition ex_node :: TensorView where
  "ex_node = \<lparr>domain = [ex_axes ! 1, ex_axes ! 4, ex_axes ! 2, ex_axes ! 0, ex_axes ! 3],
               memoryType = Local\<rparr>"

definition ex_sorted :: TensorView where
  "ex_sorted = \<lparr>domain = [ex_axes ! 0, ex_axes ! 4, ex_axes ! 1, ex_axes ! 3, ex_axes ! 2],
               memoryType = Local\<rparr>"

definition ex_all_candidates :: TensorView where
  "ex_all_candidates =
     \<lparr>domain = [ex_axes ! 0, ex_axes ! 4, ex_axes ! 1, ex_axes ! 2], memoryType = Local\<rparr>"

definition default_params :: ReductionParams where
  "default_params =
     \<lparr>fastest_dim = True, persistent_kernel = False, schedule_3D = False,
      cross_block_inner_reduction = False, cross_grid_inner_reduction = False,
      unroll_factor_inner_reduction = 1, vectorize_inner_reduction = False,
      split_grid_dim_inner_reduction = False, pad_inner_reduction_to_warp = False,
      batches_per_block_inner_reduction = 1, block_dim_inner_reduction = Serial,
      grid_dim_inner_reduction = Serial, multiple_reds_per_blk = False,
      unroll_factor_iter_dom = 1, vectorize_iter_dom = False,
      split_grid_dim_iter_dom_inner = False, split_grid_dim_iter_dom_outer = False,
      block_dim_iter_dom = Serial, grid_dim_iter_dom = Serial,
      cross_block_outer_reduction = False, cross_grid_outer_reduction = False,
      batches_per_block_outer_reduction = 1, unroll_factor_outer_reduction = 1,
      block_dim_outer_reduction = Serial, grid_dim_outer_reduction = Serial,
      static_bdimx = False, static_bdimy = False, lparams_bdimx = - 1, lparams_bdimy = - 1,
      isUnrolled = False\<rparr>"

text \<open>A node \<open>[I, R]\<close>: an iteration axis and a reduction axis, both serial and symbolic.\<close>

definition node_IR :: TensorView where
  "node_IR = \<lparr>domain = [root_axis 0 False Serial (NamedScalar ''I''),
                        root_axis 1 True Serial (NamedScalar ''R'')],
              memoryType = Local\<rparr>"

text \<open>Scenario 1 of the specification: non-persistent, block-parallel inner reduction.\<close>

definition scenario1_params :: ReductionParams where
  "scenario1_params = default_params\<lparr>cross_block_inner_reduction := True,
      block_dim_inner_reduction := TIDx, grid_dim_iter_dom := BIDx\<rparr>"

text \<open>Scenario 2: the same with \<open>vectorize_inner_reduction\<close> and not the fastest dimension.\<close>

definition scenario2_params :: ReductionParams where
  "scenario2_params = scenario1_params\<lparr>fastest_dim := False, vectorize_inner_reduction := True\<rparr>"

text \<open>Scenario 3: outer grid persistence, static block sizes, batch size equal to the
  unroll factor, vectorized iteration domain.\<close>

definition scenario3_params :: ReductionParams where
  "scenario3_params = default_params\<lparr>fastest_dim := False, persistent_kernel := True,
      cross_grid_inner_reduction := True, cross_block_inner_reduction := True,
      unroll_factor_inner_reduction := 4, batches_per_block_inner_reduction := 4,
      block_dim_inner_reduction := TIDy, grid_dim_inner_reduction := BIDy,
      unroll_factor_iter_dom := 2, vectorize_iter_dom := True,
      block_dim_iter_dom := TIDx, grid_dim_iter_dom := BIDx,
      static_bdimx := True, static_bdimy := True, lparams_bdimx := 32, lparams_bdimy := 8,
      isUnrolled := True\<rparr>"

text \<open>Scenario 3 with an unroll factor that differs from the batch size.\<close>

definition scenario3_unroll2_params :: ReductionParams where
  "scenario3_unroll2_params = scenario3_params\<lparr>unroll_factor_inner_reduction := 2\<rparr>"

definition scenario3_scheduled :: TensorView where
  "scenario3_scheduled = fst (run_ops (schedule_ops scenario3_params True) node_IR)"

definition scenario3_staged :: TensorView where
  "scenario3_staged = projr (snd (sortAndRFactor insertion_sort rFactor scenario3_scheduled))"

definition scenario3_result :: TensorView where
  "scenario3_result =
     projr (snd (scheduleReductionTV insertion_sort rFactor scenario3_params node_IR True))"

definition scenario3_novec_params :: ReductionParams where
  "scenario3_novec_params = scenario3_params\<lparr>vectorize_iter_dom := False\<rparr>"

definition scenario3_novec_scheduled :: TensorView where
  "scenario3_novec_scheduled = fst (run_ops (schedule_ops scenario3_novec_params True) node_IR)"

definition scenario3_novec_staged :: TensorView where
  "scenario3_novec_staged =
     projr (snd (sortAndRFactor insertion_sort rFactor scenario3_novec_scheduled))"

text \<open>Passes for running the model: only the parallelization pass changes the fusion.\<close>

definition demo_passes :: passes where
  "demo_passes =
     \<lparr>propagateTransforms = (\<lambda>reference_tv fusion. fusion),
      rfactorHelperOn = (\<lambda>tv axes fusion. fusion),
      parallelizeAllLike = parallelizeAllLike_by_position,
      getInputsOutputsWithInnerDim = (\<lambda>reference_tv inner_only vectorize_pass fusion. []),
      producerTvsOf = (\<lambda>tv fusion.
         case definition_of fusion tv of None \<Rightarrow> [] | Some e \<Rightarrow> inputs e),
      siblingTvsOf = (\<lambda>tv fusion. []),
      inlineMost = (\<lambda>fusion. fusion)\<rparr>"

text \<open>
  A fusion with the reduction node 0, its staged reference node 1, a second reduction
  node 2 held in local memory and reduced over \<^verbatim>\<open>BIDx\<close>, and the broadcast 3 of node 2
  that is parallelized over \<^verbatim>\<open>BIDx\<close> too.
\<close>

definition demo_reduction_tv :: val_ptr where "demo_reduction_tv = 0"

definition demo_reference_tv :: val_ptr where "demo_reference_tv = 1"

definition demo_other_reduction_tv :: val_ptr where "demo_other_reduction_tv = 2"

definition demo_broadcast_tv :: val_ptr where "demo_broadcast_tv = 3"

definition demo_fusion :: Fusion where
  "demo_fusion =
     \<lparr>tvs = (\<lambda>tv.
        if tv = 0 then
          \<lparr>domain = [root_axis 0 False BIDx (NamedScalar ''I''),
                     root_axis 1 True Group (IntConst 4)], memoryType = Local\<rparr>
        else if tv = 1 then
          \<lparr>domain = [root_axis 2 False BIDx (NamedScalar ''I''),
                     (root_axis 3 True Vectorize (IntConst 4))\<lparr>isRFactorProduct := True\<rparr>],
           memoryType = Local\<rparr>
        else if tv = 2 then
          \<lparr>domain = [root_axis 4 True BIDx (NamedScalar ''J''),
                     root_axis 5 True Serial (IntConst 4)], memoryType = Local\<rparr>
        else
          \<lparr>domain = [root_axis 6 False BIDx (NamedScalar ''J''),
                     (root_axis 7 False Serial (IntConst 1))\<lparr>isBroadcast := True\<rparr>],
           memoryType = Local\<rparr>),
      definition_of = (\<lambda>tv.
        if tv = 0 then Some \<lparr>exprType = ReductionOp, inputs = [1], out = 0\<rparr>
        else if tv = 2 then Some \<lparr>exprType = ReductionOp, inputs = [], out = 2\<rparr>
        else if tv = 3 then Some \<lparr>exprType = BroadcastOp, inputs = [2], out = 3\<rparr>
        else None),
      uses_of = (\<lambda>tv.
        if tv = 1 then [\<lparr>exprType = ReductionOp, inputs = [1], out = 0\<rparr>]
        else if tv = 2 then [\<lparr>exprType = BroadcastOp, inputs = [2], out = 3\<rparr>]
        else []),
      outputs = [0, 3],
      allTvs = [0, 1, 2, 3]\<rparr>"

definition demo_unrolled_params :: ReductionParams where
  "demo_unrolled_params = default_params\<lparr>unroll_factor_inner_reduction := 4, isUnrolled := True\<rparr>"

definition demo_prepared :: Fusion where
  "demo_prepared =
     propagate_parallelization demo_passes demo_reference_tv
       (propagate_and_rfactor demo_passes demo_reduction_tv demo_reference_tv
          [demo_reduction_tv, demo_other_reduction_tv] demo_fusion)"

definition demo_after_unroll :: Fusion where
  "demo_after_unroll =
     projr (unroll_phase demo_passes demo_unrolled_params demo_reduction_tv demo_reference_tv
              [demo_reduction_tv, demo_other_reduction_tv] [] [] demo_prepared)"

definition demo_unrolled_final :: Fusion where
  "demo_unrolled_final =
     projr (multiReductionInliner demo_passes demo_fusion demo_unrolled_params
              demo_reduction_tv demo_reference_tv
              [demo_reduction_tv, demo_other_reduction_tv] [] [] [])"

definition demo_final :: Fusion where
  "demo_final =
     projr (multiReductionInliner demo_passes demo_fusion default_params
              demo_reduction_tv demo_reference_tv
              [demo_reduction_tv, demo_other_reduction_tv] [] [] [])"

text \<open>
  A fusion with the reduction node 0, its staged reference node 1 with the assignments
  group and serial, and a node 4 with the assignments unroll and vectorize.
\<close>

definition demo_strip_fusion :: Fusion where
  "demo_strip_fusion =
     \<lparr>tvs = (\<lambda>tv.
        if tv = 0 then
          \<lparr>domain = [root_axis 0 False Serial (NamedScalar ''I''),
                     root_axis 1 True Serial (IntConst 4)], memoryType = Local\<rparr>
        else if tv = 1 then
          \<lparr>domain = [root_axis 2 False Group (NamedScalar ''I''),
                     (root_axis 3 True Serial (IntConst 4))\<lparr>isRFactorProduct := True\<rparr>],
           memoryType = Local\<rparr>
        else
          \<lparr>domain = [root_axis 8 False Unroll (NamedScalar ''I''),
                     root_axis 9 False Vectorize (IntConst 4)], memoryType = Local\<rparr>),
      definition_of = (\<lambda>tv.
        if tv = 0 then Some \<lparr>exprType = ReductionOp, inputs = [1], out = 0\<rparr>
        else if tv = 1 then Some \<lparr>exprType = ReductionOp, inputs = [4], out = 1\<rparr>
        else None),
      uses_of = (\<lambda>tv.
        if tv = 1 then [\<lparr>exprType = ReductionOp, inputs = [1], out = 0\<rparr>]
        else if tv = 4 then [\<lparr>exprType = ReductionOp, inputs = [4], out = 1\<rparr>]
        else []),
      outputs = [0],
      allTvs = [0, 1, 4]\<rparr>"

definition demo_strip_final :: Fusion where
  "demo_strip_final =
     projr (multiReductionInliner demo_passes demo_strip_fusion default_params 0 1 [0] [4] []
              [])"

text \<open>
  Modelled from the spec: a number no tensor view of the fusion has, for the node a
  recomputation or a sum creates.
\<close>
definition fresh_val :: "Fusion \<Rightarrow> val_ptr" where
  "fresh_val fusion = Suc (fold max (allTvs fusion) 0)"

text \<open>
  Modelled from the spec: graph operations for running the model.  Section 4.4: the
  recomputation gives a fresh node with the axes and the definition of the buffer; the
  sum gives a fresh node defined from its two operands; the rewrite replaces the buffer
  by the fresh node among the inputs of the expression that defines the use.  The
  analysis names two persistent buffers, node 6, which is not projectable, and node 1,
  which is.  The fusion is that of the comment at lines 740 to 757 with two more uses of
  node 1: node 8, and node 9 as a second resolution point that is reached through the
  reduction, through node 8 and through node 4.
\<close>

definition demo_graph_ops :: graph_ops where
  "demo_graph_ops =
     \<lparr>persistentBuffers = (\<lambda>fusion.
        \<lparr>persistent_buffers = [6, 1], persistent_buffer_resolution_points = [[9], [4, 9]],
         projectable_persistent_buffers = [1]\<rparr>),
      getAllDependencyChains = (\<lambda>buffer resolution_point fusion.
        if buffer = 1 \<and> resolution_point = 4 then [[1, 2, 3, 4], [1, 4]]
        else if buffer = 1 \<and> resolution_point = 9
        then [[1, 2, 3, 9], [1, 8, 9], [1, 4, 9], [1, 2, 3, 4, 9]]
        else if buffer = 6 \<and> resolution_point = 9 then [[6, 9]]
        else []),
      recompute = (\<lambda>buffer fusion.
        (fresh_val fusion,
         fusion\<lparr>tvs := (tvs fusion)(fresh_val fusion := tvs fusion buffer),
                definition_of :=
                  (definition_of fusion)(fresh_val fusion := definition_of fusion buffer),
                allTvs := allTvs fusion @ [fresh_val fusion]\<rparr>)),
      arith_add = (\<lambda>a b fusion.
        (fresh_val fusion,
         fusion\<lparr>tvs := (tvs fusion)(fresh_val fusion := tvs fusion b),
                definition_of := (definition_of fusion)(fresh_val fusion :=
                  Some \<lparr>exprType = OtherOp, inputs = [a, b], out = fresh_val fusion\<rparr>),
                allTvs := allTvs fusion @ [fresh_val fusion]\<rparr>)),
      replaceValInExpr = (\<lambda>use old new fusion.
        fusion\<lparr>definition_of := (definition_of fusion)(use :=
          map_option (\<lambda>e. e\<lparr>inputs := map (\<lambda>v. if v = old then new else v) (inputs e)\<rparr>)
            (definition_of fusion use))\<rparr>)\<rparr>"

definition demo_persistent_fusion :: Fusion where
  "demo_persistent_fusion =
     \<lparr>tvs = (\<lambda>tv.
        if tv = 2 then
          \<lparr>domain = [root_axis 0 True Serial (NamedScalar ''I'')], memoryType = Local\<rparr>
        else
          \<lparr>domain = [root_axis 0 False Serial (NamedScalar ''I'')], memoryType = Local\<rparr>),
      definition_of = (\<lambda>tv.
        if tv = 1 then Some \<lparr>exprType = BroadcastOp, inputs = [0], out = 1\<rparr>
        else if tv = 2 then Some \<lparr>exprType = ReductionOp, inputs = [1], out = 2\<rparr>
        else if tv = 3 then Some \<lparr>exprType = BroadcastOp, inputs = [2], out = 3\<rparr>
        else if tv = 4 then Some \<lparr>exprType = OtherOp, inputs = [1, 3], out = 4\<rparr>
        else if tv = 6 then Some \<lparr>exprType = OtherOp, inputs = [0], out = 6\<rparr>
        else if tv = 8 then Some \<lparr>exprType = OtherOp, inputs = [1], out = 8\<rparr>
        else if tv = 9 then Some \<lparr>exprType = OtherOp, inputs = [3, 8, 4, 6], out = 9\<rparr>
        else None),
      uses_of = (\<lambda>tv. []),
      outputs = [9],
      allTvs = [0, 1, 2, 3, 4, 6, 8, 9]\<rparr>"

definition demo_info :: PersistentBufferInfo where
  "demo_info = persistentBuffers demo_graph_ops demo_persistent_fusion"

definition demo_projected :: "Fusion \<times> val_ptr list" where
  "demo_projected = projr (projectPersistentBuffers demo_graph_ops demo_persistent_fusion)"

section \<open>Properties of \<^verbatim>\<open>sortAndRFactor\<close>\<close>

lemma mset_insert_by: "mset (insert_by lt x xs) = add_mset x (mset xs)"
  by (induction xs) auto

lemma mset_insertion_sort: "mset (insertion_sort lt xs) = mset xs"
  by (induction xs) (auto simp: mset_insert_by)

lemma set_insert_by: "set (insert_by lt x xs) = insert x (set xs)"
  by (induction xs) auto

lemma sorted_insert_by_id_lt:
  "sorted_wrt (\<lambda>x y. \<not> id_lt y x) xs \<Longrightarrow> sorted_wrt (\<lambda>x y. \<not> id_lt y x) (insert_by id_lt x xs)"
  by (induction xs) (auto simp: set_insert_by id_lt_def)

lemma sorted_insertion_sort_id_lt: "sorted_wrt (\<lambda>x y. \<not> id_lt y x) (insertion_sort id_lt xs)"
  by (induction xs) (auto simp: sorted_insert_by_id_lt)

lemma insertion_sort_contract: "std_sort_contract insertion_sort id_lt"
  by (simp add: std_sort_contract_def mset_insertion_sort sorted_insertion_sort_id_lt)

lemma update_fresh_key: "k \<notin> fst ` set al \<Longrightarrow> AList.update k v al = al @ [(k, v)]"
  by (induction al) auto

lemma domain_pos_loop_other:
  "p \<notin> ident ` set ys \<Longrightarrow> map_of (domain_pos_loop ys i acc) p = map_of acc p"
  by (induction ys arbitrary: i acc) (auto simp: update_conv')

lemma domain_pos_loop_nth:
  "distinct (map ident ys) \<Longrightarrow> k < length ys \<Longrightarrow>
   map_of (domain_pos_loop ys i acc) (ident (ys ! k)) = Some (i + int k)"
proof (induction ys arbitrary: i acc k)
  case Nil
  then show ?case by simp
next
  case (Cons d ds)
  show ?case
  proof (cases k)
    case 0
    with Cons.prems show ?thesis
      by (simp add: domain_pos_loop_other update_conv')
  next
    case (Suc k')
    with Cons.prems Cons.IH[of k' "i + 1" "AList.update (ident d) i acc"] show ?thesis
      by simp
  qed
qed

lemma reorder_map_loop_total:
  "\<forall>d \<in> set xs. map_of dp (ident d) \<noteq> None \<Longrightarrow>
   \<forall>k \<in> fst ` set acc. k < old_i \<Longrightarrow>
   reorder_map_loop dp xs old_i acc =
     Inr (acc @ map (\<lambda>j. (old_i + int j, the (map_of dp (ident (xs ! j))))) [0..<length xs])"
proof (induction xs arbitrary: old_i acc)
  case Nil
  then show ?case by simp
next
  case (Cons d ds)
  from Cons.prems obtain new_i where ni: "map_of dp (ident d) = Some new_i" by auto
  have fresh: "old_i \<notin> fst ` set acc" using Cons.prems(2) by auto
  have upd: "AList.update old_i new_i acc = acc @ [(old_i, new_i)]"
    by (rule update_fresh_key[OF fresh])
  have keys: "\<forall>k \<in> fst ` set (acc @ [(old_i, new_i)]). k < old_i + 1"
    using Cons.prems(2) by auto
  have IH: "reorder_map_loop dp ds (old_i + 1) (acc @ [(old_i, new_i)]) =
     Inr ((acc @ [(old_i, new_i)]) @
        map (\<lambda>j. (old_i + 1 + int j, the (map_of dp (ident (ds ! j))))) [0..<length ds])"
    using Cons.IH[OF _ keys] Cons.prems(1) by simp
  have shift: "map (\<lambda>j. (old_i + int j, the (map_of dp (ident ((d # ds) ! j))))) [0..<length (d # ds)]
     = (old_i, new_i) # map (\<lambda>j. (old_i + 1 + int j, the (map_of dp (ident (ds ! j))))) [0..<length ds]"
    by (simp add: upt_conv_Cons map_Suc_upt[symmetric] ni del: upt_Suc) 
  show ?case
    by (simp only: reorder_map_loop.simps ni option.case upd IH shift) simp
qed

lemma find_SomeD: "find P xs = Some x \<Longrightarrow> P x \<and> x \<in> set xs"
  by (induction xs) (auto split: if_splits)

lemma fill_new2old_found:
  "\<forall>k \<in> set ks. \<exists>old. (old, int k) \<in> set m \<Longrightarrow>
   fill_new2old m left ks = map (\<lambda>k. nat (fst (the (find (\<lambda>(old, new). new = int k) m)))) ks"
proof (induction ks arbitrary: left)
  case Nil
  then show ?case by simp
next
  case (Cons k ks)
  from Cons.prems obtain old where "(old, int k) \<in> set m" by auto
  then have "find (\<lambda>(old, new). new = int k) m \<noteq> None"
    by (auto simp: find_None_iff)
  then obtain o' n' where f: "find (\<lambda>(old, new). new = int k) m = Some (o', n')" by auto
  with Cons show ?case by simp
qed

text \<open>A full old-to-new map that sends every position j to the place of its axis in ys.\<close>

lemma normalize_full_map:
  assumes len: "length ys = length xs"
    and dist: "distinct xs"
    and pos: "\<forall>j < length xs. \<exists>k < length xs. p j = int k \<and> ys ! k = xs ! j"
  shows "\<exists>new2old. normalizeOld2New (map (\<lambda>j. (int j, p j)) [0..<length xs]) (length xs) = Inr new2old
           \<and> map (\<lambda>old. xs ! old) new2old = ys"
proof -
  let ?n = "length xs"
  let ?m = "map (\<lambda>j. (int j, p j)) [0..<?n]"
  have wrap: "map (\<lambda>(old, new). (wrap_pos ?n old, wrap_pos ?n new)) ?m = ?m"
  proof (rule map_idI)
    fix e assume "e \<in> set ?m"
    then obtain j where j: "j < ?n" "e = (int j, p j)" by auto
    from pos j(1) obtain k where "p j = int k" by blast
    with j show "(case e of (old, new) \<Rightarrow> (wrap_pos ?n old, wrap_pos ?n new)) = e"
      by (simp add: wrap_pos_def)
  qed
  have range: "\<not> (\<exists>(old, new) \<in> set ?m. old < 0 \<or> int ?n \<le> old \<or> new < 0 \<or> int ?n \<le> new)"
  proof
    assume "\<exists>(old, new) \<in> set ?m. old < 0 \<or> int ?n \<le> old \<or> new < 0 \<or> int ?n \<le> new"
    then obtain j where j: "j < ?n" "int j < 0 \<or> int ?n \<le> int j \<or> p j < 0 \<or> int ?n \<le> p j"
      by auto
    from pos j(1) obtain k where "k < ?n" "p j = int k" by blast
    with j show False by simp
  qed
  have inj: "inj_on p {0..<?n}"
  proof (rule inj_onI)
    fix a b assume ab: "a \<in> {0..<?n}" "b \<in> {0..<?n}" "p a = p b"
    from pos ab(1) obtain k where k: "k < ?n" "p a = int k" "ys ! k = xs ! a" by auto
    from pos ab(2) obtain l where l: "l < ?n" "p b = int l" "ys ! l = xs ! b" by auto
    from k l ab(3) have "xs ! a = xs ! b" by simp
    with dist ab show "a = b" by (simp add: nth_eq_iff_index_eq)
  qed
  have d1: "distinct (map fst ?m)"
    by (simp add: comp_def distinct_map inj_on_def)
  have d2: "distinct (map snd ?m)"
    using inj by (simp add: comp_def distinct_map)
  have surj: "\<forall>k \<in> set [0..<?n]. \<exists>old. (old, int k) \<in> set ?m"
  proof
    fix k assume "k \<in> set [0..<?n]"
    then have kn: "k < ?n" by simp
    have "card (p ` {0..<?n}) = ?n" using inj by (simp add: card_image)
    moreover have "p ` {0..<?n} \<subseteq> int ` {0..<?n}"
      using pos by force
    moreover have "card (int ` {0..<?n}) = ?n" by (simp add: card_image)
    ultimately have "p ` {0..<?n} = int ` {0..<?n}"
      by (metis card_subset_eq finite_atLeastLessThan finite_imageI)
    moreover have "int k \<in> int ` {0..<?n}" using kn by simp
    ultimately have "int k \<in> p ` {0..<?n}" by simp
    then obtain j where "j < ?n" "p j = int k" by auto
    then show "\<exists>old. (old, int k) \<in> set ?m" by (auto intro!: exI[of _ "int j"])
  qed
  let ?r = "map (\<lambda>k. nat (fst (the (find (\<lambda>(old, new). new = int k) ?m)))) [0..<?n]"
  have norm: "normalizeOld2New ?m ?n = Inr ?r"
    unfolding normalizeOld2New_def Let_def wrap
    using range d1 d2 fill_new2old_found[OF surj] by simp
  have "map (\<lambda>old. xs ! old) ?r = ys"
  proof (rule nth_equalityI)
    show "length (map (\<lambda>old. xs ! old) ?r) = length ys" using len by simp
  next
    fix k assume "k < length (map (\<lambda>old. xs ! old) ?r)"
    then have kn: "k < ?n" by simp
    from surj kn obtain old where "(old, int k) \<in> set ?m" by force
    then have "find (\<lambda>(old, new). new = int k) ?m \<noteq> None"
      unfolding find_None_iff by blast
    then obtain o' n' where f: "find (\<lambda>(old, new). new = int k) ?m = Some (o', n')" by auto
    from find_SomeD[OF f] obtain j where j: "j < ?n" "o' = int j" "p j = int k" by auto
    from pos j(1) obtain l where l: "l < ?n" "p j = int l" "ys ! l = xs ! j" by auto
    with j have "ys ! k = xs ! j" by simp
    with kn f j show "map (\<lambda>old. xs ! old) ?r ! k = ys ! k" by simp
  qed
  with norm show ?thesis by blast
qed

lemma spec_class_le: "spec_class d \<le> 11"
  by (simp add: spec_class_def)

lemma idPos_spec_class:
  "idPos d = (if spec_class d < 8 then INT_MAX - int (spec_class d)
              else INT_MIN + (int (spec_class d) - 8))"
  by (simp add: idPos_def spec_class_def Let_def)

lemma idPos_code_class:
  "idPos d = (if code_class d < 8 then INT_MAX - int (code_class d)
              else INT_MIN + (11 - int (code_class d)))"
  using spec_class_le[of d] by (auto simp: idPos_spec_class code_class_def)

lemma code_class_le: "code_class d \<le> 11"
  using spec_class_le[of d] by (auto simp: code_class_def)

lemma code_class_less_iff: "code_class a < code_class b \<longleftrightarrow> idPos b < idPos a"
  using code_class_le[of a] code_class_le[of b]
  by (auto simp: idPos_code_class INT_MAX_def INT_MIN_def)

lemma sortAndReorder_sorted:
  assumes c: "std_sort_contract srt id_lt" and d: "distinct (map ident (domain tv))"
  shows "\<exists>m. sort_reorder_map srt tv = Inr m
           \<and> m = map (\<lambda>j. (int j, the (map_of (domain_pos_loop (srt id_lt (domain tv)) 0 [])
                                     (ident (domain tv ! j))))) [0..<nDims tv]
           \<and> (\<forall>j < nDims tv. \<exists>k < nDims tv. snd (m ! j) = int k \<and> srt id_lt (domain tv) ! k = domain tv ! j)
           \<and> reorder m tv = Inr (tv\<lparr>domain := srt id_lt (domain tv)\<rparr>)"
proof -
  let ?xs = "domain tv" and ?ys = "srt id_lt (domain tv)"
  let ?dp = "domain_pos_loop ?ys 0 []"
  let ?p = "\<lambda>j. the (map_of ?dp (ident (?xs ! j)))"
  let ?m = "map (\<lambda>j. (int j, ?p j)) [0..<length ?xs]"
  from c have ms: "mset ?ys = mset ?xs" by (simp add: std_sort_contract_def)
  then have len: "length ?ys = length ?xs" by (rule mset_eq_length)
  from ms have st: "set ?ys = set ?xs" by (rule mset_eq_setD)
  from ms have "mset (map ident ?ys) = mset (map ident ?xs)" by simp
  with d have dy: "distinct (map ident ?ys)" by (metis mset_eq_imp_distinct_iff)
  from d have dx: "distinct ?xs" by (simp add: distinct_map)
  have pos: "\<forall>j < length ?xs. \<exists>k < length ?xs. ?p j = int k \<and> ?ys ! k = ?xs ! j
                \<and> map_of ?dp (ident (?xs ! j)) = Some (int k)"
  proof (intro allI impI)
    fix j assume "j < length ?xs"
    then have "?xs ! j \<in> set ?ys" using st by simp
    then obtain k where k: "k < length ?ys" "?ys ! k = ?xs ! j" by (auto simp: in_set_conv_nth)
    from domain_pos_loop_nth[OF dy k(1), of 0 "[]"] k(2)
    have "map_of ?dp (ident (?xs ! j)) = Some (int k)" by simp
    with k len show "\<exists>k < length ?xs. ?p j = int k \<and> ?ys ! k = ?xs ! j
                \<and> map_of ?dp (ident (?xs ! j)) = Some (int k)" by auto
  qed
  have tot: "\<forall>d \<in> set ?xs. map_of ?dp (ident d) \<noteq> None"
  proof
    fix d assume "d \<in> set ?xs"
    then obtain j where "j < length ?xs" "?xs ! j = d" by (auto simp: in_set_conv_nth)
    with pos show "map_of ?dp (ident d) \<noteq> None" by fastforce
  qed
  have m: "sort_reorder_map srt tv = Inr ?m"
    unfolding sort_reorder_map_def sorted_domain_def
    using reorder_map_loop_total[OF tot, of "[]" 0] by simp
  from pos have pos': "\<forall>j < length ?xs. \<exists>k < length ?xs. ?p j = int k \<and> ?ys ! k = ?xs ! j"
    by blast
  from normalize_full_map[OF len dx pos']
  have r: "reorder ?m tv = Inr (tv\<lparr>domain := ?ys\<rparr>)"
    by (auto simp: reorder_def nDims_def)
  from pos' have "\<forall>j < nDims tv. \<exists>k < nDims tv. snd (?m ! j) = int k \<and> ?ys ! k = ?xs ! j"
    by (simp add: nDims_def)
  with m r show ?thesis by (simp add: nDims_def)
qed

lemma sortAndReorder_eq:
  assumes "std_sort_contract srt id_lt" and "distinct (map ident (domain tv))"
  shows "sortAndReorder srt tv = Inr (tv\<lparr>domain := srt id_lt (domain tv)\<rparr>)"
  using sortAndReorder_sorted[OF assms] by (auto simp: sortAndReorder_def)

lemma reorder_map_loop_lost:
  "\<exists>d \<in> set ds. map_of dp (ident d) = None \<Longrightarrow>
   reorder_map_loop dp ds old_i acc = Inl ReorderLostAxis"
  by (induction ds arbitrary: old_i acc) (auto split: option.splits)

text \<open>
  Claim C1, as the code has it.  Let \<open>std::sort\<close> meet its contract and let the node hold
  no axis twice.  Then the reorder of \<^verbatim>\<open>sortAndRFactor\<close> succeeds, keeps the axes of the
  node, and whenever the class of an axis strictly precedes the class of another in the
  innermost-to-outermost key of the code (\<^const>\<open>code_class\<close>: the key of section 4.1 with
  its last four classes in the order iteration+symbolic-extent, iteration+constant-extent,
  iteration+hardware-thread-parallel, iteration+hardware-block-parallel), the first axis
  stands at a strictly later (more inner) position than the second, whatever the initial
  order was.
\<close>

theorem sortAndRFactor_canonical_order:
  assumes "std_sort_contract srt id_lt" and "distinct (map ident (domain tv))"
  shows "\<exists>tv'. sortAndReorder srt tv = Inr tv'
           \<and> mset (domain tv') = mset (domain tv)
           \<and> (\<forall>i < nDims tv'. \<forall>j < nDims tv'.
                 code_class (domain tv' ! i) < code_class (domain tv' ! j) \<longrightarrow> j < i)"
proof -
  let ?ys = "srt id_lt (domain tv)"
  from assms(1) have ms: "mset ?ys = mset (domain tv)"
    and so: "sorted_wrt (\<lambda>x y. \<not> id_lt y x) ?ys"
    by (simp_all add: std_sort_contract_def)
  have "j < i" if ij: "i < length ?ys" "j < length ?ys"
    and cl: "code_class (?ys ! i) < code_class (?ys ! j)" for i j
  proof (rule ccontr)
    assume "\<not> j < i"
    with cl have "i < j" by (cases "i = j") auto
    with so ij have "\<not> id_lt (?ys ! j) (?ys ! i)" by (simp add: sorted_wrt_iff_nth_less)
    with cl show False by (simp add: id_lt_def code_class_less_iff)
  qed
  with ms sortAndReorder_eq[OF assms] show ?thesis by (simp add: nDims_def)
qed

theorem sortAndRFactor_canonical_order_witness:
  "std_sort_contract insertion_sort id_lt \<and> distinct (map ident (domain ex_node))
   \<and> sortAndReorder insertion_sort ex_node = Inr ex_sorted
   \<and> map code_class (domain ex_sorted) = [11, 8, 7, 3, 1]
   \<and> mset (domain ex_sorted) = mset (domain ex_node)"
proof -
  have c: "std_sort_contract insertion_sort id_lt" by (rule insertion_sort_contract)
  have d: "distinct (map ident (domain ex_node))" by code_simp
  have e: "sortAndReorder insertion_sort ex_node = Inr ex_sorted" by code_simp
  have f: "map code_class (domain ex_sorted) = [11, 8, 7, 3, 1]" by code_simp
  from sortAndRFactor_canonical_order[OF c d] c d e f show ?thesis by auto
qed

text \<open>
  Claim C1 as it is written fails.  On a node with the axes \<open>b\<close> (iteration, serial,
  symbolic extent) and \<open>a\<close> (iteration, serial, constant extent), the class of \<open>a\<close>
  precedes the class of \<open>b\<close> in the key of section 4.1, yet the reorder puts \<open>a\<close> at
  position 0 and \<open>b\<close> at position 1: \<open>a\<close> is the outer one.
\<close>

theorem spec_order_counterexample:
  "sortAndReorder insertion_sort c1_node = Inr (c1_node\<lparr>domain := [c1_axis_a, c1_axis_b]\<rparr>)
   \<and> [c1_axis_a, c1_axis_b] ! 0 = c1_axis_a \<and> [c1_axis_a, c1_axis_b] ! 1 = c1_axis_b
   \<and> spec_class c1_axis_a = 10 \<and> spec_class c1_axis_b = 11"
  by code_simp

text \<open>
  Claim C2.  Let \<open>std::sort\<close> meet its contract and let the node hold no axis twice.
  Then the reorder map of \<^verbatim>\<open>sortAndRFactor\<close> has exactly the old positions as keys, its
  new positions are pairwise different and are exactly the positions of the node, the
  reorder succeeds, every old axis stands at its new position afterwards, and the
  multiset of axes is unchanged.  An axis that the position table does not hold is the
  fatal error of line 627.
\<close>

theorem sortAndRFactor_reorder_bijection:
  assumes "std_sort_contract srt id_lt" and "distinct (map ident (domain tv))"
  shows "\<exists>m tv'. sort_reorder_map srt tv = Inr m
           \<and> map fst m = map int [0..<nDims tv]
           \<and> distinct (map snd m)
           \<and> set (map snd m) = int ` {0..<nDims tv}
           \<and> sortAndReorder srt tv = Inr tv'
           \<and> (\<forall>j < nDims tv. domain tv' ! nat (snd (m ! j)) = domain tv ! j)
           \<and> mset (domain tv') = mset (domain tv)
           \<and> (\<forall>domain_pos.
                 (\<exists>d \<in> set (domain tv). map_of domain_pos (ident d) = None) \<longrightarrow>
                 reorder_map_loop domain_pos (domain tv) 0 [] = Inl ReorderLostAxis)"
proof -
  let ?xs = "domain tv" and ?ys = "srt id_lt (domain tv)"
  let ?n = "nDims tv"
  from sortAndReorder_sorted[OF assms] obtain m where
    m: "sort_reorder_map srt tv = Inr m"
    and meq: "m = map (\<lambda>j. (int j, the (map_of (domain_pos_loop ?ys 0 []) (ident (?xs ! j))))) [0..<?n]"
    and pos: "\<forall>j < ?n. \<exists>k < ?n. snd (m ! j) = int k \<and> ?ys ! k = ?xs ! j"
    and r: "reorder m tv = Inr (tv\<lparr>domain := ?ys\<rparr>)"
    by blast
  from assms(1) have ms: "mset ?ys = mset ?xs" by (simp add: std_sort_contract_def)
  from assms(2) have dx: "distinct ?xs" by (simp add: distinct_map)
  from ms dx have dy: "distinct ?ys" by (metis mset_eq_imp_distinct_iff)
  have len: "length ?ys = ?n" using mset_eq_length[OF ms] by (simp add: nDims_def)
  have lm: "length m = ?n" by (simp add: meq)
  have keys: "map fst m = map int [0..<?n]" by (simp add: meq comp_def)
  have snd_nth: "map snd m ! j = snd (m ! j)" if "j < ?n" for j using that lm by simp
  have inj: "snd (m ! a) \<noteq> snd (m ! b)" if ab: "a < ?n" "b < ?n" "a \<noteq> b" for a b
  proof
    assume e: "snd (m ! a) = snd (m ! b)"
    from pos ab(1) obtain k where k: "snd (m ! a) = int k" "?ys ! k = ?xs ! a" by blast
    from pos ab(2) obtain l where l: "snd (m ! b) = int l" "?ys ! l = ?xs ! b" by blast
    from e k l have "?xs ! a = ?xs ! b" by simp
    with dx ab show False by (simp add: nth_eq_iff_index_eq nDims_def)
  qed
  have dv: "distinct (map snd m)"
    unfolding distinct_conv_nth using inj lm by (auto simp: snd_nth)
  have sub: "set (map snd m) \<subseteq> int ` {0..<?n}"
  proof
    fix v assume "v \<in> set (map snd m)"
    then obtain j where j: "j < ?n" "v = snd (m ! j)"
      using lm by (auto simp: in_set_conv_nth)
    with pos obtain k where "k < ?n" "snd (m ! j) = int k" by blast
    with j show "v \<in> int ` {0..<?n}" by simp
  qed
  have "card (set (map snd m)) = ?n" using distinct_card[OF dv] lm by simp
  moreover have "card (int ` {0..<?n}) = ?n" by (simp add: card_image)
  ultimately have vals: "set (map snd m) = int ` {0..<?n}"
    using sub by (metis card_subset_eq finite_atLeastLessThan finite_imageI)
  have sr: "sortAndReorder srt tv = Inr (tv\<lparr>domain := ?ys\<rparr>)"
    using m r by (simp add: sortAndReorder_def)
  have moved: "\<forall>j < ?n. domain (tv\<lparr>domain := ?ys\<rparr>) ! nat (snd (m ! j)) = ?xs ! j"
  proof (intro allI impI)
    fix j assume "j < ?n"
    with pos obtain k where "snd (m ! j) = int k" "?ys ! k = ?xs ! j" by blast
    then show "domain (tv\<lparr>domain := ?ys\<rparr>) ! nat (snd (m ! j)) = ?xs ! j" by simp
  qed
  have lost: "\<forall>domain_pos.
                 (\<exists>d \<in> set ?xs. map_of domain_pos (ident d) = None) \<longrightarrow>
                 reorder_map_loop domain_pos ?xs 0 [] = Inl ReorderLostAxis"
    using reorder_map_loop_lost by blast
  from m keys dv vals sr moved ms lost show ?thesis by auto
qed

theorem sortAndRFactor_reorder_bijection_witness:
  "std_sort_contract insertion_sort id_lt \<and> distinct (map ident (domain ex_node))
   \<and> sort_reorder_map insertion_sort ex_node = Inr [(0, 2), (1, 1), (2, 4), (3, 0), (4, 3)]
   \<and> sortAndReorder insertion_sort ex_node = Inr ex_sorted
   \<and> domain ex_sorted ! 2 = domain ex_node ! 0
   \<and> mset (domain ex_sorted) = mset (domain ex_node)
   \<and> map_of [] (ident (domain ex_node ! 0)) = (None :: int option)
   \<and> reorder_map_loop [] (domain ex_node) 0 [] = Inl ReorderLostAxis"
proof -
  have c: "std_sort_contract insertion_sort id_lt" by (rule insertion_sort_contract)
  have d: "distinct (map ident (domain ex_node))" by code_simp
  have e: "sort_reorder_map insertion_sort ex_node = Inr [(0, 2), (1, 1), (2, 4), (3, 0), (4, 3)]"
    by code_simp
  have f: "sortAndReorder insertion_sort ex_node = Inr ex_sorted" by code_simp
  have g: "domain ex_sorted ! 2 = domain ex_node ! 0" by code_simp
  have h: "reorder_map_loop [] (domain ex_node) 0 [] = Inl ReorderLostAxis" by code_simp
  from sortAndRFactor_reorder_bijection[OF c d] c d e f g h show ?thesis by auto
qed

lemma positions_where_Nil: "positions_where P [] k = []"
  by (simp add: positions_where_def)

lemma positions_where_Cons:
  "positions_where P (d # ds) k = (if P d then [k] else []) @ positions_where P ds (k + 1)"
proof -
  have "[0..<length (d # ds)] = 0 # map Suc [0..<length ds]"
    by (simp add: upt_conv_Cons map_Suc_upt del: upt_Suc)
  then show ?thesis
    by (simp add: positions_where_def filter_map comp_def add.assoc del: upt_Suc)
qed

lemma length_positions_where: "length (positions_where P ds k) = length (filter P ds)"
  by (induction ds arbitrary: k) (simp_all add: positions_where_Nil positions_where_Cons)

lemma rfactor_loop_eq:
  "rfactor_loop ds k (ra, rn, c) =
     (ra @ positions_where (\<lambda>d. isReduction d \<and> \<not> isThread d) ds k,
      rn @ positions_where (\<lambda>d. isReduction d \<and> \<not> isThread d
                \<and> \<not> (getParallelType d = Unswitch \<and> isOneInt (extent d))) ds k,
      c + length (filter isReduction ds))"
  by (induction ds arbitrary: k ra rn c) (simp_all add: positions_where_Nil positions_where_Cons)

lemma filter_conj_length_iff:
  "length (filter P xs) = length (filter (\<lambda>x. P x \<and> Q x) xs) \<longleftrightarrow> (\<forall>x \<in> set xs. P x \<longrightarrow> Q x)"
proof (induction xs)
  case Nil
  then show ?case by simp
next
  case (Cons x xs)
  have le: "length (filter (\<lambda>x. P x \<and> Q x) xs) \<le> length (filter P xs)"
  proof (induction xs)
    case Nil
    then show ?case by simp
  next
    case (Cons y ys)
    then show ?case by auto
  qed
  with Cons show ?case by auto
qed

text \<open>
  The axes computed by lines 635 to 663 on a node: in increasing order, the positions of
  the reduction axes that are not hardware-thread-parallel; when every reduction axis
  of the node is such a candidate, the candidates that are unswitched with extent
  exactly one are left out.
\<close>

lemma staged_axes_filter:
  "staged_axes tv =
     map int (filter (\<lambda>i. isReduction (domain tv ! i) \<and> \<not> isThread (domain tv ! i)
        \<and> ((\<forall>d \<in> set (domain tv). isReduction d \<longrightarrow> \<not> isThread d) \<longrightarrow>
             \<not> (getParallelType (domain tv ! i) = Unswitch \<and> isOneInt (extent (domain tv ! i)))))
       [0..<nDims tv])"
proof -
  let ?all = "\<forall>d \<in> set (domain tv). isReduction d \<longrightarrow> \<not> isThread d"
  let ?cand = "\<lambda>d. isReduction d \<and> \<not> isThread d"
  let ?keep = "\<lambda>d. isReduction d \<and> \<not> isThread d
                 \<and> \<not> (getParallelType d = Unswitch \<and> isOneInt (extent d))"
  have test: "length (filter isReduction (domain tv)) = length (filter ?cand (domain tv)) \<longleftrightarrow> ?all"
    by (rule filter_conj_length_iff)
  define b where "b \<longleftrightarrow> ?all"
  have "staged_axes tv =
     map int (filter (\<lambda>i. isReduction (domain tv ! i) \<and> \<not> isThread (domain tv ! i)
        \<and> (b \<longrightarrow>
             \<not> (getParallelType (domain tv ! i) = Unswitch \<and> isOneInt (extent (domain tv ! i)))))
       [0..<nDims tv])"
  proof (cases b)
    case True
    with test have "length (filter isReduction (domain tv)) = length (filter ?cand (domain tv))"
      by (simp add: b_def)
    then have "staged_axes tv = positions_where ?keep (domain tv) 0"
      by (simp add: staged_axes_def rfactor_loop_eq length_positions_where)
    with True show ?thesis by (simp add: positions_where_def nDims_def)
  next
    case False
    with test have "length (filter isReduction (domain tv)) \<noteq> length (filter ?cand (domain tv))"
      by (simp add: b_def)
    then have "staged_axes tv = positions_where ?cand (domain tv) 0"
      by (simp add: staged_axes_def rfactor_loop_eq length_positions_where)
    with False show ?thesis by (simp add: positions_where_def nDims_def)
  qed
  then show ?thesis unfolding b_def .
qed

text \<open>
  Claim C3.  When the reorder of \<^verbatim>\<open>sortAndRFactor\<close> succeeds and leaves the node \<open>tv\<close>,
  \<^verbatim>\<open>sortAndRFactor\<close> returns what \<^verbatim>\<open>rfactorHelper\<close> makes of \<open>tv\<close> and of the
  following axes, counted on the reordered node and in increasing order: the positions
  of the reduction axes that are not hardware-thread-parallel, without those that are
  unswitched with extent exactly one when every reduction axis of the node is such a
  candidate.  When the reorder fails, \<^verbatim>\<open>rfactorHelper\<close> is not called and the node is
  returned as it was, with the diagnostic.  When \<open>std::sort\<close> meets its contract and the
  node holds no axis twice the reorder succeeds, and the reordered node has the axes of
  the node.
\<close>

theorem sortAndRFactor_staged_axes:
  "(\<forall>tv. sortAndReorder srt reference_tv = Inr tv \<longrightarrow>
       sortAndRFactor srt rfactorHelper reference_tv =
         rfactorHelper tv
           (map int (filter (\<lambda>i. isReduction (domain tv ! i) \<and> \<not> isThread (domain tv ! i)
               \<and> ((\<forall>d \<in> set (domain tv). isReduction d \<longrightarrow> \<not> isThread d) \<longrightarrow>
                    \<not> (getParallelType (domain tv ! i) = Unswitch
                        \<and> isOneInt (extent (domain tv ! i)))))
             [0..<nDims tv])))
   \<and> (\<forall>e. sortAndReorder srt reference_tv = Inl e \<longrightarrow>
         sortAndRFactor srt rfactorHelper reference_tv = (reference_tv, Inl e))
   \<and> (std_sort_contract srt id_lt \<and> distinct (map ident (domain reference_tv)) \<longrightarrow>
         (\<exists>tv. sortAndReorder srt reference_tv = Inr tv
            \<and> mset (domain tv) = mset (domain reference_tv)))"
proof (intro conjI allI impI)
  fix tv assume "sortAndReorder srt reference_tv = Inr tv"
  then show "sortAndRFactor srt rfactorHelper reference_tv =
         rfactorHelper tv
           (map int (filter (\<lambda>i. isReduction (domain tv ! i) \<and> \<not> isThread (domain tv ! i)
               \<and> ((\<forall>d \<in> set (domain tv). isReduction d \<longrightarrow> \<not> isThread d) \<longrightarrow>
                    \<not> (getParallelType (domain tv ! i) = Unswitch
                        \<and> isOneInt (extent (domain tv ! i)))))
             [0..<nDims tv]))"
    by (simp only: sortAndRFactor_def sum.case staged_axes_filter[of tv])
next
  fix e assume "sortAndReorder srt reference_tv = Inl e"
  then show "sortAndRFactor srt rfactorHelper reference_tv = (reference_tv, Inl e)"
    by (simp add: sortAndRFactor_def)
next
  assume a: "std_sort_contract srt id_lt \<and> distinct (map ident (domain reference_tv))"
  then have "sortAndReorder srt reference_tv
      = Inr (reference_tv\<lparr>domain := srt id_lt (domain reference_tv)\<rparr>)"
    by (simp add: sortAndReorder_eq)
  moreover from a have "mset (srt id_lt (domain reference_tv)) = mset (domain reference_tv)"
    by (simp add: std_sort_contract_def)
  ultimately show "\<exists>tv. sortAndReorder srt reference_tv = Inr tv
            \<and> mset (domain tv) = mset (domain reference_tv)"
    by simp
qed

theorem sortAndRFactor_staged_axes_witness:
  "sortAndReorder insertion_sort ex_node = Inr ex_sorted
   \<and> std_sort_contract insertion_sort id_lt \<and> distinct (map ident (domain ex_node))
   \<and> mset (domain ex_sorted) = mset (domain ex_node)
   \<and> sortAndRFactor insertion_sort rFactor ex_node = rFactor ex_sorted [2, 4]
   \<and> isReduction (domain ex_sorted ! 3) \<and> isThread (domain ex_sorted ! 3)
   \<and> getParallelType (domain ex_sorted ! 4) = Unswitch \<and> isOneInt (extent (domain ex_sorted ! 4))
   \<and> sortAndReorder insertion_sort ex_all_candidates = Inr ex_all_candidates
   \<and> sortAndRFactor insertion_sort rFactor ex_all_candidates = rFactor ex_all_candidates [2]
   \<and> isReduction (domain ex_all_candidates ! 3) \<and> \<not> isThread (domain ex_all_candidates ! 3)
   \<and> getParallelType (domain ex_all_candidates ! 3) = Unswitch
   \<and> isOneInt (extent (domain ex_all_candidates ! 3))
   \<and> sortAndReorder (\<lambda>lt xs. []) ex_node = Inl ReorderLostAxis
   \<and> sortAndRFactor (\<lambda>lt xs. []) rFactor ex_node = (ex_node, Inl ReorderLostAxis)"
proof -
  let ?L = "\<lambda>tv. map int (filter (\<lambda>i. isReduction (domain tv ! i) \<and> \<not> isThread (domain tv ! i)
        \<and> ((\<forall>d \<in> set (domain tv). isReduction d \<longrightarrow> \<not> isThread d) \<longrightarrow>
             \<not> (getParallelType (domain tv ! i) = Unswitch
                 \<and> isOneInt (extent (domain tv ! i)))))
       [0..<nDims tv])"
  have s1: "sortAndReorder insertion_sort ex_node = Inr ex_sorted" by code_simp
  have s2: "sortAndReorder insertion_sort ex_all_candidates = Inr ex_all_candidates"
    by code_simp
  have s3: "sortAndReorder (\<lambda>lt xs. []) ex_node = Inl ReorderLostAxis" by code_simp
  have c: "std_sort_contract insertion_sort id_lt" by (rule insertion_sort_contract)
  have d: "distinct (map ident (domain ex_node))" by code_simp
  have a: "?L ex_sorted = [2, 4]" by code_simp
  have b: "?L ex_all_candidates = [2]" by code_simp
  have f: "isReduction (domain ex_sorted ! 3) \<and> isThread (domain ex_sorted ! 3)
   \<and> getParallelType (domain ex_sorted ! 4) = Unswitch \<and> isOneInt (extent (domain ex_sorted ! 4))
   \<and> isReduction (domain ex_all_candidates ! 3) \<and> \<not> isThread (domain ex_all_candidates ! 3)
   \<and> getParallelType (domain ex_all_candidates ! 3) = Unswitch
   \<and> isOneInt (extent (domain ex_all_candidates ! 3))"
    by code_simp
  have m: "mset (domain ex_sorted) = mset (domain ex_node)"
    using sortAndRFactor_staged_axes[of insertion_sort ex_node rFactor] c d s1 by auto
  have r1: "sortAndRFactor insertion_sort rFactor ex_node = rFactor ex_sorted [2, 4]"
    using sortAndRFactor_staged_axes[of insertion_sort ex_node rFactor] s1 a by simp
  have r2: "sortAndRFactor insertion_sort rFactor ex_all_candidates
      = rFactor ex_all_candidates [2]"
    using sortAndRFactor_staged_axes[of insertion_sort ex_all_candidates rFactor] s2 b by simp
  have r3: "sortAndRFactor (\<lambda>lt xs. []) rFactor ex_node = (ex_node, Inl ReorderLostAxis)"
    using sortAndRFactor_staged_axes[of "\<lambda>lt xs. []" ex_node rFactor] s3 by simp
  from s1 s2 s3 c d m r1 r2 r3 f show ?thesis by blast
qed

section \<open>Properties of \<^verbatim>\<open>scheduleReductionTV\<close>\<close>

lemma failed_assert_Some_mem: "failed_assert as = Some e \<Longrightarrow> e \<in> snd ` set as"
  by (induction as) (auto split: if_splits)

lemma failed_assert_None_iff: "failed_assert as = None \<longleftrightarrow> (\<forall>(c, e) \<in> set as. c)"
  by (induction as) (auto split: if_splits)

text \<open>
  Claim C4.  When the node has too few axes for the requested layout, or the iteration
  domain is to be vectorized on a fastest-dimension reduction, or the inner reduction is
  to be vectorized on a reduction that is not the fastest dimension, or several
  reductions per block are requested without an iteration axis, or the iteration domain
  is to be unrolled by more than one without an iteration axis, then
  \<^verbatim>\<open>scheduleReductionTV\<close> ends with one of the five diagnostics of lines 40 to 62 and the
  node is as it was: no split and no parallel assignment has been made.
\<close>

theorem scheduleReductionTV_preconditions:
  assumes "int (nDims reduction_tv)
             \<le> max iter_axis (max (outer_reduce_axis rparams)
                                    (inner_reduce_axis rparams has_iter_axis))
     \<or> (fastest_dim rparams \<and> vectorize_iter_dom rparams)
     \<or> (\<not> fastest_dim rparams \<and> vectorize_inner_reduction rparams)
     \<or> (multiple_reds_per_blk rparams \<and> \<not> has_iter_axis)
     \<or> (unroll_factor_iter_dom rparams > 1 \<and> \<not> has_iter_axis)"
  shows "\<exists>e. e \<in> {TooFewDimensions, VectorizeIterDomOnInnerReduction,
                 VectorizeReductionOnOuterReduction, MultipleReductionsNeedIterDomain,
                 UnrollIterDomNeedsIterDomain}
           \<and> scheduleReductionTV srt rfactorHelper rparams reduction_tv has_iter_axis
               = (reduction_tv, Inl e)"
proof -
  have "check_preconditions rparams reduction_tv has_iter_axis \<noteq> None"
    using assms unfolding check_preconditions_def failed_assert_None_iff by auto
  then obtain e where e: "check_preconditions rparams reduction_tv has_iter_axis = Some e"
    by auto
  then have "e \<in> {TooFewDimensions, VectorizeIterDomOnInnerReduction,
                 VectorizeReductionOnOuterReduction, MultipleReductionsNeedIterDomain,
                 UnrollIterDomNeedsIterDomain}"
    using failed_assert_Some_mem[of _ e] unfolding check_preconditions_def by fastforce
  with e show ?thesis by (auto simp: scheduleReductionTV_def)
qed

theorem scheduleReductionTV_preconditions_witness:
  "\<not> fastest_dim scenario2_params \<and> vectorize_inner_reduction scenario2_params
   \<and> scheduleReductionTV insertion_sort rFactor scenario2_params node_IR True
       = (node_IR, Inl VectorizeReductionOnOuterReduction)
   \<and> int (nDims node_IR) \<le> max iter_axis (max (outer_reduce_axis (scenario1_params\<lparr>schedule_3D := True\<rparr>))
                                    (inner_reduce_axis (scenario1_params\<lparr>schedule_3D := True\<rparr>) True))
   \<and> scheduleReductionTV insertion_sort rFactor (scenario1_params\<lparr>schedule_3D := True\<rparr>) node_IR True
       = (node_IR, Inl TooFewDimensions)"
proof -
  have a: "\<not> fastest_dim scenario2_params \<and> vectorize_inner_reduction scenario2_params"
    by code_simp
  have b: "scheduleReductionTV insertion_sort rFactor scenario2_params node_IR True
       = (node_IR, Inl VectorizeReductionOnOuterReduction)"
    by code_simp
  have c: "int (nDims node_IR) \<le> max iter_axis (max (outer_reduce_axis (scenario1_params\<lparr>schedule_3D := True\<rparr>))
                                    (inner_reduce_axis (scenario1_params\<lparr>schedule_3D := True\<rparr>) True))"
    by code_simp
  have d: "scheduleReductionTV insertion_sort rFactor (scenario1_params\<lparr>schedule_3D := True\<rparr>) node_IR True
       = (node_IR, Inl TooFewDimensions)"
    by code_simp
  from scheduleReductionTV_preconditions[of node_IR scenario2_params True insertion_sort rFactor]
    a b c d show ?thesis by simp
qed




lemma split_at:
  assumes "domain tv = pre @ d # post" and "axis = int (length pre)"
    and "getParallelType d = Serial"
  shows "split axis factor inner_split tv =
     Inr (tv\<lparr>domain := pre @ split_outer d factor inner_split
                            # split_inner d factor inner_split # post\<rparr>)"
  using assms by (simp add: split_def axis_index_def wrap_pos_def nDims_def Let_def)

lemma parallelize_at:
  assumes "domain tv = pre @ d # post" and "pos = int (length pre)"
  shows "parallelize pos ptype tv = Inr (tv\<lparr>domain := pre @ with_ptype ptype d # post\<rparr>)"
  using assms
  by (simp add: parallelize_def axis_index_def wrap_pos_def nDims_def with_ptype_def list_update_append)

lemma split_outer_Serial [simp]:
  "getParallelType (split_outer d f i) = getParallelType d"
  "getParallelType (split_inner d f i) = getParallelType d"
  by (simp_all add: split_outer_def split_inner_def)

lemma ogp_inner_reduction_layout:
  assumes ogp: "is_outer_grid_persistence rparams" and st: "static_bdimy rparams"
    and dom: "domain tv = pre @ d # post"
    and pos: "inner_reduce_axis rparams has_iter_axis = int (length pre)"
    and ser: "getParallelType d = Serial"
  shows "run_ops (inner_reduction_ops rparams has_iter_axis) tv =
    (let by = as_unsigned (lparams_bdimy rparams);
         batches = as_unsigned (batches_per_block_inner_reduction rparams);
         unroll = as_unsigned (unroll_factor_inner_reduction rparams);
         thread_axis = with_ptype (block_dim_inner_reduction rparams) (split_inner d by True);
         rest = split_outer d by True;
         grid_axis = with_ptype (grid_dim_inner_reduction rparams) (split_outer rest batches True);
         buffer = split_inner rest batches True
     in
     (tv\<lparr>domain := pre @
        (if batches_per_block_inner_reduction rparams = unroll_factor_inner_reduction rparams
         then [grid_axis,
               with_ptype Unswitch (split_outer buffer (as_unsigned 1) False),
               split_inner buffer (as_unsigned 1) False,
               thread_axis]
         else [grid_axis,
               split_outer buffer unroll True,
               with_ptype Unswitch (split_outer (split_inner buffer unroll True) (as_unsigned 1) False),
               split_inner (split_inner buffer unroll True) (as_unsigned 1) False,
               thread_axis])
        @ post\<rparr>, None))"
proof -
  let ?r = "int (length pre)"
  let ?by = "as_unsigned (lparams_bdimy rparams)"
  let ?ba = "as_unsigned (batches_per_block_inner_reduction rparams)"
  let ?un = "as_unsigned (unroll_factor_inner_reduction rparams)"
  let ?rest = "split_outer d ?by True"
  let ?thr = "with_ptype (block_dim_inner_reduction rparams) (split_inner d ?by True)"
  let ?grid = "with_ptype (grid_dim_inner_reduction rparams) (split_outer ?rest ?ba True)"
  let ?buf = "split_inner ?rest ?ba True"
  let ?tv1 = "tv\<lparr>domain := pre @ ?rest # split_inner d ?by True # post\<rparr>"
  let ?tv2 = "tv\<lparr>domain := pre @ ?rest # ?thr # post\<rparr>"
  let ?tv3 = "tv\<lparr>domain := pre @ split_outer ?rest ?ba True # ?buf # ?thr # post\<rparr>"
  let ?tv4 = "tv\<lparr>domain := pre @ ?grid # ?buf # ?thr # post\<rparr>"
  have s1: "run_op (Split ?r ?by True) tv = Inr ?tv1"
    using split_at[OF dom refl ser] by simp
  have s2: "run_op (Parallelize (?r + 1) (block_dim_inner_reduction rparams)) ?tv1 = Inr ?tv2"
    using parallelize_at[of ?tv1 "pre @ [?rest]" "split_inner d ?by True" post "?r + 1"] by simp
  have s3: "run_op (Split ?r ?ba True) ?tv2 = Inr ?tv3"
    using split_at[of ?tv2 pre ?rest "?thr # post" ?r] ser by simp
  have s4: "run_op (Parallelize ?r (grid_dim_inner_reduction rparams)) ?tv3 = Inr ?tv4"
    using parallelize_at[of ?tv3 pre "split_outer ?rest ?ba True" "?buf # ?thr # post" ?r] by simp
  have bufser: "getParallelType ?buf = Serial" using ser by simp
  show ?thesis
  proof (cases "batches_per_block_inner_reduction rparams = unroll_factor_inner_reduction rparams")
    case True
    let ?tv5 = "tv\<lparr>domain := pre @ ?grid # split_outer ?buf (as_unsigned 1) False
                  # split_inner ?buf (as_unsigned 1) False # ?thr # post\<rparr>"
    let ?tv6 = "tv\<lparr>domain := pre @ ?grid # with_ptype Unswitch (split_outer ?buf (as_unsigned 1) False)
                  # split_inner ?buf (as_unsigned 1) False # ?thr # post\<rparr>"
    have s5: "run_op (Split (?r + 1) (as_unsigned 1) False) ?tv4 = Inr ?tv5"
      using split_at[of ?tv4 "pre @ [?grid]" ?buf "?thr # post" "?r + 1"] bufser by simp
    have s6: "run_op (Parallelize (?r + 1) Unswitch) ?tv5 = Inr ?tv6"
      using parallelize_at[of ?tv5 "pre @ [?grid]" "split_outer ?buf (as_unsigned 1) False"
          "split_inner ?buf (as_unsigned 1) False # ?thr # post" "?r + 1"] by simp
    have ops: "inner_reduction_ops rparams has_iter_axis =
       [Assert True BlockDimYNotStatic, Split ?r ?by True,
        Parallelize (?r + 1) (block_dim_inner_reduction rparams),
        Split ?r ?ba True, Parallelize ?r (grid_dim_inner_reduction rparams),
        Split (?r + 1) (as_unsigned 1) False, Parallelize (?r + 1) Unswitch]"
      using ogp st True pos
      by (simp add: inner_reduction_ops_def inner_parallel_static_def outer_unswitch_def Let_def)
    have res: "run_ops (inner_reduction_ops rparams has_iter_axis) tv = (?tv6, None)"
      unfolding ops
      by (simp only: run_ops.simps run_op.simps(4) if_True sum.case s1 s2 s3 s4 s5 s6)
    show ?thesis unfolding res Let_def using True by simp
  next
    case False
    let ?b1 = "split_outer ?buf ?un True" and ?b2 = "split_inner ?buf ?un True"
    let ?tv5 = "tv\<lparr>domain := pre @ ?grid # ?b1 # ?b2 # ?thr # post\<rparr>"
    let ?tv6 = "tv\<lparr>domain := pre @ ?grid # ?b1 # split_outer ?b2 (as_unsigned 1) False
                  # split_inner ?b2 (as_unsigned 1) False # ?thr # post\<rparr>"
    let ?tv7 = "tv\<lparr>domain := pre @ ?grid # ?b1 # with_ptype Unswitch (split_outer ?b2 (as_unsigned 1) False)
                  # split_inner ?b2 (as_unsigned 1) False # ?thr # post\<rparr>"
    have b2ser: "getParallelType ?b2 = Serial" using ser by simp
    have s5: "run_op (Split (?r + 1) ?un True) ?tv4 = Inr ?tv5"
      using split_at[of ?tv4 "pre @ [?grid]" ?buf "?thr # post" "?r + 1"] bufser by simp
    have s6: "run_op (Split (?r + 2) (as_unsigned 1) False) ?tv5 = Inr ?tv6"
      using split_at[of ?tv5 "pre @ [?grid, ?b1]" ?b2 "?thr # post" "?r + 2"] b2ser by simp
    have s7: "run_op (Parallelize (?r + 2) Unswitch) ?tv6 = Inr ?tv7"
      using parallelize_at[of ?tv6 "pre @ [?grid, ?b1]" "split_outer ?b2 (as_unsigned 1) False"
          "split_inner ?b2 (as_unsigned 1) False # ?thr # post" "?r + 2"] by simp
    have ops: "inner_reduction_ops rparams has_iter_axis =
       [Assert True BlockDimYNotStatic, Split ?r ?by True,
        Parallelize (?r + 1) (block_dim_inner_reduction rparams),
        Split ?r ?ba True, Parallelize ?r (grid_dim_inner_reduction rparams),
        Split (?r + 1) ?un True,
        Split (?r + 2) (as_unsigned 1) False, Parallelize (?r + 2) Unswitch]"
      using ogp st False pos
      by (simp add: inner_reduction_ops_def inner_parallel_static_def outer_unswitch_def Let_def)
    have res: "run_ops (inner_reduction_ops rparams has_iter_axis) tv = (?tv7, None)"
      unfolding ops
      by (simp only: run_ops.simps run_op.simps(4) if_True sum.case s1 s2 s3 s4 s5 s6 s7)
    show ?thesis unfolding res Let_def using False by simp
  qed
qed

lemma ogp_bdimy_not_static:
  assumes "is_outer_grid_persistence rparams" and "\<not> static_bdimy rparams"
  shows "run_ops (schedule_ops rparams has_iter_axis) tv = (tv, Some BlockDimYNotStatic)"
  using assms by (simp add: schedule_ops_def inner_reduction_ops_def Let_def)

lemma ogp_inner_reduction_ops:
  assumes "is_outer_grid_persistence rparams" and "static_bdimy rparams"
  shows "inner_reduction_ops rparams has_iter_axis =
    (let reduction_axis = inner_reduce_axis rparams has_iter_axis in
     [Assert True BlockDimYNotStatic,
      Split reduction_axis (as_unsigned (lparams_bdimy rparams)) True,
      Parallelize (reduction_axis + 1) (block_dim_inner_reduction rparams),
      Split reduction_axis (as_unsigned (batches_per_block_inner_reduction rparams)) True,
      Parallelize reduction_axis (grid_dim_inner_reduction rparams)]
     @ (if batches_per_block_inner_reduction rparams = unroll_factor_inner_reduction rparams
        then [Split (reduction_axis + 1) (as_unsigned 1) False,
              Parallelize (reduction_axis + 1) Unswitch]
        else [Split (reduction_axis + 1) (as_unsigned (unroll_factor_inner_reduction rparams)) True,
              Split (reduction_axis + 2) (as_unsigned 1) False,
              Parallelize (reduction_axis + 2) Unswitch]))"
  using assms
  by (simp add: inner_reduction_ops_def inner_parallel_static_def outer_unswitch_def Let_def)

lemma run_ops_append:
  "run_ops (xs @ ys) tv =
     (case run_ops xs tv of (tv', Some e) \<Rightarrow> (tv', Some e) | (tv', None) \<Rightarrow> run_ops ys tv')"
  by (induction xs arbitrary: tv) (simp_all split: sum.splits)

lemma run_op_error:
  "run_op op tv = Inl e \<Longrightarrow> e = AxisOutOfRange \<or> e = SplitNonSerial \<or> (op = Assert False e)"
  by (cases op)
     (auto simp: split_def parallelize_def padToMultipleOfWarp_def axis_index_def Let_def
           split: sum.splits if_splits)

lemma run_ops_error:
  "snd (run_ops ops tv) = Some e \<Longrightarrow>
     e = AxisOutOfRange \<or> e = SplitNonSerial \<or> Assert False e \<in> set ops"
proof (induction ops arbitrary: tv)
  case Nil
  then show ?case by simp
next
  case (Cons op ops)
  show ?case
  proof (cases "run_op op tv")
    case (Inl e')
    with Cons.prems have "e' = e" by simp
    with Inl run_op_error[of op tv e] show ?thesis by auto
  next
    case (Inr tv')
    with Cons.prems have "snd (run_ops ops tv') = Some e" by simp
    from Cons.IH[OF this] show ?thesis by auto
  qed
qed

lemma assert_bdimy_in_inner:
  "Assert c BlockDimYNotStatic \<in> set (inner_reduction_ops rparams has_iter_axis)
     \<longleftrightarrow> is_outer_grid_persistence rparams \<and> c = static_bdimy rparams"
  by (auto simp: inner_reduction_ops_def Let_def vectorize_def inner_parallel_def
        inner_parallel_static_def inner_unswitch_def inner_unroll_def outer_parallel_def
        outer_unswitch_def outer_unroll_def split: if_splits)

lemma assert_bdimy_not_in_outer:
  "Assert c BlockDimYNotStatic \<notin> set (outer_reduction_ops rparams)"
  by (auto simp: outer_reduction_ops_def Let_def inner_parallel_def inner_unroll_def
        outer_parallel_def outer_unroll_def split: if_splits)

lemma assert_bdimy_not_in_iter:
  "Assert c BlockDimYNotStatic \<notin> set (iter_domain_ops rparams has_iter_axis)"
  by (auto simp: iter_domain_ops_def Let_def vectorize_def inner_parallel_def
        inner_parallel_static_def inner_unswitch_def inner_unroll_def outer_parallel_def
        split: if_splits)

lemma assert_bdimy_in_schedule:
  "Assert c BlockDimYNotStatic \<in> set (schedule_ops rparams has_iter_axis)
     \<longleftrightarrow> is_outer_grid_persistence rparams \<and> c = static_bdimy rparams"
  by (simp add: schedule_ops_def assert_bdimy_in_inner assert_bdimy_not_in_outer
        assert_bdimy_not_in_iter)

lemma bdimy_fatal_iff:
  "snd (run_ops (schedule_ops rparams has_iter_axis) tv) = Some BlockDimYNotStatic
     \<longleftrightarrow> is_outer_grid_persistence rparams \<and> \<not> static_bdimy rparams"
proof
  assume "snd (run_ops (schedule_ops rparams has_iter_axis) tv) = Some BlockDimYNotStatic"
  from run_ops_error[OF this]
  have "Assert False BlockDimYNotStatic \<in> set (schedule_ops rparams has_iter_axis)" by simp
  then show "is_outer_grid_persistence rparams \<and> \<not> static_bdimy rparams"
    by (simp add: assert_bdimy_in_schedule)
next
  assume "is_outer_grid_persistence rparams \<and> \<not> static_bdimy rparams"
  then show "snd (run_ops (schedule_ops rparams has_iter_axis) tv) = Some BlockDimYNotStatic"
    by (simp add: ogp_bdimy_not_static)
qed

lemma scheduleReductionTV_ogp_steps:
  assumes "is_outer_grid_persistence rparams"
    and "check_preconditions rparams tv has_iter_axis = None"
  shows "scheduleReductionTV srt rfactorHelper rparams tv has_iter_axis =
    (case run_ops (inner_reduction_ops rparams has_iter_axis) tv of
       (tv1, Some e) \<Rightarrow> (tv1, Inl e)
     | (tv1, None) \<Rightarrow>
        (case run_ops (outer_reduction_ops rparams @ iter_domain_ops rparams has_iter_axis) tv1 of
           (tv2, Some e) \<Rightarrow> (tv2, Inl e)
         | (tv2, None) \<Rightarrow>
            (case sortAndRFactor srt rfactorHelper tv2 of
               (tv3, Inl e) \<Rightarrow> (tv3, Inl e)
             | (tv3, Inr reduction_rf_tv) \<Rightarrow>
                 (tv3, moveVectorizedInnermost reduction_rf_tv))))"
  using assms
  by (simp add: scheduleReductionTV_def schedule_ops_def run_ops_append[of "inner_reduction_ops rparams has_iter_axis"]
        split: prod.splits option.splits sum.splits)

text \<open>
  Claim C5.  The regime of outer grid persistence is that of a persistent kernel with a
  cross-grid inner reduction that is not the fastest dimension, and the code enters it
  exactly then: the assertion on a static block y-dimension is among the calls of
  \<^verbatim>\<open>scheduleReductionTV\<close> exactly in the regime, and the calls end with its diagnostic
  exactly when the regime holds and the block y-dimension is not static.  Then, once the
  preconditions hold, \<^verbatim>\<open>scheduleReductionTV\<close> returns that diagnostic and the node
  unchanged.  With a static block y-dimension the calls begin with: the split of the
  inner reduction axis by the static thread count \<^verbatim>\<open>lparams.bdimy()\<close> with the block
  dimension on the inner part, the split by the batch size with the grid dimension on
  the outer part, and then, when the unroll factor equals the batch size, one outer
  unswitch split of the whole buffer axis, otherwise a split of the buffer axis by the
  unroll factor and an outer unswitch split of its inner part only.  On a node whose
  inner reduction axis is serial, \<^verbatim>\<open>scheduleReductionTV\<close> is the rest of the scheduling
  (the calls for the outer reduction axis and the iteration domain, the sort and staging,
  the move of the vectorized axis) applied to the node in the layout these calls give.
\<close>

theorem scheduleReductionTV_outer_grid_persistence:
  "(is_outer_grid_persistence rparams \<longleftrightarrow>
      persistent_kernel rparams \<and> cross_grid_inner_reduction rparams \<and> \<not> fastest_dim rparams)
   \<and> ((\<exists>c. Assert c BlockDimYNotStatic \<in> set (schedule_ops rparams has_iter_axis))
        \<longleftrightarrow> is_outer_grid_persistence rparams)
   \<and> (snd (run_ops (schedule_ops rparams has_iter_axis) tv) = Some BlockDimYNotStatic
        \<longleftrightarrow> is_outer_grid_persistence rparams \<and> \<not> static_bdimy rparams)
   \<and> (is_outer_grid_persistence rparams
        \<and> check_preconditions rparams tv has_iter_axis = None \<and> \<not> static_bdimy rparams
      \<longrightarrow> scheduleReductionTV srt rfactorHelper rparams tv has_iter_axis
            = (tv, Inl BlockDimYNotStatic))
   \<and> (is_outer_grid_persistence rparams \<and> static_bdimy rparams
      \<longrightarrow> schedule_ops rparams has_iter_axis =
          (let reduction_axis = inner_reduce_axis rparams has_iter_axis in
           [Assert True BlockDimYNotStatic,
            Split reduction_axis (as_unsigned (lparams_bdimy rparams)) True,
            Parallelize (reduction_axis + 1) (block_dim_inner_reduction rparams),
            Split reduction_axis (as_unsigned (batches_per_block_inner_reduction rparams)) True,
            Parallelize reduction_axis (grid_dim_inner_reduction rparams)]
           @ (if batches_per_block_inner_reduction rparams
                   = unroll_factor_inner_reduction rparams
              then [Split (reduction_axis + 1) (as_unsigned 1) False,
                    Parallelize (reduction_axis + 1) Unswitch]
              else [Split (reduction_axis + 1)
                      (as_unsigned (unroll_factor_inner_reduction rparams)) True,
                    Split (reduction_axis + 2) (as_unsigned 1) False,
                    Parallelize (reduction_axis + 2) Unswitch])
           @ outer_reduction_ops rparams @ iter_domain_ops rparams has_iter_axis))
   \<and> (is_outer_grid_persistence rparams \<and> static_bdimy rparams
        \<and> check_preconditions rparams tv has_iter_axis = None
        \<and> domain tv = pre @ d # post
        \<and> inner_reduce_axis rparams has_iter_axis = int (length pre)
        \<and> getParallelType d = Serial
      \<longrightarrow> scheduleReductionTV srt rfactorHelper rparams tv has_iter_axis =
          (let by = as_unsigned (lparams_bdimy rparams);
               batches = as_unsigned (batches_per_block_inner_reduction rparams);
               unroll = as_unsigned (unroll_factor_inner_reduction rparams);
               thread_axis =
                 with_ptype (block_dim_inner_reduction rparams) (split_inner d by True);
               rest = split_outer d by True;
               grid_axis =
                 with_ptype (grid_dim_inner_reduction rparams) (split_outer rest batches True);
               buffer = split_inner rest batches True;
               tv1 = tv\<lparr>domain := pre @
                  (if batches_per_block_inner_reduction rparams
                        = unroll_factor_inner_reduction rparams
                   then [grid_axis,
                         with_ptype Unswitch (split_outer buffer (as_unsigned 1) False),
                         split_inner buffer (as_unsigned 1) False,
                         thread_axis]
                   else [grid_axis,
                         split_outer buffer unroll True,
                         with_ptype Unswitch
                           (split_outer (split_inner buffer unroll True) (as_unsigned 1) False),
                         split_inner (split_inner buffer unroll True) (as_unsigned 1) False,
                         thread_axis])
                  @ post\<rparr>
           in
           case run_ops (outer_reduction_ops rparams @ iter_domain_ops rparams has_iter_axis)
                  tv1 of
             (tv2, Some e) \<Rightarrow> (tv2, Inl e)
           | (tv2, None) \<Rightarrow>
              (case sortAndRFactor srt rfactorHelper tv2 of
                 (tv3, Inl e) \<Rightarrow> (tv3, Inl e)
               | (tv3, Inr reduction_rf_tv) \<Rightarrow>
                   (tv3, moveVectorizedInnermost reduction_rf_tv))))"
proof (intro conjI impI)
  show "is_outer_grid_persistence rparams \<longleftrightarrow>
      persistent_kernel rparams \<and> cross_grid_inner_reduction rparams \<and> \<not> fastest_dim rparams"
    by (simp add: is_outer_grid_persistence_def)
next
  show "(\<exists>c. Assert c BlockDimYNotStatic \<in> set (schedule_ops rparams has_iter_axis))
        \<longleftrightarrow> is_outer_grid_persistence rparams"
    by (simp add: assert_bdimy_in_schedule)
next
  show "snd (run_ops (schedule_ops rparams has_iter_axis) tv) = Some BlockDimYNotStatic
        \<longleftrightarrow> is_outer_grid_persistence rparams \<and> \<not> static_bdimy rparams"
    by (rule bdimy_fatal_iff)
next
  assume a: "is_outer_grid_persistence rparams
        \<and> check_preconditions rparams tv has_iter_axis = None \<and> \<not> static_bdimy rparams"
  then show "scheduleReductionTV srt rfactorHelper rparams tv has_iter_axis
            = (tv, Inl BlockDimYNotStatic)"
    using ogp_bdimy_not_static[of rparams has_iter_axis tv]
    by (simp add: scheduleReductionTV_def)
next
  assume a: "is_outer_grid_persistence rparams \<and> static_bdimy rparams"
  then have "inner_reduction_ops rparams has_iter_axis =
    (let reduction_axis = inner_reduce_axis rparams has_iter_axis in
     [Assert True BlockDimYNotStatic,
      Split reduction_axis (as_unsigned (lparams_bdimy rparams)) True,
      Parallelize (reduction_axis + 1) (block_dim_inner_reduction rparams),
      Split reduction_axis (as_unsigned (batches_per_block_inner_reduction rparams)) True,
      Parallelize reduction_axis (grid_dim_inner_reduction rparams)]
     @ (if batches_per_block_inner_reduction rparams = unroll_factor_inner_reduction rparams
        then [Split (reduction_axis + 1) (as_unsigned 1) False,
              Parallelize (reduction_axis + 1) Unswitch]
        else [Split (reduction_axis + 1) (as_unsigned (unroll_factor_inner_reduction rparams)) True,
              Split (reduction_axis + 2) (as_unsigned 1) False,
              Parallelize (reduction_axis + 2) Unswitch]))"
    using ogp_inner_reduction_ops by blast
  then show "schedule_ops rparams has_iter_axis =
          (let reduction_axis = inner_reduce_axis rparams has_iter_axis in
           [Assert True BlockDimYNotStatic,
            Split reduction_axis (as_unsigned (lparams_bdimy rparams)) True,
            Parallelize (reduction_axis + 1) (block_dim_inner_reduction rparams),
            Split reduction_axis (as_unsigned (batches_per_block_inner_reduction rparams)) True,
            Parallelize reduction_axis (grid_dim_inner_reduction rparams)]
           @ (if batches_per_block_inner_reduction rparams
                   = unroll_factor_inner_reduction rparams
              then [Split (reduction_axis + 1) (as_unsigned 1) False,
                    Parallelize (reduction_axis + 1) Unswitch]
              else [Split (reduction_axis + 1)
                      (as_unsigned (unroll_factor_inner_reduction rparams)) True,
                    Split (reduction_axis + 2) (as_unsigned 1) False,
                    Parallelize (reduction_axis + 2) Unswitch])
           @ outer_reduction_ops rparams @ iter_domain_ops rparams has_iter_axis)"
    by (simp add: schedule_ops_def Let_def)
next
  assume a: "is_outer_grid_persistence rparams \<and> static_bdimy rparams
        \<and> check_preconditions rparams tv has_iter_axis = None
        \<and> domain tv = pre @ d # post
        \<and> inner_reduce_axis rparams has_iter_axis = int (length pre)
        \<and> getParallelType d = Serial"
  then have ogp: "is_outer_grid_persistence rparams" and st: "static_bdimy rparams"
    and pc: "check_preconditions rparams tv has_iter_axis = None"
    and dom: "domain tv = pre @ d # post"
    and pos: "inner_reduce_axis rparams has_iter_axis = int (length pre)"
    and ser: "getParallelType d = Serial"
    by blast+
  note lay = ogp_inner_reduction_layout[OF ogp st dom pos ser]
  show "scheduleReductionTV srt rfactorHelper rparams tv has_iter_axis =
          (let by = as_unsigned (lparams_bdimy rparams);
               batches = as_unsigned (batches_per_block_inner_reduction rparams);
               unroll = as_unsigned (unroll_factor_inner_reduction rparams);
               thread_axis =
                 with_ptype (block_dim_inner_reduction rparams) (split_inner d by True);
               rest = split_outer d by True;
               grid_axis =
                 with_ptype (grid_dim_inner_reduction rparams) (split_outer rest batches True);
               buffer = split_inner rest batches True;
               tv1 = tv\<lparr>domain := pre @
                  (if batches_per_block_inner_reduction rparams
                        = unroll_factor_inner_reduction rparams
                   then [grid_axis,
                         with_ptype Unswitch (split_outer buffer (as_unsigned 1) False),
                         split_inner buffer (as_unsigned 1) False,
                         thread_axis]
                   else [grid_axis,
                         split_outer buffer unroll True,
                         with_ptype Unswitch
                           (split_outer (split_inner buffer unroll True) (as_unsigned 1) False),
                         split_inner (split_inner buffer unroll True) (as_unsigned 1) False,
                         thread_axis])
                  @ post\<rparr>
           in
           case run_ops (outer_reduction_ops rparams @ iter_domain_ops rparams has_iter_axis)
                  tv1 of
             (tv2, Some e) \<Rightarrow> (tv2, Inl e)
           | (tv2, None) \<Rightarrow>
              (case sortAndRFactor srt rfactorHelper tv2 of
                 (tv3, Inl e) \<Rightarrow> (tv3, Inl e)
               | (tv3, Inr reduction_rf_tv) \<Rightarrow>
                   (tv3, moveVectorizedInnermost reduction_rf_tv)))"
    unfolding scheduleReductionTV_ogp_steps[OF ogp pc] lay Let_def by simp
qed

theorem scheduleReductionTV_outer_grid_persistence_witness:
  "is_outer_grid_persistence scenario3_params \<and> static_bdimy scenario3_params
   \<and> check_preconditions scenario3_params node_IR True = None
   \<and> domain node_IR
       = [root_axis 0 False Serial (NamedScalar ''I'')]
         @ (root_axis 1 True Serial (NamedScalar ''R'')) # []
   \<and> inner_reduce_axis scenario3_params True
       = int (length [root_axis 0 False Serial (NamedScalar ''I'')])
   \<and> getParallelType (root_axis 1 True Serial (NamedScalar ''R'')) = Serial
   \<and> schedule_ops scenario3_params True
       = [Assert True BlockDimYNotStatic, Split 1 (IntConst 8) True, Parallelize 2 TIDy,
          Split 1 (IntConst 4) True, Parallelize 1 BIDy,
          Split 2 (IntConst 1) False, Parallelize 2 Unswitch,
          Split 0 (IntConst 2) True, Parallelize 1 Vectorize,
          Assert True BlockDimXNotStatic, Split 0 (IntConst 32) True, Parallelize 1 TIDx,
          Parallelize 0 BIDx]
   \<and> map_prod (map axis_summary \<circ> domain) (map_sum id (map axis_summary \<circ> domain))
        (scheduleReductionTV insertion_sort rFactor scenario3_params node_IR True)
       = ([(False, BIDx, CeilDiv (CeilDiv (NamedScalar ''I'') (IntConst 2)) (IntConst 32)),
           (False, TIDx, IntConst 32),
           (False, Vectorize, IntConst 2),
           (True, BIDy, CeilDiv (CeilDiv (NamedScalar ''R'') (IntConst 8)) (IntConst 4)),
           (True, TIDy, IntConst 8)],
          Inr [(False, BIDx, CeilDiv (CeilDiv (NamedScalar ''I'') (IntConst 2)) (IntConst 32)),
               (False, TIDx, IntConst 32),
               (False, BIDy, CeilDiv (CeilDiv (NamedScalar ''R'') (IntConst 8)) (IntConst 4)),
               (True, Unswitch, IntConst 1),
               (True, Serial, CeilDiv (IntConst 4) (IntConst 1)),
               (False, TIDy, IntConst 8),
               (False, Vectorize, IntConst 2)])
   \<and> is_outer_grid_persistence scenario3_unroll2_params \<and> static_bdimy scenario3_unroll2_params
   \<and> check_preconditions scenario3_unroll2_params node_IR True = None
   \<and> domain node_IR
       = [root_axis 0 False Serial (NamedScalar ''I'')]
         @ (root_axis 1 True Serial (NamedScalar ''R'')) # []
   \<and> inner_reduce_axis scenario3_unroll2_params True
       = int (length [root_axis 0 False Serial (NamedScalar ''I'')])
   \<and> getParallelType (root_axis 1 True Serial (NamedScalar ''R'')) = Serial
   \<and> schedule_ops scenario3_unroll2_params True
       = [Assert True BlockDimYNotStatic, Split 1 (IntConst 8) True, Parallelize 2 TIDy,
          Split 1 (IntConst 4) True, Parallelize 1 BIDy,
          Split 2 (IntConst 2) True, Split 3 (IntConst 1) False, Parallelize 3 Unswitch,
          Split 0 (IntConst 2) True, Parallelize 1 Vectorize,
          Assert True BlockDimXNotStatic, Split 0 (IntConst 32) True, Parallelize 1 TIDx,
          Parallelize 0 BIDx]
   \<and> map_prod (map axis_summary \<circ> domain) (map_sum id (map axis_summary \<circ> domain))
        (scheduleReductionTV insertion_sort rFactor scenario3_unroll2_params node_IR True)
       = ([(False, BIDx, CeilDiv (CeilDiv (NamedScalar ''I'') (IntConst 2)) (IntConst 32)),
           (False, TIDx, IntConst 32),
           (False, Vectorize, IntConst 2),
           (True, BIDy, CeilDiv (CeilDiv (NamedScalar ''R'') (IntConst 8)) (IntConst 4)),
           (True, TIDy, IntConst 8)],
          Inr [(False, BIDx, CeilDiv (CeilDiv (NamedScalar ''I'') (IntConst 2)) (IntConst 32)),
               (False, TIDx, IntConst 32),
               (False, BIDy, CeilDiv (CeilDiv (NamedScalar ''R'') (IntConst 8)) (IntConst 4)),
               (True, Serial, CeilDiv (IntConst 4) (IntConst 2)),
               (True, Unswitch, IntConst 1),
               (True, Serial, CeilDiv (IntConst 2) (IntConst 1)),
               (False, TIDy, IntConst 8),
               (False, Vectorize, IntConst 2)])
   \<and> scheduleReductionTV insertion_sort rFactor (scenario3_params\<lparr>static_bdimy := False\<rparr>)
        node_IR True = (node_IR, Inl BlockDimYNotStatic)
   \<and> \<not> is_outer_grid_persistence scenario1_params
   \<and> schedule_ops scenario1_params True
       = [Split 1 (NamedScalar ''blockDim.x'') True, Parallelize 2 TIDx,
          Split 1 (IntConst 1) True, Parallelize 2 Unswitch, Parallelize 0 BIDx]
   \<and> snd (run_ops (schedule_ops scenario1_params True) node_IR) \<noteq> Some BlockDimYNotStatic"
proof -
  have h3: "is_outer_grid_persistence scenario3_params \<and> static_bdimy scenario3_params
   \<and> check_preconditions scenario3_params node_IR True = None
   \<and> domain node_IR
       = [root_axis 0 False Serial (NamedScalar ''I'')]
         @ (root_axis 1 True Serial (NamedScalar ''R'')) # []
   \<and> inner_reduce_axis scenario3_params True
       = int (length [root_axis 0 False Serial (NamedScalar ''I'')])
   \<and> getParallelType (root_axis 1 True Serial (NamedScalar ''R'')) = Serial"
    by code_simp
  have h3u: "is_outer_grid_persistence scenario3_unroll2_params \<and> static_bdimy scenario3_unroll2_params
   \<and> check_preconditions scenario3_unroll2_params node_IR True = None
   \<and> domain node_IR
       = [root_axis 0 False Serial (NamedScalar ''I'')]
         @ (root_axis 1 True Serial (NamedScalar ''R'')) # []
   \<and> inner_reduce_axis scenario3_unroll2_params True
       = int (length [root_axis 0 False Serial (NamedScalar ''I'')])
   \<and> getParallelType (root_axis 1 True Serial (NamedScalar ''R'')) = Serial"
    by code_simp
  have a': "is_outer_grid_persistence (scenario3_params\<lparr>static_bdimy := False\<rparr>)
     \<and> check_preconditions (scenario3_params\<lparr>static_bdimy := False\<rparr>) node_IR True = None
     \<and> \<not> static_bdimy (scenario3_params\<lparr>static_bdimy := False\<rparr>)"
    by code_simp
  have n1: "\<not> is_outer_grid_persistence scenario1_params" by code_simp
  have o3: "schedule_ops scenario3_params True
       = [Assert True BlockDimYNotStatic, Split 1 (IntConst 8) True, Parallelize 2 TIDy,
          Split 1 (IntConst 4) True, Parallelize 1 BIDy,
          Split 2 (IntConst 1) False, Parallelize 2 Unswitch,
          Split 0 (IntConst 2) True, Parallelize 1 Vectorize,
          Assert True BlockDimXNotStatic, Split 0 (IntConst 32) True, Parallelize 1 TIDx,
          Parallelize 0 BIDx]"
    by code_simp
  have o3u: "schedule_ops scenario3_unroll2_params True
       = [Assert True BlockDimYNotStatic, Split 1 (IntConst 8) True, Parallelize 2 TIDy,
          Split 1 (IntConst 4) True, Parallelize 1 BIDy,
          Split 2 (IntConst 2) True, Split 3 (IntConst 1) False, Parallelize 3 Unswitch,
          Split 0 (IntConst 2) True, Parallelize 1 Vectorize,
          Assert True BlockDimXNotStatic, Split 0 (IntConst 32) True, Parallelize 1 TIDx,
          Parallelize 0 BIDx]"
    by code_simp
  have o1: "schedule_ops scenario1_params True
       = [Split 1 (NamedScalar ''blockDim.x'') True, Parallelize 2 TIDx,
          Split 1 (IntConst 1) True, Parallelize 2 Unswitch, Parallelize 0 BIDx]"
    by code_simp
  from scheduleReductionTV_outer_grid_persistence
         [of scenario3_params True node_IR insertion_sort rFactor
             "[root_axis 0 False Serial (NamedScalar ''I'')]"
             "root_axis 1 True Serial (NamedScalar ''R'')" "[]"] h3
  have e3: "scheduleReductionTV insertion_sort rFactor scenario3_params node_IR True =
          (let by = as_unsigned (lparams_bdimy scenario3_params);
               batches = as_unsigned (batches_per_block_inner_reduction scenario3_params);
               unroll = as_unsigned (unroll_factor_inner_reduction scenario3_params);
               thread_axis =
                 with_ptype (block_dim_inner_reduction scenario3_params) (split_inner (root_axis 1 True Serial (NamedScalar ''R'')) by True);
               rest = split_outer (root_axis 1 True Serial (NamedScalar ''R'')) by True;
               grid_axis =
                 with_ptype (grid_dim_inner_reduction scenario3_params) (split_outer rest batches True);
               buffer = split_inner rest batches True;
               tv1 = node_IR\<lparr>domain := [root_axis 0 False Serial (NamedScalar ''I'')] @
                  (if batches_per_block_inner_reduction scenario3_params
                        = unroll_factor_inner_reduction scenario3_params
                   then [grid_axis,
                         with_ptype Unswitch (split_outer buffer (as_unsigned 1) False),
                         split_inner buffer (as_unsigned 1) False,
                         thread_axis]
                   else [grid_axis,
                         split_outer buffer unroll True,
                         with_ptype Unswitch
                           (split_outer (split_inner buffer unroll True) (as_unsigned 1) False),
                         split_inner (split_inner buffer unroll True) (as_unsigned 1) False,
                         thread_axis])
                  @ []\<rparr>
           in
           case run_ops (outer_reduction_ops scenario3_params @ iter_domain_ops scenario3_params True)
                  tv1 of
             (tv2, Some e) \<Rightarrow> (tv2, Inl e)
           | (tv2, None) \<Rightarrow>
              (case sortAndRFactor insertion_sort rFactor tv2 of
                 (tv3, Inl e) \<Rightarrow> (tv3, Inl e)
               | (tv3, Inr reduction_rf_tv) \<Rightarrow>
                   (tv3, moveVectorizedInnermost reduction_rf_tv)))"
    by blast
  from scheduleReductionTV_outer_grid_persistence
         [of scenario3_unroll2_params True node_IR insertion_sort rFactor
             "[root_axis 0 False Serial (NamedScalar ''I'')]"
             "root_axis 1 True Serial (NamedScalar ''R'')" "[]"] h3u
  have e3u: "scheduleReductionTV insertion_sort rFactor scenario3_unroll2_params node_IR True =
          (let by = as_unsigned (lparams_bdimy scenario3_unroll2_params);
               batches = as_unsigned (batches_per_block_inner_reduction scenario3_unroll2_params);
               unroll = as_unsigned (unroll_factor_inner_reduction scenario3_unroll2_params);
               thread_axis =
                 with_ptype (block_dim_inner_reduction scenario3_unroll2_params) (split_inner (root_axis 1 True Serial (NamedScalar ''R'')) by True);
               rest = split_outer (root_axis 1 True Serial (NamedScalar ''R'')) by True;
               grid_axis =
                 with_ptype (grid_dim_inner_reduction scenario3_unroll2_params) (split_outer rest batches True);
               buffer = split_inner rest batches True;
               tv1 = node_IR\<lparr>domain := [root_axis 0 False Serial (NamedScalar ''I'')] @
                  (if batches_per_block_inner_reduction scenario3_unroll2_params
                        = unroll_factor_inner_reduction scenario3_unroll2_params
                   then [grid_axis,
                         with_ptype Unswitch (split_outer buffer (as_unsigned 1) False),
                         split_inner buffer (as_unsigned 1) False,
                         thread_axis]
                   else [grid_axis,
                         split_outer buffer unroll True,
                         with_ptype Unswitch
                           (split_outer (split_inner buffer unroll True) (as_unsigned 1) False),
                         split_inner (split_inner buffer unroll True) (as_unsigned 1) False,
                         thread_axis])
                  @ []\<rparr>
           in
           case run_ops (outer_reduction_ops scenario3_unroll2_params @ iter_domain_ops scenario3_unroll2_params True)
                  tv1 of
             (tv2, Some e) \<Rightarrow> (tv2, Inl e)
           | (tv2, None) \<Rightarrow>
              (case sortAndRFactor insertion_sort rFactor tv2 of
                 (tv3, Inl e) \<Rightarrow> (tv3, Inl e)
               | (tv3, Inr reduction_rf_tv) \<Rightarrow>
                   (tv3, moveVectorizedInnermost reduction_rf_tv)))"
    by blast
  have v3: "map_prod (map axis_summary \<circ> domain) (map_sum id (map axis_summary \<circ> domain))
        ((let by = as_unsigned (lparams_bdimy scenario3_params);
               batches = as_unsigned (batches_per_block_inner_reduction scenario3_params);
               unroll = as_unsigned (unroll_factor_inner_reduction scenario3_params);
               thread_axis =
                 with_ptype (block_dim_inner_reduction scenario3_params) (split_inner (root_axis 1 True Serial (NamedScalar ''R'')) by True);
               rest = split_outer (root_axis 1 True Serial (NamedScalar ''R'')) by True;
               grid_axis =
                 with_ptype (grid_dim_inner_reduction scenario3_params) (split_outer rest batches True);
               buffer = split_inner rest batches True;
               tv1 = node_IR\<lparr>domain := [root_axis 0 False Serial (NamedScalar ''I'')] @
                  (if batches_per_block_inner_reduction scenario3_params
                        = unroll_factor_inner_reduction scenario3_params
                   then [grid_axis,
                         with_ptype Unswitch (split_outer buffer (as_unsigned 1) False),
                         split_inner buffer (as_unsigned 1) False,
                         thread_axis]
                   else [grid_axis,
                         split_outer buffer unroll True,
                         with_ptype Unswitch
                           (split_outer (split_inner buffer unroll True) (as_unsigned 1) False),
                         split_inner (split_inner buffer unroll True) (as_unsigned 1) False,
                         thread_axis])
                  @ []\<rparr>
           in
           case run_ops (outer_reduction_ops scenario3_params @ iter_domain_ops scenario3_params True)
                  tv1 of
             (tv2, Some e) \<Rightarrow> (tv2, Inl e)
           | (tv2, None) \<Rightarrow>
              (case sortAndRFactor insertion_sort rFactor tv2 of
                 (tv3, Inl e) \<Rightarrow> (tv3, Inl e)
               | (tv3, Inr reduction_rf_tv) \<Rightarrow>
                   (tv3, moveVectorizedInnermost reduction_rf_tv))))
       = ([(False, BIDx, CeilDiv (CeilDiv (NamedScalar ''I'') (IntConst 2)) (IntConst 32)),
           (False, TIDx, IntConst 32),
           (False, Vectorize, IntConst 2),
           (True, BIDy, CeilDiv (CeilDiv (NamedScalar ''R'') (IntConst 8)) (IntConst 4)),
           (True, TIDy, IntConst 8)],
          Inr [(False, BIDx, CeilDiv (CeilDiv (NamedScalar ''I'') (IntConst 2)) (IntConst 32)),
               (False, TIDx, IntConst 32),
               (False, BIDy, CeilDiv (CeilDiv (NamedScalar ''R'') (IntConst 8)) (IntConst 4)),
               (True, Unswitch, IntConst 1),
               (True, Serial, CeilDiv (IntConst 4) (IntConst 1)),
               (False, TIDy, IntConst 8),
               (False, Vectorize, IntConst 2)])"
    by code_simp
  have v3u: "map_prod (map axis_summary \<circ> domain) (map_sum id (map axis_summary \<circ> domain))
        ((let by = as_unsigned (lparams_bdimy scenario3_unroll2_params);
               batches = as_unsigned (batches_per_block_inner_reduction scenario3_unroll2_params);
               unroll = as_unsigned (unroll_factor_inner_reduction scenario3_unroll2_params);
               thread_axis =
                 with_ptype (block_dim_inner_reduction scenario3_unroll2_params) (split_inner (root_axis 1 True Serial (NamedScalar ''R'')) by True);
               rest = split_outer (root_axis 1 True Serial (NamedScalar ''R'')) by True;
               grid_axis =
                 with_ptype (grid_dim_inner_reduction scenario3_unroll2_params) (split_outer rest batches True);
               buffer = split_inner rest batches True;
               tv1 = node_IR\<lparr>domain := [root_axis 0 False Serial (NamedScalar ''I'')] @
                  (if batches_per_block_inner_reduction scenario3_unroll2_params
                        = unroll_factor_inner_reduction scenario3_unroll2_params
                   then [grid_axis,
                         with_ptype Unswitch (split_outer buffer (as_unsigned 1) False),
                         split_inner buffer (as_unsigned 1) False,
                         thread_axis]
                   else [grid_axis,
                         split_outer buffer unroll True,
                         with_ptype Unswitch
                           (split_outer (split_inner buffer unroll True) (as_unsigned 1) False),
                         split_inner (split_inner buffer unroll True) (as_unsigned 1) False,
                         thread_axis])
                  @ []\<rparr>
           in
           case run_ops (outer_reduction_ops scenario3_unroll2_params @ iter_domain_ops scenario3_unroll2_params True)
                  tv1 of
             (tv2, Some e) \<Rightarrow> (tv2, Inl e)
           | (tv2, None) \<Rightarrow>
              (case sortAndRFactor insertion_sort rFactor tv2 of
                 (tv3, Inl e) \<Rightarrow> (tv3, Inl e)
               | (tv3, Inr reduction_rf_tv) \<Rightarrow>
                   (tv3, moveVectorizedInnermost reduction_rf_tv))))
       = ([(False, BIDx, CeilDiv (CeilDiv (NamedScalar ''I'') (IntConst 2)) (IntConst 32)),
           (False, TIDx, IntConst 32),
           (False, Vectorize, IntConst 2),
           (True, BIDy, CeilDiv (CeilDiv (NamedScalar ''R'') (IntConst 8)) (IntConst 4)),
           (True, TIDy, IntConst 8)],
          Inr [(False, BIDx, CeilDiv (CeilDiv (NamedScalar ''I'') (IntConst 2)) (IntConst 32)),
               (False, TIDx, IntConst 32),
               (False, BIDy, CeilDiv (CeilDiv (NamedScalar ''R'') (IntConst 8)) (IntConst 4)),
               (True, Serial, CeilDiv (IntConst 4) (IntConst 2)),
               (True, Unswitch, IntConst 1),
               (True, Serial, CeilDiv (IntConst 2) (IntConst 1)),
               (False, TIDy, IntConst 8),
               (False, Vectorize, IntConst 2)])"
    by code_simp
  have w3: "map_prod (map axis_summary \<circ> domain) (map_sum id (map axis_summary \<circ> domain))
        (scheduleReductionTV insertion_sort rFactor scenario3_params node_IR True)
       = ([(False, BIDx, CeilDiv (CeilDiv (NamedScalar ''I'') (IntConst 2)) (IntConst 32)),
           (False, TIDx, IntConst 32),
           (False, Vectorize, IntConst 2),
           (True, BIDy, CeilDiv (CeilDiv (NamedScalar ''R'') (IntConst 8)) (IntConst 4)),
           (True, TIDy, IntConst 8)],
          Inr [(False, BIDx, CeilDiv (CeilDiv (NamedScalar ''I'') (IntConst 2)) (IntConst 32)),
               (False, TIDx, IntConst 32),
               (False, BIDy, CeilDiv (CeilDiv (NamedScalar ''R'') (IntConst 8)) (IntConst 4)),
               (True, Unswitch, IntConst 1),
               (True, Serial, CeilDiv (IntConst 4) (IntConst 1)),
               (False, TIDy, IntConst 8),
               (False, Vectorize, IntConst 2)])"
    unfolding e3 by (rule v3)
  have w3u: "map_prod (map axis_summary \<circ> domain) (map_sum id (map axis_summary \<circ> domain))
        (scheduleReductionTV insertion_sort rFactor scenario3_unroll2_params node_IR True)
       = ([(False, BIDx, CeilDiv (CeilDiv (NamedScalar ''I'') (IntConst 2)) (IntConst 32)),
           (False, TIDx, IntConst 32),
           (False, Vectorize, IntConst 2),
           (True, BIDy, CeilDiv (CeilDiv (NamedScalar ''R'') (IntConst 8)) (IntConst 4)),
           (True, TIDy, IntConst 8)],
          Inr [(False, BIDx, CeilDiv (CeilDiv (NamedScalar ''I'') (IntConst 2)) (IntConst 32)),
               (False, TIDx, IntConst 32),
               (False, BIDy, CeilDiv (CeilDiv (NamedScalar ''R'') (IntConst 8)) (IntConst 4)),
               (True, Serial, CeilDiv (IntConst 4) (IntConst 2)),
               (True, Unswitch, IntConst 1),
               (True, Serial, CeilDiv (IntConst 2) (IntConst 1)),
               (False, TIDy, IntConst 8),
               (False, Vectorize, IntConst 2)])"
    unfolding e3u by (rule v3u)
  from scheduleReductionTV_outer_grid_persistence
         [of "scenario3_params\<lparr>static_bdimy := False\<rparr>" True node_IR insertion_sort rFactor]
       a'
  have f: "scheduleReductionTV insertion_sort rFactor (scenario3_params\<lparr>static_bdimy := False\<rparr>)
        node_IR True = (node_IR, Inl BlockDimYNotStatic)"
    by blast
  from scheduleReductionTV_outer_grid_persistence
         [of scenario1_params True node_IR insertion_sort rFactor] n1
  have g: "snd (run_ops (schedule_ops scenario1_params True) node_IR)
             \<noteq> Some BlockDimYNotStatic"
    by blast
  from h3 h3u o3 o3u o1 w3 w3u f n1 g show ?thesis by blast
qed

lemma vec_reorder_loop_append:
  "vec_reorder_loop (xs @ ys) i st = vec_reorder_loop ys (i + int (length xs)) (vec_reorder_loop xs i st)"
proof (induction xs arbitrary: i st)
  case Nil
  then show ?case by simp
next
  case (Cons x xs)
  obtain pos m where st: "st = (pos, m)" by (cases st)
  show ?case unfolding st by (simp add: Cons.IH add.assoc)
qed

lemma vec_reorder_loop_before:
  "\<forall>d \<in> set ds. getParallelType d \<noteq> Vectorize \<Longrightarrow> pos < 0 \<Longrightarrow>
   vec_reorder_loop ds i (pos, m) = (pos, m)"
  by (induction ds arbitrary: i) auto

lemma vec_reorder_loop_after:
  "\<forall>d \<in> set ds. getParallelType d \<noteq> Vectorize \<Longrightarrow> 0 \<le> pos \<Longrightarrow>
   \<forall>k \<in> fst ` set m. k < i \<Longrightarrow>
   vec_reorder_loop ds i (pos, m) =
     (pos, m @ map (\<lambda>j. (i + int j, i + int j - 1)) [0..<length ds])"
proof (induction ds arbitrary: i m)
  case Nil
  then show ?case by simp
next
  case (Cons d ds)
  have fresh: "i \<notin> fst ` set m" using Cons.prems(3) by auto
  have upd: "AList.update i (i - 1) m = m @ [(i, i - 1)]"
    by (rule update_fresh_key[OF fresh])
  have keys: "\<forall>k \<in> fst ` set (m @ [(i, i - 1)]). k < i + 1"
    using Cons.prems(3) by auto
  have IH: "vec_reorder_loop ds (i + 1) (pos, m @ [(i, i - 1)]) =
      (pos, (m @ [(i, i - 1)]) @ map (\<lambda>j. (i + 1 + int j, i + 1 + int j - 1)) [0..<length ds])"
    using Cons.IH[OF _ Cons.prems(2) keys] Cons.prems(1) by simp
  have shift: "map (\<lambda>j. (i + int j, i + int j - 1)) [0..<length (d # ds)]
      = (i, i - 1) # map (\<lambda>j. (i + 1 + int j, i + 1 + int j - 1)) [0..<length ds]"
    by (simp add: upt_conv_Cons map_Suc_upt[symmetric] del: upt_Suc)
  from Cons.prems(1,2) show ?case
    by (simp only: shift) (simp add: upd IH)
qed

lemma vec_reorder_loop_single:
  assumes "\<forall>d \<in> set pre. getParallelType d \<noteq> Vectorize"
    and "getParallelType v = Vectorize"
    and "\<forall>d \<in> set post. getParallelType d \<noteq> Vectorize"
  shows "vec_reorder_loop (pre @ v # post) 0 (- 1, []) =
     (int (length pre),
      (int (length pre), - 1)
        # map (\<lambda>j. (int (length pre) + 1 + int j, int (length pre) + 1 + int j - 1))
            [0..<length post])"
proof -
  have "vec_reorder_loop (pre @ v # post) 0 (- 1, [])
      = vec_reorder_loop (v # post) (int (length pre)) (- 1, [])"
    using vec_reorder_loop_before[OF assms(1), of "- 1" 0 "[]"]
    by (simp add: vec_reorder_loop_append)
  also have "\<dots> = vec_reorder_loop post (int (length pre) + 1)
                     (int (length pre), [(int (length pre), - 1)])"
    using assms(2) by simp
  also have "\<dots> = (int (length pre),
      [(int (length pre), - 1)]
        @ map (\<lambda>j. (int (length pre) + 1 + int j, int (length pre) + 1 + int j - 1))
            [0..<length post])"
    by (rule vec_reorder_loop_after[OF assms(3)]) auto
  finally show ?thesis by simp
qed

lemma fill_new2old_not_found:
  "\<forall>k \<in> set ks1. find (\<lambda>(old, new). new = int k) m = None \<Longrightarrow>
   length ks1 = length left \<Longrightarrow>
   fill_new2old m left (ks1 @ ks2) = left @ fill_new2old m [] ks2"
proof (induction ks1 arbitrary: left)
  case Nil
  then show ?case by simp
next
  case (Cons k ks)
  then obtain l ls where left: "left = l # ls" by (cases left) auto
  with Cons show ?case by simp
qed

lemma normalize_vec_reorder_map:
  fixes p q :: nat
  defines "n \<equiv> p + 1 + q"
  defines "m \<equiv> (int p, - 1) # map (\<lambda>j. (int p + 1 + int j, int p + 1 + int j - 1)) [0..<q]"
  shows "normalizeOld2New m n = Inr ([0..<p] @ [Suc p..<n] @ [p])"
proof -
  define m' where "m' = (int p, int n - 1) # map (\<lambda>j. (int p + 1 + int j, int p + int j)) [0..<q]"
  have wrap: "map (\<lambda>(old, new). (wrap_pos n old, wrap_pos n new)) m = m'"
    by (simp add: m_def m'_def wrap_pos_def n_def)
  have mem: "(a, b) \<in> set m' \<longleftrightarrow>
      (a = int p \<and> b = int n - 1) \<or> (\<exists>j < q. a = int p + 1 + int j \<and> b = int p + int j)"
    for a b unfolding m'_def by auto
  have range: "\<not> (\<exists>(old, new) \<in> set m'. old < 0 \<or> int n \<le> old \<or> new < 0 \<or> int n \<le> new)"
    unfolding m'_def by (auto simp: n_def)
  have d1: "distinct (map fst m')"
    unfolding m'_def by (auto simp: comp_def distinct_map inj_on_def)
  have d2: "distinct (map snd m')"
    unfolding m'_def by (auto simp: comp_def distinct_map inj_on_def n_def)
  have keys: "set (map fst m') = int ` {p..<n}"
  proof (rule set_eqI)
    fix x show "x \<in> set (map fst m') \<longleftrightarrow> x \<in> int ` {p..<n}"
    proof
      assume "x \<in> set (map fst m')"
      then obtain b where "(x, b) \<in> set m'" by auto
      then consider "x = int p" | j where "j < q" "x = int p + 1 + int j" unfolding mem by blast
      then show "x \<in> int ` {p..<n}"
      proof cases
        case 1
        then show ?thesis by (auto simp: n_def)
      next
        case 2
        then have "x = int (p + 1 + j)" "p + 1 + j < n" by (simp_all add: n_def)
        then show ?thesis by (auto simp: image_iff intro!: bexI[of _ "p + 1 + j"])
      qed
    next
      assume "x \<in> int ` {p..<n}"
      then obtain i where i: "p \<le> i" "i < n" "x = int i" by auto
      have "\<exists>b. (x, b) \<in> set m'"
      proof (cases "i = p")
        case True
        with i show ?thesis unfolding mem by blast
      next
        case False
        with i have "i - p - 1 < q" "x = int p + 1 + int (i - p - 1)" by (auto simp: n_def)
        then show ?thesis unfolding mem by blast
      qed
      then show "x \<in> set (map fst m')" by force
    qed
  qed
  have split_n: "[0..<n] = [0..<p] @ [p..<n]"
    by (simp add: n_def upt_add_eq_append[of 0 p "1 + q", simplified])
  have left: "filter (\<lambda>i. int i \<notin> set (map fst m')) [0..<n] = [0..<p]"
  proof -
    have "filter (\<lambda>i. int i \<notin> set (map fst m')) [0..<n] = filter (\<lambda>i. i < p) [0..<n]"
      unfolding keys by (rule filter_cong) auto
    also have "\<dots> = filter (\<lambda>i. i < p) ([0..<p] @ [p..<n])"
      by (simp only: split_n[symmetric])
    also have "\<dots> = [0..<p]" by (simp add: filter_empty_conv)
    finally show ?thesis .
  qed
  have none: "\<forall>k \<in> set [0..<p]. find (\<lambda>(old, new). new = int k) m' = None"
  proof
    fix k assume "k \<in> set [0..<p]"
    then have "k < p" by simp
    then have "\<not> (\<exists>x. x \<in> set m' \<and> (case x of (old, new) \<Rightarrow> new = int k))"
      using mem by (auto simp: n_def)
    then show "find (\<lambda>(old, new). new = int k) m' = None"
      unfolding find_None_iff .
  qed
  have found: "\<forall>k \<in> set [p..<n]. \<exists>old. (old, int k) \<in> set m'"
  proof
    fix k assume "k \<in> set [p..<n]"
    then have k: "p \<le> k" "k < n" by auto
    show "\<exists>old. (old, int k) \<in> set m'"
    proof (cases "k = n - 1")
      case True
      then have "(int p, int k) \<in> set m'" unfolding mem by (simp add: n_def)
      then show ?thesis ..
    next
      case False
      with k have "k - p < q" "int k = int p + int (k - p)" by (auto simp: n_def)
      then have "(int p + 1 + int (k - p), int k) \<in> set m'" unfolding mem by blast
      then show ?thesis ..
    qed
  qed
  define old_of where "old_of = (\<lambda>k. nat (fst (the (find (\<lambda>(old, new). new = int k) m'))))"
  have fill: "fill_new2old m' [0..<p] [0..<n] = [0..<p] @ map old_of [p..<n]"
    unfolding split_n old_of_def
    using fill_new2old_not_found[OF none, of "[0..<p]" "[p..<n]"] fill_new2old_found[OF found, of "[]"]
    by simp
  have old_of: "old_of k = (if k = n - 1 then p else Suc k)" if k: "p \<le> k" "k < n" for k
  proof -
    from k have "k \<in> set [p..<n]" by simp
    with found obtain old0 where "(old0, int k) \<in> set m'" by blast
    then have "find (\<lambda>(old, new). new = int k) m' \<noteq> None"
      unfolding find_None_iff by blast
    then obtain a b where f: "find (\<lambda>(old, new). new = int k) m' = Some (a, b)" by auto
    from find_SomeD[OF f] have b: "b = int k" and ab: "(a, b) \<in> set m'" by auto
    from ab[unfolded mem] b k have a: "a = (if k = n - 1 then int p else int k + 1)"
      by (auto simp: n_def)
    have "old_of k = nat a" unfolding old_of_def f by simp
    with a show ?thesis by auto
  qed
  have tail: "map old_of [p..<n] = [Suc p..<n] @ [p]"
  proof (rule nth_equalityI)
    show "length (map old_of [p..<n]) = length ([Suc p..<n] @ [p])"
      by (simp add: n_def)
  next
    fix i assume "i < length (map old_of [p..<n])"
    then have i: "i < n - p" by simp
    then have "map old_of [p..<n] ! i = old_of (p + i)" by simp
    also have "\<dots> = (if p + i = n - 1 then p else Suc (p + i))"
      using i by (intro old_of) auto
    also have "\<dots> = ([Suc p..<n] @ [p]) ! i"
      using i by (auto simp: nth_append n_def)
    finally show "map old_of [p..<n] ! i = ([Suc p..<n] @ [p]) ! i" .
  qed
  show ?thesis
    unfolding normalizeOld2New_def Let_def wrap
    using range d1 d2 by (simp only: if_False simp_thms left fill tail)
qed

lemma moveVectorizedInnermost_single:
  assumes dom: "domain rf = pre @ v # post"
    and "\<forall>d \<in> set pre. getParallelType d \<noteq> Vectorize"
    and "getParallelType v = Vectorize"
    and "\<forall>d \<in> set post. getParallelType d \<noteq> Vectorize"
  shows "moveVectorizedInnermost rf = Inr (rf\<lparr>domain := pre @ post @ [v]\<rparr>)"
proof -
  let ?p = "length pre" and ?q = "length post"
  let ?n = "?p + 1 + ?q"
  have n: "nDims rf = ?n" by (simp add: nDims_def dom)
  have idx: "map (\<lambda>old. (pre @ v # post) ! old) ([0..<?p] @ [Suc ?p..<?n] @ [?p]) = pre @ post @ [v]"
  proof -
    have a: "map (\<lambda>old. (pre @ v # post) ! old) [0..<?p] = pre"
      by (rule nth_equalityI) (auto simp: nth_append)
    have "?n = ?q + Suc ?p" by simp
    then have "[Suc ?p..<?n] = map (\<lambda>j. j + Suc ?p) [0..<?q]"
      by (simp only: map_add_upt)
    then have "map (\<lambda>old. (pre @ v # post) ! old) [Suc ?p..<?n]
        = map (\<lambda>j. post ! j) [0..<?q]"
      by (simp add: nth_append)
    then have b: "map (\<lambda>old. (pre @ v # post) ! old) [Suc ?p..<?n] = post"
      by (simp add: map_nth)
    show ?thesis using a b by simp
  qed
  show ?thesis
    unfolding moveVectorizedInnermost_def dom
    using vec_reorder_loop_single[OF assms(2-4)] normalize_vec_reorder_map[of ?p ?q] idx
    by (simp add: reorder_def n dom)
qed

lemma moveVectorizedInnermost_none:
  assumes "\<forall>d \<in> set (domain rf). getParallelType d \<noteq> Vectorize"
  shows "moveVectorizedInnermost rf = Inl VectorizedIDNotFound"
  unfolding moveVectorizedInnermost_def
  using vec_reorder_loop_before[OF assms, of "- 1" 0 "[]"] by simp

text \<open>
  Claim C6, as the code has it.  Under outer grid persistence, once the preconditions
  hold, the splits have succeeded and \<^verbatim>\<open>sortAndRFactor\<close> has returned the staged node:
  if no axis of the staged node is vectorized, scheduling ends with the diagnostic
  "Vectorized ID not found"; if exactly one is, the returned node has the axes before it
  in place, the axes after it one position nearer to the front (position \<open>i\<close> becomes
  \<open>i - 1\<close>, one step outward), and the vectorized axis last (innermost).
\<close>

theorem outer_grid_persistence_vectorized_last:
  assumes "is_outer_grid_persistence rparams"
    and "check_preconditions rparams reduction_tv has_iter_axis = None"
    and "run_ops (schedule_ops rparams has_iter_axis) reduction_tv = (tv, None)"
    and "sortAndRFactor srt rfactorHelper tv = (tv', Inr reduction_rf_tv)"
  shows "((\<forall>d \<in> set (domain reduction_rf_tv). getParallelType d \<noteq> Vectorize) \<longrightarrow>
            scheduleReductionTV srt rfactorHelper rparams reduction_tv has_iter_axis
              = (tv', Inl VectorizedIDNotFound))
       \<and> (\<forall>pre v post.
            domain reduction_rf_tv = pre @ v # post \<and> getParallelType v = Vectorize
            \<and> (\<forall>d \<in> set pre \<union> set post. getParallelType d \<noteq> Vectorize) \<longrightarrow>
            scheduleReductionTV srt rfactorHelper rparams reduction_tv has_iter_axis
              = (tv', Inr (reduction_rf_tv\<lparr>domain := pre @ post @ [v]\<rparr>)))"
proof -
  have run: "scheduleReductionTV srt rfactorHelper rparams reduction_tv has_iter_axis
      = (tv', moveVectorizedInnermost reduction_rf_tv)"
    using assms by (simp add: scheduleReductionTV_def)
  show ?thesis
  proof (intro conjI allI impI)
    assume "\<forall>d \<in> set (domain reduction_rf_tv). getParallelType d \<noteq> Vectorize"
    then show "scheduleReductionTV srt rfactorHelper rparams reduction_tv has_iter_axis
              = (tv', Inl VectorizedIDNotFound)"
      unfolding run by (simp add: moveVectorizedInnermost_none)
  next
    fix pre v post
    assume a: "domain reduction_rf_tv = pre @ v # post \<and> getParallelType v = Vectorize
            \<and> (\<forall>d \<in> set pre \<union> set post. getParallelType d \<noteq> Vectorize)"
    then have "moveVectorizedInnermost reduction_rf_tv
        = Inr (reduction_rf_tv\<lparr>domain := pre @ post @ [v]\<rparr>)"
      by (intro moveVectorizedInnermost_single) auto
    then show "scheduleReductionTV srt rfactorHelper rparams reduction_tv has_iter_axis
              = (tv', Inr (reduction_rf_tv\<lparr>domain := pre @ post @ [v]\<rparr>))"
      unfolding run by simp
  qed
qed

theorem outer_grid_persistence_vectorized_last_witness:
  "is_outer_grid_persistence scenario3_params
   \<and> check_preconditions scenario3_params node_IR True = None
   \<and> run_ops (schedule_ops scenario3_params True) node_IR = (scenario3_scheduled, None)
   \<and> snd (sortAndRFactor insertion_sort rFactor scenario3_scheduled) = Inr scenario3_staged
   \<and> map (getParallelType) (domain scenario3_staged)
        = [BIDx, TIDx, Vectorize, BIDy, Unswitch, Serial, TIDy]
   \<and> snd (scheduleReductionTV insertion_sort rFactor scenario3_params node_IR True)
        = Inr (scenario3_staged\<lparr>domain :=
            take 2 (domain scenario3_staged) @ drop 3 (domain scenario3_staged)
              @ [domain scenario3_staged ! 2]\<rparr>)
   \<and> is_outer_grid_persistence scenario3_novec_params
   \<and> check_preconditions scenario3_novec_params node_IR True = None
   \<and> run_ops (schedule_ops scenario3_novec_params True) node_IR
        = (scenario3_novec_scheduled, None)
   \<and> snd (sortAndRFactor insertion_sort rFactor scenario3_novec_scheduled)
        = Inr scenario3_novec_staged
   \<and> map (getParallelType) (domain scenario3_novec_staged)
        = [BIDx, TIDx, Unroll, BIDy, Unswitch, Serial, TIDy]
   \<and> snd (scheduleReductionTV insertion_sort rFactor scenario3_novec_params node_IR True)
        = Inl VectorizedIDNotFound"
proof -
  have a1: "is_outer_grid_persistence scenario3_params" by code_simp
  have a2: "check_preconditions scenario3_params node_IR True = None" by code_simp
  have a3: "run_ops (schedule_ops scenario3_params True) node_IR = (scenario3_scheduled, None)"
    by code_simp
  obtain tv' where a4: "sortAndRFactor insertion_sort rFactor scenario3_scheduled
      = (tv', Inr scenario3_staged)"
  proof -
    have "snd (sortAndRFactor insertion_sort rFactor scenario3_scheduled) = Inr scenario3_staged"
      by code_simp
    then show ?thesis using that by (cases "sortAndRFactor insertion_sort rFactor scenario3_scheduled") auto
  qed
  have a5: "map (getParallelType) (domain scenario3_staged)
        = [BIDx, TIDx, Vectorize, BIDy, Unswitch, Serial, TIDy]" by code_simp
  have a6: "domain scenario3_staged = take 2 (domain scenario3_staged)
       @ (domain scenario3_staged ! 2) # drop 3 (domain scenario3_staged)
     \<and> getParallelType (domain scenario3_staged ! 2) = Vectorize
     \<and> (\<forall>d \<in> set (take 2 (domain scenario3_staged)) \<union> set (drop 3 (domain scenario3_staged)).
           getParallelType d \<noteq> Vectorize)"
    by code_simp
  have b1: "is_outer_grid_persistence scenario3_novec_params" by code_simp
  have b2: "check_preconditions scenario3_novec_params node_IR True = None" by code_simp
  have b3: "run_ops (schedule_ops scenario3_novec_params True) node_IR
        = (scenario3_novec_scheduled, None)" by code_simp
  obtain tv'' where b4: "sortAndRFactor insertion_sort rFactor scenario3_novec_scheduled
      = (tv'', Inr scenario3_novec_staged)"
  proof -
    have "snd (sortAndRFactor insertion_sort rFactor scenario3_novec_scheduled)
        = Inr scenario3_novec_staged"
      by code_simp
    then show ?thesis using that
      by (cases "sortAndRFactor insertion_sort rFactor scenario3_novec_scheduled") auto
  qed
  have b5: "map (getParallelType) (domain scenario3_novec_staged)
        = [BIDx, TIDx, Unroll, BIDy, Unswitch, Serial, TIDy]" by code_simp
  have b6: "\<forall>d \<in> set (domain scenario3_novec_staged). getParallelType d \<noteq> Vectorize"
    by code_simp
  from outer_grid_persistence_vectorized_last[OF a1 a2 a3 a4] a6
  have r1: "scheduleReductionTV insertion_sort rFactor scenario3_params node_IR True
      = (tv', Inr (scenario3_staged\<lparr>domain :=
            take 2 (domain scenario3_staged) @ drop 3 (domain scenario3_staged)
              @ [domain scenario3_staged ! 2]\<rparr>))"
    by blast
  from outer_grid_persistence_vectorized_last[OF b1 b2 b3 b4] b6
  have r2: "scheduleReductionTV insertion_sort rFactor scenario3_novec_params node_IR True
      = (tv'', Inl VectorizedIDNotFound)"
    by blast
  from a1 a2 a3 a4 a5 b1 b2 b3 b4 b5 r1 r2 show ?thesis by simp
qed

text \<open>
  Claim C6 as it is written fails in the direction of the move.  In scenario 3 the staged
  node has its vectorized axis at position 2 of 7.  In the returned node the axis that
  stood at position 3 stands at position 2, not at position 4: the axes after the
  vectorized axis move outward by one, not inward.
\<close>

theorem vectorized_relocation_counterexample:
  "is_outer_grid_persistence scenario3_params
   \<and> snd (sortAndRFactor insertion_sort rFactor scenario3_scheduled) = Inr scenario3_staged
   \<and> snd (scheduleReductionTV insertion_sort rFactor scenario3_params node_IR True)
        = Inr scenario3_result
   \<and> map axis_summary (domain scenario3_staged)
        = [(False, BIDx, CeilDiv (CeilDiv (NamedScalar ''I'') (IntConst 2)) (IntConst 32)),
           (False, TIDx, IntConst 32),
           (False, Vectorize, IntConst 2),
           (False, BIDy, CeilDiv (CeilDiv (NamedScalar ''R'') (IntConst 8)) (IntConst 4)),
           (True, Unswitch, IntConst 1),
           (True, Serial, CeilDiv (IntConst 4) (IntConst 1)),
           (False, TIDy, IntConst 8)]
   \<and> map axis_summary (domain scenario3_result)
        = [(False, BIDx, CeilDiv (CeilDiv (NamedScalar ''I'') (IntConst 2)) (IntConst 32)),
           (False, TIDx, IntConst 32),
           (False, BIDy, CeilDiv (CeilDiv (NamedScalar ''R'') (IntConst 8)) (IntConst 4)),
           (True, Unswitch, IntConst 1),
           (True, Serial, CeilDiv (IntConst 4) (IntConst 1)),
           (False, TIDy, IntConst 8),
           (False, Vectorize, IntConst 2)]
   \<and> domain scenario3_result ! 2 = domain scenario3_staged ! 3
   \<and> domain scenario3_result ! 4 \<noteq> domain scenario3_staged ! 3"
  by code_simp

section \<open>Properties of \<^verbatim>\<open>multiReductionInliner\<close>\<close>

lemma reduction_parallel_types_iff:
  "p \<in> reduction_parallel_types t \<longleftrightarrow>
     (\<exists>d \<in> set (domain t). isReduction d \<and> isParallelTypeBlockDim (getParallelType d)
        \<and> getParallelType d = p)"
  by (auto simp: reduction_parallel_types_def)

lemma isGridAllreduce_iff:
  "isGridAllreduce fusion tv \<longleftrightarrow>
     memoryType (tvs fusion tv) = Local
     \<and> (\<exists>d \<in> set (domain (tvs fusion tv)).
          isReduction d \<and> isParallelTypeBlockDim (getParallelType d)
          \<and> (\<exists>e \<in> set (uses_of fusion tv). exprType e = BroadcastOp
                \<and> (\<exists>b \<in> set (domain (tvs fusion (out e))).
                      getParallelType b = getParallelType d)))"
proof (cases "memoryType (tvs fusion tv) = Local")
  case False
  then show ?thesis by (simp add: isGridAllreduce_def)
next
  case True
  have "isGridAllreduce fusion tv \<longleftrightarrow>
     (\<exists>e \<in> set (uses_of fusion tv). exprType e = BroadcastOp
        \<and> (\<exists>b \<in> set (domain (tvs fusion (out e))).
              isParallelTypeBlockDim (getParallelType b)
              \<and> (\<exists>d \<in> set (domain (tvs fusion tv)).
                    isReduction d \<and> isParallelTypeBlockDim (getParallelType d)
                    \<and> getParallelType d = getParallelType b)))"
    using True
    by (simp add: isGridAllreduce_def list_ex_iff reduction_parallel_types_iff) blast
  also have "\<dots> \<longleftrightarrow>
     (\<exists>d \<in> set (domain (tvs fusion tv)).
          isReduction d \<and> isParallelTypeBlockDim (getParallelType d)
          \<and> (\<exists>e \<in> set (uses_of fusion tv). exprType e = BroadcastOp
                \<and> (\<exists>b \<in> set (domain (tvs fusion (out e))).
                      getParallelType b = getParallelType d)))"
    by (rule iffI; clarify; metis)
  finally show ?thesis using True by simp
qed

lemma parallelizeAllLike_by_position_frame: "parallelizeAllLike_frame demo_passes"
  by (simp add: parallelizeAllLike_frame_def demo_passes_def parallelizeAllLike_by_position_def
      Let_def)

lemma not_unrolled_eq:
  assumes "\<not> isUnrolled rparams"
  shows "multiReductionInliner ext fusion0 rparams reduction_tv reference_tv reduction_tvs
           cached_inputs cached_outputs dummy_outputs
         = Inr (inlineMost ext
                  (fold removeOutput dummy_outputs
                     (parallelizeAllLike ext reference_tv (- 1) []
                        (allParallelTypesExcept {Unroll, Vectorize, MisalignedVectorize})
                        (propagate_and_rfactor ext reduction_tv reference_tv reduction_tvs
                           fusion0))))"
  using assms
  by (simp add: multiReductionInliner_def Let_def remove_dummy_outputs_and_inline_def
      propagate_parallelization_def)

text \<open>
  Claim C7, as the code has it.  Let unrolling or vectorization be requested
  (\<^verbatim>\<open>rparams.isUnrolled()\<close>) and let lines 362 to 498 have left the fusion \<open>fusion\<close>.
  Then \<^verbatim>\<open>multiReductionInliner\<close> ends by propagating the group assignment from the
  original reduction node onto a list of nodes, removing the dummy outputs and inlining;
  the nodes of the list are exactly the reduction nodes other than the original one that
  are held in local memory and have a reduction axis whose grid-level parallel dimension
  also parallelizes an axis of the output of a broadcast that uses the node; no
  propagation is made when there is none.  If \<^verbatim>\<open>parallelizeAllLike\<close> leaves the nodes it
  is not given as they are, every other node is unchanged by this step.  When neither
  unrolling nor vectorization is requested, the step is not run: the function is the
  transform propagation and staging of lines 362 to 398, the propagation of the parallel
  assignments other than unroll, vectorize and misaligned-vectorize from the reference
  node, the removal of the dummy outputs and the inlining, with no detection of grid
  all-reduces and no propagation of the group assignment from the original reduction
  node.
\<close>

theorem grid_allreduce_group_only_when_unrolled:
  "(isUnrolled rparams
    \<and> unroll_phase ext rparams reduction_tv reference_tv reduction_tvs cached_inputs
           cached_outputs
           (propagate_parallelization ext reference_tv
              (propagate_and_rfactor ext reduction_tv reference_tv reduction_tvs fusion0))
         = Inr fusion
    \<longrightarrow>
      multiReductionInliner ext fusion0 rparams reduction_tv reference_tv reduction_tvs
           cached_inputs cached_outputs dummy_outputs
         = Inr (remove_dummy_outputs_and_inline ext dummy_outputs
                  (if allreduce_tvs reduction_tv reduction_tvs fusion \<noteq> []
                   then parallelizeAllLike ext reduction_tv (- 1)
                          (allreduce_tvs reduction_tv reduction_tvs fusion) {Group} fusion
                   else fusion))
     \<and> set (allreduce_tvs reduction_tv reduction_tvs fusion) =
         {tv \<in> set reduction_tvs. tv \<noteq> reduction_tv
            \<and> memoryType (tvs fusion tv) = Local
            \<and> (\<exists>d \<in> set (domain (tvs fusion tv)).
                 isReduction d \<and> isParallelTypeBlockDim (getParallelType d)
                 \<and> (\<exists>e \<in> set (uses_of fusion tv). exprType e = BroadcastOp
                       \<and> (\<exists>b \<in> set (domain (tvs fusion (out e))).
                             getParallelType b = getParallelType d)))}
     \<and> (parallelizeAllLike_frame ext \<longrightarrow>
          (\<forall>tv. tv \<notin> set (allreduce_tvs reduction_tv reduction_tvs fusion) \<longrightarrow>
             tvs (allreduce_phase ext reduction_tv reduction_tvs fusion) tv = tvs fusion tv)))
   \<and> (\<not> isUnrolled rparams \<longrightarrow>
        multiReductionInliner ext fusion0 rparams reduction_tv reference_tv reduction_tvs
           cached_inputs cached_outputs dummy_outputs
         = Inr (inlineMost ext
                  (fold removeOutput dummy_outputs
                     (parallelizeAllLike ext reference_tv (- 1) []
                        (allParallelTypesExcept {Unroll, Vectorize, MisalignedVectorize})
                        (propagate_and_rfactor ext reduction_tv reference_tv reduction_tvs
                           fusion0)))))"
proof (intro conjI impI allI)
  assume "isUnrolled rparams
    \<and> unroll_phase ext rparams reduction_tv reference_tv reduction_tvs cached_inputs
           cached_outputs
           (propagate_parallelization ext reference_tv
              (propagate_and_rfactor ext reduction_tv reference_tv reduction_tvs fusion0))
         = Inr fusion"
  then show "multiReductionInliner ext fusion0 rparams reduction_tv reference_tv reduction_tvs
           cached_inputs cached_outputs dummy_outputs
         = Inr (remove_dummy_outputs_and_inline ext dummy_outputs
                  (if allreduce_tvs reduction_tv reduction_tvs fusion \<noteq> []
                   then parallelizeAllLike ext reduction_tv (- 1)
                          (allreduce_tvs reduction_tv reduction_tvs fusion) {Group} fusion
                   else fusion))"
    by (simp add: multiReductionInliner_def allreduce_phase_def Let_def)
next
  show "set (allreduce_tvs reduction_tv reduction_tvs fusion) =
         {tv \<in> set reduction_tvs. tv \<noteq> reduction_tv
            \<and> memoryType (tvs fusion tv) = Local
            \<and> (\<exists>d \<in> set (domain (tvs fusion tv)).
                 isReduction d \<and> isParallelTypeBlockDim (getParallelType d)
                 \<and> (\<exists>e \<in> set (uses_of fusion tv). exprType e = BroadcastOp
                       \<and> (\<exists>b \<in> set (domain (tvs fusion (out e))).
                             getParallelType b = getParallelType d)))}"
  proof -
    have s: "set (allreduce_tvs reduction_tv reduction_tvs fusion) =
        {tv \<in> set reduction_tvs. tv \<noteq> reduction_tv \<and> isGridAllreduce fusion tv}"
      by (auto simp: allreduce_tvs_def)
    show ?thesis by (simp only: s isGridAllreduce_iff)
  qed
next
  fix tv
  assume fr: "parallelizeAllLike_frame ext"
    and tv: "tv \<notin> set (allreduce_tvs reduction_tv reduction_tvs fusion)"
  show "tvs (allreduce_phase ext reduction_tv reduction_tvs fusion) tv = tvs fusion tv"
  proof (cases "allreduce_tvs reduction_tv reduction_tvs fusion = []")
    case True
    then show ?thesis by (simp add: allreduce_phase_def)
  next
    case False
    with fr tv show ?thesis
      unfolding allreduce_phase_def parallelizeAllLike_frame_def by simp
  qed
next
  assume "\<not> isUnrolled rparams"
  then show "multiReductionInliner ext fusion0 rparams reduction_tv reference_tv reduction_tvs
           cached_inputs cached_outputs dummy_outputs
         = Inr (inlineMost ext
                  (fold removeOutput dummy_outputs
                     (parallelizeAllLike ext reference_tv (- 1) []
                        (allParallelTypesExcept {Unroll, Vectorize, MisalignedVectorize})
                        (propagate_and_rfactor ext reduction_tv reference_tv reduction_tvs
                           fusion0))))"
    by (rule not_unrolled_eq)
qed

theorem grid_allreduce_group_only_when_unrolled_witness:
  "isUnrolled demo_unrolled_params
   \<and> unroll_phase demo_passes demo_unrolled_params demo_reduction_tv demo_reference_tv
        [demo_reduction_tv, demo_other_reduction_tv] [] [] demo_prepared = Inr demo_after_unroll
   \<and> parallelizeAllLike_frame demo_passes
   \<and> allreduce_tvs demo_reduction_tv [demo_reduction_tv, demo_other_reduction_tv]
        demo_after_unroll = [demo_other_reduction_tv]
   \<and> multiReductionInliner demo_passes demo_fusion demo_unrolled_params demo_reduction_tv
        demo_reference_tv [demo_reduction_tv, demo_other_reduction_tv] [] [] []
      = Inr (remove_dummy_outputs_and_inline demo_passes []
               (parallelizeAllLike demo_passes demo_reduction_tv (- 1) [demo_other_reduction_tv]
                  {Group} demo_after_unroll))
   \<and> parallel_types_of demo_after_unroll demo_reduction_tv = [BIDx, Group]
   \<and> parallel_types_of demo_after_unroll demo_other_reduction_tv = [BIDx, Serial]
   \<and> parallel_types_of demo_unrolled_final demo_other_reduction_tv = [BIDx, Group]
   \<and> demo_broadcast_tv \<notin> set [demo_other_reduction_tv]
   \<and> tvs (allreduce_phase demo_passes demo_reduction_tv
             [demo_reduction_tv, demo_other_reduction_tv] demo_after_unroll) demo_broadcast_tv
      = tvs demo_after_unroll demo_broadcast_tv
   \<and> \<not> isUnrolled default_params
   \<and> multiReductionInliner demo_passes demo_fusion default_params demo_reduction_tv
        demo_reference_tv [demo_reduction_tv, demo_other_reduction_tv] [] [] []
      = Inr (inlineMost demo_passes
               (fold removeOutput []
                  (parallelizeAllLike demo_passes demo_reference_tv (- 1) []
                     (allParallelTypesExcept {Unroll, Vectorize, MisalignedVectorize})
                     (propagate_and_rfactor demo_passes demo_reduction_tv demo_reference_tv
                        [demo_reduction_tv, demo_other_reduction_tv] demo_fusion))))"
proof -
  have a: "isUnrolled demo_unrolled_params" by code_simp
  have "\<not> isl (unroll_phase demo_passes demo_unrolled_params demo_reduction_tv demo_reference_tv
        [demo_reduction_tv, demo_other_reduction_tv] [] [] demo_prepared)"
    by code_simp
  then have b: "unroll_phase demo_passes demo_unrolled_params demo_reduction_tv
        demo_reference_tv [demo_reduction_tv, demo_other_reduction_tv] [] [] demo_prepared
      = Inr demo_after_unroll"
    unfolding demo_after_unroll_def by simp
  have c: "parallelizeAllLike_frame demo_passes" by (rule parallelizeAllLike_by_position_frame)
  have d: "allreduce_tvs demo_reduction_tv [demo_reduction_tv, demo_other_reduction_tv]
        demo_after_unroll = [demo_other_reduction_tv]"
    by code_simp
  have e1: "parallel_types_of demo_after_unroll demo_reduction_tv = [BIDx, Group]"
    by code_simp
  have e2: "parallel_types_of demo_after_unroll demo_other_reduction_tv = [BIDx, Serial]"
    by code_simp
  have e3: "parallel_types_of demo_unrolled_final demo_other_reduction_tv = [BIDx, Group]"
    by code_simp
  have e4: "demo_broadcast_tv \<notin> set [demo_other_reduction_tv]"
    by code_simp
  have n: "\<not> isUnrolled default_params" by code_simp
  note t0 = grid_allreduce_group_only_when_unrolled
             [of demo_unrolled_params demo_passes demo_reduction_tv demo_reference_tv
                 "[demo_reduction_tv, demo_other_reduction_tv]" "[]" "[]" demo_fusion
                 demo_after_unroll "[]"]
  from t0 a b[unfolded demo_prepared_def]
  have t1: "multiReductionInliner demo_passes demo_fusion demo_unrolled_params
        demo_reduction_tv demo_reference_tv [demo_reduction_tv, demo_other_reduction_tv] [] [] []
         = Inr (remove_dummy_outputs_and_inline demo_passes []
                  (if allreduce_tvs demo_reduction_tv [demo_reduction_tv, demo_other_reduction_tv]
                        demo_after_unroll \<noteq> []
                   then parallelizeAllLike demo_passes demo_reduction_tv (- 1)
                          (allreduce_tvs demo_reduction_tv
                             [demo_reduction_tv, demo_other_reduction_tv] demo_after_unroll)
                          {Group} demo_after_unroll
                   else demo_after_unroll))"
    by blast
  from t0 a b[unfolded demo_prepared_def] c
  have "\<forall>tv. tv \<notin> set (allreduce_tvs demo_reduction_tv
            [demo_reduction_tv, demo_other_reduction_tv] demo_after_unroll) \<longrightarrow>
        tvs (allreduce_phase demo_passes demo_reduction_tv
               [demo_reduction_tv, demo_other_reduction_tv] demo_after_unroll) tv
          = tvs demo_after_unroll tv"
    by blast
  then have f: "tvs (allreduce_phase demo_passes demo_reduction_tv
             [demo_reduction_tv, demo_other_reduction_tv] demo_after_unroll) demo_broadcast_tv
      = tvs demo_after_unroll demo_broadcast_tv"
    unfolding d using e4 by blast
  have g: "multiReductionInliner demo_passes demo_fusion demo_unrolled_params
        demo_reduction_tv demo_reference_tv [demo_reduction_tv, demo_other_reduction_tv] [] [] []
      = Inr (remove_dummy_outputs_and_inline demo_passes []
               (parallelizeAllLike demo_passes demo_reduction_tv (- 1) [demo_other_reduction_tv]
                  {Group} demo_after_unroll))"
    using t1 unfolding d by (simp only: list.distinct not_False_eq_True if_True)
  from grid_allreduce_group_only_when_unrolled
         [of default_params demo_passes demo_reduction_tv demo_reference_tv
             "[demo_reduction_tv, demo_other_reduction_tv]" "[]" "[]" demo_fusion
             demo_after_unroll "[]"] n
  have h: "multiReductionInliner demo_passes demo_fusion default_params demo_reduction_tv
        demo_reference_tv [demo_reduction_tv, demo_other_reduction_tv] [] [] []
      = Inr (inlineMost demo_passes
               (fold removeOutput []
                  (parallelizeAllLike demo_passes demo_reference_tv (- 1) []
                     (allParallelTypesExcept {Unroll, Vectorize, MisalignedVectorize})
                     (propagate_and_rfactor demo_passes demo_reduction_tv demo_reference_tv
                        [demo_reduction_tv, demo_other_reduction_tv] demo_fusion))))"
    by blast
  show ?thesis by (intro conjI a b c d g e1 e2 e3 e4 f n h)
qed

text \<open>
  Claim C7 as it is written fails when neither unrolling nor vectorization is requested.
  In the fusion below the original reduction node carries a group assignment on its
  second axis, and node 2 is another reduction node in local memory whose reduction
  dimension \<^verbatim>\<open>BIDx\<close> parallelizes the broadcast that uses it; after
  \<^verbatim>\<open>multiReductionInliner\<close> node 2 still has the assignments \<^verbatim>\<open>BIDx\<close>, serial: no group
  assignment has reached it.
\<close>

theorem grid_allreduce_group_counterexample:
  "\<not> isUnrolled default_params
   \<and> \<not> isl (multiReductionInliner demo_passes demo_fusion default_params demo_reduction_tv
              demo_reference_tv [demo_reduction_tv, demo_other_reduction_tv] [] [] [])
   \<and> demo_other_reduction_tv \<noteq> demo_reduction_tv
   \<and> memoryType (tvs demo_final demo_other_reduction_tv) = Local
   \<and> isGridAllreduce demo_final demo_other_reduction_tv
   \<and> parallel_types_of demo_final demo_reduction_tv = [BIDx, Group]
   \<and> parallel_types_of demo_final demo_other_reduction_tv = [BIDx, Serial]"
  by code_simp

lemma tvs_fold_removeOutput: "tvs (fold removeOutput dummy_outputs fusion) = tvs fusion"
  by (induction dummy_outputs arbitrary: fusion) (simp_all add: removeOutput_def)

lemma by_position_selected_only: "parallelizeAllLike_selected_only demo_passes"
  by (auto simp: parallelizeAllLike_selected_only_def demo_passes_def
        parallelizeAllLike_by_position_def Let_def nDims_def)

lemma demo_inlineMost_keeps_nodes: "inlineMost_keeps_nodes demo_passes"
  by (simp add: inlineMost_keeps_nodes_def demo_passes_def)

text \<open>
  Claim C10, as the code has it.  When \<^verbatim>\<open>rparams.isUnrolled()\<close> is false,
  \<^verbatim>\<open>multiReductionInliner\<close> is the transform propagation and staging of lines 362 to
  398, the propagation of the parallel assignments other than unroll, vectorize and
  misaligned-vectorize from the reference node, the removal of the dummy outputs and the
  inlining, and nothing else: lines 414 to 510 are skipped, so there is no propagation of
  unroll, vectorize or misaligned-vectorize, no step that strips an assignment back to
  serial or turns it into group, no detection of grid all-reduces and no propagation of
  the group assignment.  If \<^verbatim>\<open>parallelizeAllLike\<close> gives an axis selected assignments
  only and \<^verbatim>\<open>inlineMost\<close> changes no axis, no node gains an unroll, vectorize or
  misaligned-vectorize assignment: every node keeps the number of axes it has after the
  staging, and an axis that carries one of the three at the end carried the same one
  after the staging.
\<close>

theorem not_unrolled_general_propagation_only:
  "(\<not> isUnrolled rparams \<longrightarrow>
      multiReductionInliner ext fusion0 rparams reduction_tv reference_tv reduction_tvs
           cached_inputs cached_outputs dummy_outputs
         = Inr (inlineMost ext
                  (fold removeOutput dummy_outputs
                     (parallelizeAllLike ext reference_tv (- 1) []
                        (allParallelTypesExcept {Unroll, Vectorize, MisalignedVectorize})
                        (propagate_and_rfactor ext reduction_tv reference_tv reduction_tvs
                           fusion0)))))
   \<and> (\<not> isUnrolled rparams \<and> parallelizeAllLike_selected_only ext
        \<and> inlineMost_keeps_nodes ext \<longrightarrow>
        (\<exists>final. multiReductionInliner ext fusion0 rparams reduction_tv reference_tv
                    reduction_tvs cached_inputs cached_outputs dummy_outputs = Inr final
           \<and> (\<forall>tv. nDims (tvs final tv)
                      = nDims (tvs (propagate_and_rfactor ext reduction_tv reference_tv
                                      reduction_tvs fusion0) tv)
                  \<and> (\<forall>i < nDims (tvs final tv).
                        getParallelType (domain (tvs final tv) ! i)
                          \<in> {Unroll, Vectorize, MisalignedVectorize} \<longrightarrow>
                        getParallelType (domain (tvs final tv) ! i)
                          = getParallelType
                              (domain (tvs (propagate_and_rfactor ext reduction_tv reference_tv
                                              reduction_tvs fusion0) tv) ! i)))))"
proof (intro conjI impI)
  assume "\<not> isUnrolled rparams"
  then show "multiReductionInliner ext fusion0 rparams reduction_tv reference_tv reduction_tvs
           cached_inputs cached_outputs dummy_outputs
         = Inr (inlineMost ext
                  (fold removeOutput dummy_outputs
                     (parallelizeAllLike ext reference_tv (- 1) []
                        (allParallelTypesExcept {Unroll, Vectorize, MisalignedVectorize})
                        (propagate_and_rfactor ext reduction_tv reference_tv reduction_tvs
                           fusion0))))"
    by (rule not_unrolled_eq)
next
  assume a: "\<not> isUnrolled rparams \<and> parallelizeAllLike_selected_only ext
        \<and> inlineMost_keeps_nodes ext"
  let ?f1 = "propagate_and_rfactor ext reduction_tv reference_tv reduction_tvs fusion0"
  let ?S = "allParallelTypesExcept {Unroll, Vectorize, MisalignedVectorize}"
  let ?f2 = "parallelizeAllLike ext reference_tv (- 1) [] ?S ?f1"
  let ?final = "inlineMost ext (fold removeOutput dummy_outputs ?f2)"
  from a have eq: "multiReductionInliner ext fusion0 rparams reduction_tv reference_tv
                    reduction_tvs cached_inputs cached_outputs dummy_outputs = Inr ?final"
    by (simp add: not_unrolled_eq)
  from a have tv: "tvs ?final = tvs ?f2"
    by (simp add: inlineMost_keeps_nodes_def tvs_fold_removeOutput)
  from a have sel: "\<And>tv. nDims (tvs ?f2 tv) = nDims (tvs ?f1 tv)
        \<and> (\<forall>i < nDims (tvs ?f1 tv).
              getParallelType (domain (tvs ?f2 tv) ! i)
                = getParallelType (domain (tvs ?f1 tv) ! i)
              \<or> getParallelType (domain (tvs ?f2 tv) ! i) \<in> ?S)"
    unfolding parallelizeAllLike_selected_only_def by blast
  have "\<forall>tv. nDims (tvs ?final tv) = nDims (tvs ?f1 tv)
                  \<and> (\<forall>i < nDims (tvs ?final tv).
                        getParallelType (domain (tvs ?final tv) ! i)
                          \<in> {Unroll, Vectorize, MisalignedVectorize} \<longrightarrow>
                        getParallelType (domain (tvs ?final tv) ! i)
                          = getParallelType (domain (tvs ?f1 tv) ! i))"
  proof (intro allI conjI impI)
    fix tv show "nDims (tvs ?final tv) = nDims (tvs ?f1 tv)" using sel[of tv] tv by simp
  next
    fix tv i
    assume i: "i < nDims (tvs ?final tv)"
      and u: "getParallelType (domain (tvs ?final tv) ! i)
                \<in> {Unroll, Vectorize, MisalignedVectorize}"
    from i sel[of tv] tv have i': "i < nDims (tvs ?f1 tv)" by simp
    from u tv have "getParallelType (domain (tvs ?f2 tv) ! i) \<notin> ?S"
      by (simp add: allParallelTypesExcept_def)
    with sel[of tv] i' have "getParallelType (domain (tvs ?f2 tv) ! i)
                = getParallelType (domain (tvs ?f1 tv) ! i)" by blast
    with tv show "getParallelType (domain (tvs ?final tv) ! i)
                          = getParallelType (domain (tvs ?f1 tv) ! i)" by simp
  qed
  with eq show "\<exists>final. multiReductionInliner ext fusion0 rparams reduction_tv reference_tv
                    reduction_tvs cached_inputs cached_outputs dummy_outputs = Inr final
           \<and> (\<forall>tv. nDims (tvs final tv)
                      = nDims (tvs (propagate_and_rfactor ext reduction_tv reference_tv
                                      reduction_tvs fusion0) tv)
                  \<and> (\<forall>i < nDims (tvs final tv).
                        getParallelType (domain (tvs final tv) ! i)
                          \<in> {Unroll, Vectorize, MisalignedVectorize} \<longrightarrow>
                        getParallelType (domain (tvs final tv) ! i)
                          = getParallelType
                              (domain (tvs (propagate_and_rfactor ext reduction_tv reference_tv
                                              reduction_tvs fusion0) tv) ! i)))"
    by blast
qed

theorem not_unrolled_general_propagation_only_witness:
  "\<not> isUnrolled default_params
   \<and> parallelizeAllLike_selected_only demo_passes \<and> inlineMost_keeps_nodes demo_passes
   \<and> multiReductionInliner demo_passes demo_fusion default_params demo_reduction_tv
        demo_reference_tv [demo_reduction_tv, demo_other_reduction_tv] [] [] []
      = Inr (inlineMost demo_passes
               (fold removeOutput []
                  (parallelizeAllLike demo_passes demo_reference_tv (- 1) []
                     (allParallelTypesExcept {Unroll, Vectorize, MisalignedVectorize})
                     (propagate_and_rfactor demo_passes demo_reduction_tv demo_reference_tv
                        [demo_reduction_tv, demo_other_reduction_tv] demo_fusion))))
   \<and> nDims (tvs demo_final demo_reference_tv) = 2
   \<and> getParallelType (domain (tvs demo_final demo_reference_tv) ! 1) = Vectorize
   \<and> getParallelType (domain (tvs demo_final demo_reference_tv) ! 1)
       = getParallelType
           (domain (tvs (propagate_and_rfactor demo_passes demo_reduction_tv demo_reference_tv
                           [demo_reduction_tv, demo_other_reduction_tv] demo_fusion)
                      demo_reference_tv) ! 1)
   \<and> parallel_types_of demo_fusion demo_reference_tv = [BIDx, Vectorize]
   \<and> parallel_types_of demo_final demo_reference_tv = [BIDx, Vectorize]
   \<and> parallel_types_of demo_final demo_other_reduction_tv = [BIDx, Serial]
   \<and> parallel_types_of demo_final demo_broadcast_tv = [BIDx, Serial]"
proof -
  let ?f1 = "propagate_and_rfactor demo_passes demo_reduction_tv demo_reference_tv
               [demo_reduction_tv, demo_other_reduction_tv] demo_fusion"
  have a: "\<not> isUnrolled default_params" by code_simp
  have c1: "parallelizeAllLike_selected_only demo_passes" by (rule by_position_selected_only)
  have c2: "inlineMost_keeps_nodes demo_passes" by (rule demo_inlineMost_keeps_nodes)
  have b1: "parallel_types_of demo_fusion demo_reference_tv = [BIDx, Vectorize]" by code_simp
  have b2: "parallel_types_of demo_final demo_reference_tv = [BIDx, Vectorize]" by code_simp
  have b3: "parallel_types_of demo_final demo_other_reduction_tv = [BIDx, Serial]" by code_simp
  have b4: "parallel_types_of demo_final demo_broadcast_tv = [BIDx, Serial]" by code_simp
  have n: "nDims (tvs demo_final demo_reference_tv) = 2" by code_simp
  have v: "getParallelType (domain (tvs demo_final demo_reference_tv) ! 1) = Vectorize"
    by code_simp
  note t = not_unrolled_general_propagation_only
      [of default_params demo_passes demo_fusion demo_reduction_tv
          demo_reference_tv "[demo_reduction_tv, demo_other_reduction_tv]" "[]" "[]" "[]"]
  from t a have e: "multiReductionInliner demo_passes demo_fusion default_params
        demo_reduction_tv demo_reference_tv [demo_reduction_tv, demo_other_reduction_tv] [] [] []
      = Inr (inlineMost demo_passes
               (fold removeOutput []
                  (parallelizeAllLike demo_passes demo_reference_tv (- 1) []
                     (allParallelTypesExcept {Unroll, Vectorize, MisalignedVectorize})
                     ?f1)))"
    by blast
  from t a c1 c2 obtain final where
    f: "multiReductionInliner demo_passes demo_fusion default_params demo_reduction_tv
          demo_reference_tv [demo_reduction_tv, demo_other_reduction_tv] [] [] [] = Inr final"
    and g: "\<forall>tv. nDims (tvs final tv) = nDims (tvs ?f1 tv)
              \<and> (\<forall>i < nDims (tvs final tv).
                    getParallelType (domain (tvs final tv) ! i)
                      \<in> {Unroll, Vectorize, MisalignedVectorize} \<longrightarrow>
                    getParallelType (domain (tvs final tv) ! i)
                      = getParallelType (domain (tvs ?f1 tv) ! i))"
    by blast
  from f have fin: "final = demo_final" unfolding demo_final_def by simp
  from g have "1 < nDims (tvs demo_final demo_reference_tv) \<longrightarrow>
       getParallelType (domain (tvs demo_final demo_reference_tv) ! 1)
          \<in> {Unroll, Vectorize, MisalignedVectorize} \<longrightarrow>
       getParallelType (domain (tvs demo_final demo_reference_tv) ! 1)
          = getParallelType (domain (tvs ?f1 demo_reference_tv) ! 1)"
    unfolding fin by blast
  moreover have "1 < nDims (tvs demo_final demo_reference_tv)" unfolding n by simp
  moreover have "getParallelType (domain (tvs demo_final demo_reference_tv) ! 1)
          \<in> {Unroll, Vectorize, MisalignedVectorize}" unfolding v by simp
  ultimately have h: "getParallelType (domain (tvs demo_final demo_reference_tv) ! 1)
          = getParallelType (domain (tvs ?f1 demo_reference_tv) ! 1)"
    by blast
  show ?thesis by (intro conjI a c1 c2 e n v h b1 b2 b3 b4)
qed

text \<open>
  Claim C10 as it is written fails for the assignments a node already has.  The
  propagation that remains when \<^verbatim>\<open>rparams.isUnrolled()\<close> is false selects every
  assignment but unroll, vectorize and misaligned-vectorize, serial and group among
  them.  With the propagation by position, a reference node with the assignments group
  and serial, and a node with the assignments unroll and vectorize, the node ends with
  the assignments group and serial: its unroll and vectorize assignments are not left
  unchanged, one is replaced by serial, and the other by group.
\<close>

theorem not_unrolled_counterexample:
  "\<not> isUnrolled default_params
   \<and> \<not> isl (multiReductionInliner demo_passes demo_strip_fusion default_params 0 1 [0] [4] []
              [])
   \<and> parallel_types_of demo_strip_fusion 1 = [Group, Serial]
   \<and> parallel_types_of demo_strip_fusion 4 = [Unroll, Vectorize]
   \<and> parallel_types_of demo_strip_final 4 = [Group, Serial]"
  by code_simp

section \<open>Properties of \<^verbatim>\<open>projectPersistentBuffers\<close>\<close>

lemma spec_through_reduction_eq:
  "spec_through_reduction fusion chain = through_reduction fusion chain"
  by (auto simp: spec_through_reduction_def through_reduction_def hasReduction_def list_ex_iff)

lemma project_use_spec: "project_use ext buffer use st = spec_project_use ext buffer use st"
  by (simp add: project_use_def spec_project_use_def Let_def split: prod.splits)

lemma recompute_uses_spec:
  "recompute_uses ext buffer uses st =
     (if spec_uses_defined ext buffer uses st
      then Inr (fold (spec_project_use ext buffer) uses st)
      else Inl UseWithoutDefinition)"
  by (induction uses arbitrary: st) (simp_all add: project_use_spec)

lemma remdups_snoc: "remdups (ys @ [x]) = removeAll x (remdups ys) @ [x]"
  by (induction ys) (auto simp: removeAll_id)

lemma record_once_Cons:
  "rev (remdups (rev (x # xs))) = x # removeAll x (rev (remdups (rev xs)))"
  by (simp add: remdups_snoc removeAll_filter_not_eq rev_filter)

lemma filter_removeAll_absorb: "\<not> P x \<Longrightarrow> filter P (removeAll x ys) = filter P ys"
  by (induction ys) auto

lemma filter_removeAll_conj: "filter P (removeAll x ys) = filter (\<lambda>y. P y \<and> y \<noteq> x) ys"
  by (induction ys) auto

lemma record_fold:
  "fold (\<lambda>use recorded. if use \<in> set recorded then recorded else recorded @ [use]) xs acc
     = acc @ filter (\<lambda>y. y \<notin> set acc) (rev (remdups (rev xs)))"
proof (induction xs arbitrary: acc)
  case Nil
  then show ?case by simp
next
  case (Cons x xs)
  show ?case
  proof (cases "x \<in> set acc")
    case True
    then have "filter (\<lambda>y. y \<notin> set acc) (rev (remdups (rev (x # xs))))
        = filter (\<lambda>y. y \<notin> set acc) (rev (remdups (rev xs)))"
      unfolding record_once_Cons by (simp add: filter_removeAll_absorb)
    with True Cons.IH[of acc] show ?thesis by simp
  next
    case False
    have "filter (\<lambda>y. y \<notin> set acc) (rev (remdups (rev (x # xs))))
        = x # filter (\<lambda>y. y \<notin> set acc \<and> y \<noteq> x) (rev (remdups (rev xs)))"
      unfolding record_once_Cons using False by (simp add: filter_removeAll_conj)
    moreover have "(\<lambda>y. y \<notin> set (acc @ [x])) = (\<lambda>y. y \<notin> set acc \<and> y \<noteq> x)" by auto
    ultimately show ?thesis using False Cons.IH[of "acc @ [x]"] by simp
  qed
qed

lemma collect_chain_uses_spec:
  "collect_chain_uses fusion cs acc =
     (if list_all (\<lambda>chain. 2 \<le> length chain)
           (filter (\<lambda>chain. \<not> through_reduction fusion chain) cs)
      then Inr (fold (\<lambda>use recorded. if use \<in> set recorded then recorded else recorded @ [use])
                  (map (\<lambda>chain. chain ! 1)
                     (filter (\<lambda>chain. \<not> through_reduction fusion chain) cs)) acc)
      else Inl ChainWithoutUse)"
proof (induction cs arbitrary: acc)
  case Nil
  then show ?case by simp
next
  case (Cons c cs)
  show ?case
  proof (cases "through_reduction fusion c")
    case True
    with Cons.IH[of acc] show ?thesis by simp
  next
    case False
    show ?thesis
    proof (cases "length c < 2")
      case True
      with False show ?thesis by simp
    next
      case len: False
      show ?thesis
      proof (cases "c ! 1 \<in> set acc")
        case True
        with False len Cons.IH[of acc] show ?thesis by (simp add: Let_def)
      next
        case nin: False
        with False len Cons.IH[of "acc @ [c ! 1]"] show ?thesis by (simp add: Let_def)
      qed
    qed
  qed
qed

lemma collect_uses_spec:
  "collect_uses ext fusion buffer rps acc =
     (if list_all (\<lambda>chain. 2 \<le> length chain) (spec_surviving_chains ext fusion buffer rps)
      then Inr (fold (\<lambda>use recorded. if use \<in> set recorded then recorded else recorded @ [use])
                  (map (\<lambda>chain. chain ! 1) (spec_surviving_chains ext fusion buffer rps)) acc)
      else Inl ChainWithoutUse)"
proof (induction rps arbitrary: acc)
  case Nil
  then show ?case by (simp add: spec_surviving_chains_def)
next
  case (Cons rp rps)
  show ?case
    unfolding collect_uses.simps collect_chain_uses_spec
    using Cons.IH
    by (simp add: spec_surviving_chains_def spec_through_reduction_eq)
qed

lemma collect_uses_recorded:
  "collect_uses ext fusion buffer rps [] =
     (if list_all (\<lambda>chain. 2 \<le> length chain) (spec_surviving_chains ext fusion buffer rps)
      then Inr (spec_recorded_uses ext fusion buffer rps)
      else Inl ChainWithoutUse)"
  by (simp add: collect_uses_spec record_fold spec_recorded_uses_def)

lemma project_buffers_spec:
  "project_buffers ext persistent_info buffers st = Inr r \<longleftrightarrow>
     spec_buffers_ok ext persistent_info buffers st
     \<and> r = fold (spec_project_buffer ext persistent_info) buffers st"
proof (induction buffers arbitrary: st)
  case Nil
  then show ?case by auto
next
  case (Cons buffer_i rest)
  let ?buffer = "persistent_buffers persistent_info ! buffer_i"
  let ?rps = "persistent_buffer_resolution_points persistent_info ! buffer_i"
  show ?case
  proof (cases "?buffer \<in> set (projectable_persistent_buffers persistent_info)")
    case False
    then have "project_buffers ext persistent_info (buffer_i # rest) st
        = project_buffers ext persistent_info rest st"
      by (simp add: Let_def)
    moreover from False have "spec_project_buffer ext persistent_info buffer_i st = st"
      by (simp add: spec_project_buffer_def)
    moreover from False have "spec_buffer_ok ext persistent_info buffer_i st"
      by (simp add: spec_buffer_ok_def)
    ultimately show ?thesis using Cons.IH[of st] by simp
  next
    case True
    show ?thesis
    proof (cases "list_all (\<lambda>chain. 2 \<le> length chain)
                    (spec_surviving_chains ext (fst st) ?buffer ?rps)")
      case False
      with True have "project_buffers ext persistent_info (buffer_i # rest) st
          = Inl ChainWithoutUse"
        by (simp add: Let_def collect_uses_recorded)
      moreover from True False have "\<not> spec_buffer_ok ext persistent_info buffer_i st"
        by (simp add: spec_buffer_ok_def)
      ultimately show ?thesis by simp
    next
      case chains: True
      let ?uses = "spec_recorded_uses ext (fst st) ?buffer ?rps"
      show ?thesis
      proof (cases "spec_uses_defined ext ?buffer ?uses st")
        case False
        with True chains have "project_buffers ext persistent_info (buffer_i # rest) st
            = Inl UseWithoutDefinition"
          by (simp add: Let_def collect_uses_recorded recompute_uses_spec)
        moreover from True False have "\<not> spec_buffer_ok ext persistent_info buffer_i st"
          by (simp add: spec_buffer_ok_def)
        ultimately show ?thesis by simp
      next
        case defined: True
        with True chains have "project_buffers ext persistent_info (buffer_i # rest) st
            = project_buffers ext persistent_info rest
                (fold (spec_project_use ext ?buffer) ?uses st)"
          by (simp add: Let_def collect_uses_recorded recompute_uses_spec)
        moreover from True have "spec_project_buffer ext persistent_info buffer_i st
            = fold (spec_project_use ext ?buffer) ?uses st"
          by (simp add: spec_project_buffer_def Let_def)
        moreover from True chains defined have "spec_buffer_ok ext persistent_info buffer_i st"
          by (simp add: spec_buffer_ok_def)
        ultimately show ?thesis
          using Cons.IH[of "fold (spec_project_use ext ?buffer) ?uses st"] by simp
      qed
    qed
  qed
qed

lemma spec_recorded_uses_set:
  "set (spec_recorded_uses ext fusion buffer rps) =
     {chain ! 1 | rp chain. rp \<in> set rps
        \<and> chain \<in> set (getAllDependencyChains ext buffer rp fusion)
        \<and> \<not> spec_through_reduction fusion chain}"
  by (auto simp: spec_recorded_uses_def spec_surviving_chains_def)

lemma snd_spec_project_use:
  "snd (spec_project_use ext buffer use st) =
     snd st @ [fst (arith_add ext (fst (recompute ext buffer (fst st))) buffer
                      (snd (recompute ext buffer (fst st))))]"
  by (simp add: spec_project_use_def Let_def)

lemma length_fold_spec_project_use:
  "length (snd (fold (spec_project_use ext buffer) uses st)) = length (snd st) + length uses"
  by (induction uses arbitrary: st) (simp_all add: snd_spec_project_use)

text \<open>
  Claim C8.  \<^verbatim>\<open>projectPersistentBuffers\<close> returns a result exactly when the analysis has
  one list of resolution points for every persistent buffer and the work for the buffers
  meets no fatal diagnostic (every chain of a projectable buffer that does not pass
  through a reduction has a second node, and every recorded use has a defining expression
  when its turn comes).  The result is then the work of section 4.4 done for every
  persistent buffer of the analysis in turn: nothing for a buffer that is not
  projectable; for a projectable one, with the chains to all its resolution points that
  pass through a reduction discarded, the recorded uses are the second nodes of the
  remaining chains, each use once, and each recorded use in turn gets one recomputed
  duplicate of the buffer, one scaffold output that sums the duplicate with the buffer,
  appended to the list that is returned, and the rewrite of its defining expression from
  the buffer to the duplicate.  So the work for a projectable buffer appends exactly one
  scaffold output for each of its recorded uses.
\<close>

theorem projectPersistentBuffers_every_buffer:
  "(projectPersistentBuffers ext fusion = Inr r \<longleftrightarrow>
      (let persistent_info = persistentBuffers ext fusion;
           buffers = [0..<length (persistent_buffers persistent_info)]
       in length (persistent_buffers persistent_info)
            = length (persistent_buffer_resolution_points persistent_info)
          \<and> spec_buffers_ok ext persistent_info buffers (fusion, [])
          \<and> r = fold (spec_project_buffer ext persistent_info) buffers (fusion, [])))
   \<and> distinct (spec_recorded_uses ext f buffer resolution_points)
   \<and> set (spec_recorded_uses ext f buffer resolution_points) =
       {chain ! 1 | resolution_point chain. resolution_point \<in> set resolution_points
          \<and> chain \<in> set (getAllDependencyChains ext buffer resolution_point f)
          \<and> \<not> spec_through_reduction f chain}
   \<and> length (snd (spec_project_buffer ext info buffer_i st)) =
       length (snd st)
       + (if persistent_buffers info ! buffer_i \<in> set (projectable_persistent_buffers info)
          then length (spec_recorded_uses ext (fst st) (persistent_buffers info ! buffer_i)
                         (persistent_buffer_resolution_points info ! buffer_i))
          else 0)"
proof (intro conjI)
  show "projectPersistentBuffers ext fusion = Inr r \<longleftrightarrow>
      (let persistent_info = persistentBuffers ext fusion;
           buffers = [0..<length (persistent_buffers persistent_info)]
       in length (persistent_buffers persistent_info)
            = length (persistent_buffer_resolution_points persistent_info)
          \<and> spec_buffers_ok ext persistent_info buffers (fusion, [])
          \<and> r = fold (spec_project_buffer ext persistent_info) buffers (fusion, []))"
    by (simp add: projectPersistentBuffers_def Let_def project_buffers_spec)
next
  show "distinct (spec_recorded_uses ext f buffer resolution_points)"
    by (simp add: spec_recorded_uses_def)
next
  show "set (spec_recorded_uses ext f buffer resolution_points) =
       {chain ! 1 | resolution_point chain. resolution_point \<in> set resolution_points
          \<and> chain \<in> set (getAllDependencyChains ext buffer resolution_point f)
          \<and> \<not> spec_through_reduction f chain}"
    by (rule spec_recorded_uses_set)
next
  show "length (snd (spec_project_buffer ext info buffer_i st)) =
       length (snd st)
       + (if persistent_buffers info ! buffer_i \<in> set (projectable_persistent_buffers info)
          then length (spec_recorded_uses ext (fst st) (persistent_buffers info ! buffer_i)
                         (persistent_buffer_resolution_points info ! buffer_i))
          else 0)"
    by (simp add: spec_project_buffer_def Let_def length_fold_spec_project_use)
qed

theorem projectPersistentBuffers_every_buffer_witness:
  "persistent_buffers demo_info = [6, 1]
   \<and> persistent_buffer_resolution_points demo_info = [[9], [4, 9]]
   \<and> projectable_persistent_buffers demo_info = [1]
   \<and> spec_buffers_ok demo_graph_ops demo_info [0..<2] (demo_persistent_fusion, [])
   \<and> projectPersistentBuffers demo_graph_ops demo_persistent_fusion
       = Inr (fold (spec_project_buffer demo_graph_ops demo_info) [0..<2]
                (demo_persistent_fusion, []))
   \<and> length (snd (spec_project_buffer demo_graph_ops demo_info 0
                     (demo_persistent_fusion, []))) = 0
   \<and> length (snd (spec_project_buffer demo_graph_ops demo_info 1
                     (demo_persistent_fusion, []))) = 2
   \<and> getAllDependencyChains demo_graph_ops 1 4 demo_persistent_fusion
       = [[1, 2, 3, 4], [1, 4]]
   \<and> getAllDependencyChains demo_graph_ops 1 9 demo_persistent_fusion
       = [[1, 2, 3, 9], [1, 8, 9], [1, 4, 9], [1, 2, 3, 4, 9]]
   \<and> map (spec_through_reduction demo_persistent_fusion)
         [[1, 2, 3, 4], [1, 4], [1, 2, 3, 9], [1, 8, 9], [1, 4, 9], [1, 2, 3, 4, 9]]
       = [True, False, True, False, False, True]
   \<and> spec_surviving_chains demo_graph_ops demo_persistent_fusion 1 [4, 9]
       = [[1, 4], [1, 8, 9], [1, 4, 9]]
   \<and> spec_recorded_uses demo_graph_ops demo_persistent_fusion 1 [4, 9] = [4, 8]
   \<and> snd demo_projected = [11, 13]
   \<and> map (definition_of demo_persistent_fusion) [4, 8]
       = [Some \<lparr>exprType = OtherOp, inputs = [1, 3], out = 4\<rparr>,
          Some \<lparr>exprType = OtherOp, inputs = [1], out = 8\<rparr>]
   \<and> map (definition_of (fst demo_projected)) [4, 8, 10, 11, 12, 13]
       = [Some \<lparr>exprType = OtherOp, inputs = [10, 3], out = 4\<rparr>,
          Some \<lparr>exprType = OtherOp, inputs = [12], out = 8\<rparr>,
          Some \<lparr>exprType = BroadcastOp, inputs = [0], out = 1\<rparr>,
          Some \<lparr>exprType = OtherOp, inputs = [10, 1], out = 11\<rparr>,
          Some \<lparr>exprType = BroadcastOp, inputs = [0], out = 1\<rparr>,
          Some \<lparr>exprType = OtherOp, inputs = [12, 1], out = 13\<rparr>]
   \<and> map (definition_of (fst demo_projected)) [2, 9]
       = map (definition_of demo_persistent_fusion) [2, 9]"
proof -
  let ?info = "persistentBuffers demo_graph_ops demo_persistent_fusion"
  let ?R = "fold (spec_project_buffer demo_graph_ops ?info)
              [0..<length (persistent_buffers ?info)] (demo_persistent_fusion, [])"
  have i1: "persistent_buffers demo_info = [6, 1]" by code_simp
  have i2: "persistent_buffer_resolution_points demo_info = [[9], [4, 9]]" by code_simp
  have i3: "projectable_persistent_buffers demo_info = [1]" by code_simp
  have n: "length (persistent_buffers ?info) = 2" by code_simp
  have h1: "length (persistent_buffers ?info)
      = length (persistent_buffer_resolution_points ?info)"
    by code_simp
  have h2: "spec_buffers_ok demo_graph_ops demo_info [0..<2] (demo_persistent_fusion, [])"
    by code_simp
  have h2': "spec_buffers_ok demo_graph_ops ?info [0..<length (persistent_buffers ?info)]
      (demo_persistent_fusion, [])"
    using h2 unfolding n demo_info_def .
  note t = projectPersistentBuffers_every_buffer
      [of demo_graph_ops demo_persistent_fusion ?R demo_persistent_fusion 1 "[4, 9]"
          demo_info 0 "(demo_persistent_fusion, [])"]
  have "let persistent_info = ?info;
            buffers = [0..<length (persistent_buffers persistent_info)]
        in length (persistent_buffers persistent_info)
             = length (persistent_buffer_resolution_points persistent_info)
           \<and> spec_buffers_ok demo_graph_ops persistent_info buffers
               (demo_persistent_fusion, [])
           \<and> ?R = fold (spec_project_buffer demo_graph_ops persistent_info) buffers
                    (demo_persistent_fusion, [])"
    unfolding Let_def using h1 h2' by blast
  with t have "projectPersistentBuffers demo_graph_ops demo_persistent_fusion = Inr ?R"
    by blast
  then have r: "projectPersistentBuffers demo_graph_ops demo_persistent_fusion
       = Inr (fold (spec_project_buffer demo_graph_ops demo_info) [0..<2]
                (demo_persistent_fusion, []))"
    unfolding n demo_info_def .
  have p0: "persistent_buffers demo_info ! 0 \<notin> set (projectable_persistent_buffers demo_info)"
    by code_simp
  from t p0 have l0: "length (snd (spec_project_buffer demo_graph_ops demo_info 0
                     (demo_persistent_fusion, []))) = 0"
    by simp
  have l1: "length (snd (spec_project_buffer demo_graph_ops demo_info 1
                     (demo_persistent_fusion, []))) = 2"
    by code_simp
  have c1: "getAllDependencyChains demo_graph_ops 1 4 demo_persistent_fusion
       = [[1, 2, 3, 4], [1, 4]]" by code_simp
  have c2: "getAllDependencyChains demo_graph_ops 1 9 demo_persistent_fusion
       = [[1, 2, 3, 9], [1, 8, 9], [1, 4, 9], [1, 2, 3, 4, 9]]" by code_simp
  have c0: "map (spec_through_reduction demo_persistent_fusion)
         [[1, 2, 3, 4], [1, 4], [1, 2, 3, 9], [1, 8, 9], [1, 4, 9], [1, 2, 3, 4, 9]]
       = [True, False, True, False, False, True]" by code_simp
  have c3: "spec_surviving_chains demo_graph_ops demo_persistent_fusion 1 [4, 9]
       = [[1, 4], [1, 8, 9], [1, 4, 9]]" by code_simp
  have c4: "spec_recorded_uses demo_graph_ops demo_persistent_fusion 1 [4, 9] = [4, 8]"
    by code_simp
  have d1: "snd demo_projected = [11, 13]" by code_simp
  have d2: "map (definition_of demo_persistent_fusion) [4, 8]
       = [Some \<lparr>exprType = OtherOp, inputs = [1, 3], out = 4\<rparr>,
          Some \<lparr>exprType = OtherOp, inputs = [1], out = 8\<rparr>]" by code_simp
  have d3: "map (definition_of (fst demo_projected)) [4, 8, 10, 11, 12, 13]
       = [Some \<lparr>exprType = OtherOp, inputs = [10, 3], out = 4\<rparr>,
          Some \<lparr>exprType = OtherOp, inputs = [12], out = 8\<rparr>,
          Some \<lparr>exprType = BroadcastOp, inputs = [0], out = 1\<rparr>,
          Some \<lparr>exprType = OtherOp, inputs = [10, 1], out = 11\<rparr>,
          Some \<lparr>exprType = BroadcastOp, inputs = [0], out = 1\<rparr>,
          Some \<lparr>exprType = OtherOp, inputs = [12, 1], out = 13\<rparr>]" by code_simp
  have d4: "map (definition_of (fst demo_projected)) [2, 9]
       = map (definition_of demo_persistent_fusion) [2, 9]" by code_simp
  show ?thesis by (intro conjI i1 i2 i3 h2 r l0 l1 c1 c2 c0 c3 c4 d1 d2 d3 d4)
qed

end
